theory Spec2Isabelle
  imports Complex_Main
begin

section \<open>Dense matrices as the code uses them\<close>

text \<open>
  The program stores every parameter group in a dynamically sized Eigen matrix
  (\<^verbatim>\<open>VectorXd\<close>, \<^verbatim>\<open>MatrixXd\<close>, \<^verbatim>\<open>ArrayXXd\<close>).  Such a matrix is a number of rows, a number
  of columns and a contiguous coefficient array in column-major order, which is what
  \<^verbatim>\<open>data()\<close> exposes and what a \<^verbatim>\<open>Map\<close> over a raw buffer reads.  A \<^verbatim>\<open>double\<close> is
  idealised as a real number; the one place where this loses an outcome of the code,
  a division by a zero constant, is written out where it occurs.
\<close>

record 'a matrix =
  rows :: nat
  cols :: nat
  data :: "'a list"

definition size_m :: "'a matrix \<Rightarrow> nat" where
  "size_m M = rows M * cols M"

definition wf_matrix :: "'a matrix \<Rightarrow> bool" where
  "wf_matrix M \<longleftrightarrow> length (data M) = rows M * cols M"

definition coeff :: "'a matrix \<Rightarrow> nat \<Rightarrow> nat \<Rightarrow> 'a" where
  "coeff M i j = data M ! (i + j * rows M)"

definition mk_matrix :: "nat \<Rightarrow> nat \<Rightarrow> (nat \<Rightarrow> nat \<Rightarrow> 'a) \<Rightarrow> 'a matrix" where
  "mk_matrix r c f =
     \<lparr>rows = r, cols = c, data = map (\<lambda>k. f (k mod r) (k div r)) [0..<r * c]\<rparr>"

text \<open>\<^verbatim>\<open>VectorXd::Zero(n)\<close> and \<^verbatim>\<open>MatrixXd::Zero(r, c)\<close>.\<close>

definition Zero_m :: "nat \<Rightarrow> nat \<Rightarrow> real matrix" where
  "Zero_m r c = mk_matrix r c (\<lambda>i j. 0)"

text \<open>
  \<^verbatim>\<open>ArrayXXd::Random(r, c)\<close> and \<^verbatim>\<open>sampleNormal(r, c)\<close> fill a matrix of the given shape
  from a random source.  The source is a parameter of the model: the \<open>k\<close>-th coefficient
  drawn is \<open>src k\<close>.
\<close>

definition Random_m :: "nat \<Rightarrow> nat \<Rightarrow> (nat \<Rightarrow> real) \<Rightarrow> real matrix" where
  "Random_m r c src = \<lparr>rows = r, cols = c, data = map src [0..<r * c]\<rparr>"

definition cw_map :: "('a \<Rightarrow> 'b) \<Rightarrow> 'a matrix \<Rightarrow> 'b matrix" where
  "cw_map f M = \<lparr>rows = rows M, cols = cols M, data = map f (data M)\<rparr>"

section \<open>The model and its training configuration\<close>

text \<open>
  \<^verbatim>\<open>MCBM::Parameters\<close>.  The callback pointer is an opaque handle that no function
  modelled here reads; it is left out.
\<close>

record Parameters =
  verbosity :: int
  maxIter :: int
  threshold :: real
  numGrad :: int
  batchSize :: int
  cbIter :: int
  trainPriors :: bool
  trainWeights :: bool
  trainFeatures :: bool
  trainPredictors :: bool
  trainInputBias :: bool
  trainOutputBias :: bool
  regularizeFeatures :: real
  regularizePredictors :: real

definition Parameters_default :: Parameters where
  "Parameters_default =
     \<lparr>verbosity = 0, maxIter = 1000, threshold = 1 / 100000, numGrad = 20,
      batchSize = 2000, cbIter = 25,
      trainPriors = True, trainWeights = True, trainFeatures = True,
      trainPredictors = True, trainInputBias = True, trainOutputBias = True,
      regularizeFeatures = 0, regularizePredictors = 0\<rparr>"

record MCBM =
  mDimIn :: nat
  mNumComponents :: nat
  mNumFeatures :: nat
  mPriors :: "real matrix"
  mWeights :: "real matrix"
  mFeatures :: "real matrix"
  mPredictors :: "real matrix"
  mInputBias :: "real matrix"
  mOutputBias :: "real matrix"

datatype error = Exception string

text \<open>
  The shapes the constructor establishes and every member function relies on.
\<close>

definition has_shape :: "'a matrix \<Rightarrow> nat \<Rightarrow> nat \<Rightarrow> bool" where
  "has_shape M r c \<longleftrightarrow> rows M = r \<and> cols M = c \<and> length (data M) = r * c"

definition wf_MCBM :: "MCBM \<Rightarrow> bool" where
  "wf_MCBM m \<longleftrightarrow>
     1 \<le> mNumComponents m \<and> 1 \<le> mNumFeatures m \<and>
     has_shape (mPriors m) (mNumComponents m) 1 \<and>
     has_shape (mWeights m) (mNumComponents m) (mNumFeatures m) \<and>
     has_shape (mFeatures m) (mDimIn m) (mNumFeatures m) \<and>
     has_shape (mPredictors m) (mNumComponents m) (mDimIn m) \<and>
     has_shape (mInputBias m) (mDimIn m) (mNumComponents m) \<and>
     has_shape (mOutputBias m) (mNumComponents m) 1"

subsection \<open>Construction\<close>

text \<open>
  \<^verbatim>\<open>MCBM::MCBM(int dimIn, int numComponents, int numFeatures)\<close>.  A negative
  \<^verbatim>\<open>numFeatures\<close> selects \<^verbatim>\<open>dimIn\<close> features.  The two checks are the only ones the
  constructor makes.  \<open>rnd\<close> is the source behind \<^verbatim>\<open>ArrayXXd::Random\<close>, \<open>nrmF\<close> and
  \<open>nrmP\<close> the sources behind the two calls of \<^verbatim>\<open>sampleNormal\<close>.  The dimensions are
  handed to Eigen as sizes, hence as natural numbers.
\<close>

definition MCBM_new ::
  "int \<Rightarrow> int \<Rightarrow> int \<Rightarrow> (nat \<Rightarrow> real) \<Rightarrow> (nat \<Rightarrow> real) \<Rightarrow> (nat \<Rightarrow> real) \<Rightarrow> error + MCBM" where
  "MCBM_new dimIn numComponents numFeatures rnd nrmF nrmP =
     (let mDimIn' = dimIn;
          mNumComponents' = numComponents;
          mNumFeatures' = (if numFeatures < 0 then dimIn else numFeatures)
      in if mNumComponents' < 1 then
           Inl (Exception ''The number of components has to be positive.'')
         else if mNumFeatures' < 1 then
           Inl (Exception ''The number of features has to be positive.'')
         else
           Inr \<lparr>mDimIn = nat mDimIn',
                mNumComponents = nat mNumComponents',
                mNumFeatures = nat mNumFeatures',
                mPriors = Zero_m (nat mNumComponents') 1,
                mWeights = cw_map (\<lambda>r. \<bar>r\<bar> / 100 + 1 / 100)
                             (Random_m (nat mNumComponents') (nat mNumFeatures') rnd),
                mFeatures = cw_map (\<lambda>r. r / 100)
                              (Random_m (nat mDimIn') (nat mNumFeatures') nrmF),
                mPredictors = cw_map (\<lambda>r. r / 100)
                                (Random_m (nat mNumComponents') (nat mDimIn') nrmP),
                mInputBias = Zero_m (nat mDimIn') (nat mNumComponents'),
                mOutputBias = Zero_m (nat mNumComponents') 1\<rparr>)"

subsection \<open>Coefficient-wise and matrix operations of Eigen\<close>

definition cw_zip :: "('a \<Rightarrow> 'b \<Rightarrow> 'c) \<Rightarrow> 'a matrix \<Rightarrow> 'b matrix \<Rightarrow> 'c matrix" where
  "cw_zip f A B = mk_matrix (rows A) (cols A) (\<lambda>i j. f (coeff A i j) (coeff B i j))"

definition cw_add :: "real matrix \<Rightarrow> real matrix \<Rightarrow> real matrix" where
  "cw_add = cw_zip (+)"

definition cw_sub :: "real matrix \<Rightarrow> real matrix \<Rightarrow> real matrix" where
  "cw_sub = cw_zip (-)"

definition cw_mul :: "real matrix \<Rightarrow> real matrix \<Rightarrow> real matrix" where
  "cw_mul = cw_zip (*)"

definition cw_square :: "real matrix \<Rightarrow> real matrix" where
  "cw_square = cw_map (\<lambda>v. v * v)"

definition cw_exp :: "real matrix \<Rightarrow> real matrix" where
  "cw_exp = cw_map exp"

text \<open>\<^verbatim>\<open>1. - output.array()\<close>.\<close>

definition one_minus :: "real matrix \<Rightarrow> real matrix" where
  "one_minus = cw_map (\<lambda>v. 1 - v)"

definition transpose_m :: "'a matrix \<Rightarrow> 'a matrix" where
  "transpose_m M = mk_matrix (cols M) (rows M) (\<lambda>i j. coeff M j i)"

definition mat_mul :: "real matrix \<Rightarrow> real matrix \<Rightarrow> real matrix" where
  "mat_mul A B =
     mk_matrix (rows A) (cols B)
       (\<lambda>i j. sum_list (map (\<lambda>k. coeff A i k * coeff B k j) [0..<cols A]))"

text \<open>\<^verbatim>\<open>M.colwise() + v\<close> for a column vector \<open>v\<close>.\<close>

definition colwise_add :: "real matrix \<Rightarrow> real matrix \<Rightarrow> real matrix" where
  "colwise_add M v = mk_matrix (rows M) (cols M) (\<lambda>i j. coeff M i j + coeff v i 0)"

text \<open>\<^verbatim>\<open>M.rowwise() -= r\<close> and \<^verbatim>\<open>M.rowwise() * r\<close> for a row vector \<open>r\<close>.\<close>

definition rowwise_sub :: "real matrix \<Rightarrow> real matrix \<Rightarrow> real matrix" where
  "rowwise_sub M r = mk_matrix (rows M) (cols M) (\<lambda>i j. coeff M i j - coeff r 0 j)"

definition rowwise_mul :: "real matrix \<Rightarrow> real matrix \<Rightarrow> real matrix" where
  "rowwise_mul M r = mk_matrix (rows M) (cols M) (\<lambda>i j. coeff M i j * coeff r 0 j)"

text \<open>\<^verbatim>\<open>M.rowwise().sum()\<close>: the column vector of the row sums.\<close>

definition rowwise_sum :: "real matrix \<Rightarrow> real matrix" where
  "rowwise_sum M =
     mk_matrix (rows M) 1 (\<lambda>i j. sum_list (map (\<lambda>k. coeff M i k) [0..<cols M]))"

text \<open>\<^verbatim>\<open>M.sum()\<close>: the sum of all coefficients.\<close>

definition sum_m :: "real matrix \<Rightarrow> real" where
  "sum_m M = sum_list (data M)"

text \<open>\<^verbatim>\<open>M.middleCols(b, n)\<close>: the block of \<open>n\<close> columns starting at column \<open>b\<close>.\<close>

definition middleCols :: "'a matrix \<Rightarrow> nat \<Rightarrow> nat \<Rightarrow> 'a matrix" where
  "middleCols M b n = mk_matrix (rows M) n (\<lambda>i j. coeff M i (b + j))"

text \<open>
  \<^verbatim>\<open>ArrayXXd logProb01(2, n); logProb01 << logProb0, logProb1;\<close>: the comma initialiser
  fills the first row from the first row vector and the second row from the second.
\<close>

definition stack_rows :: "nat \<Rightarrow> real matrix \<Rightarrow> real matrix \<Rightarrow> real matrix" where
  "stack_rows n a b = mk_matrix 2 n (\<lambda>i j. if i = 0 then coeff a 0 j else coeff b 0 j)"

text \<open>
  \<^verbatim>\<open>Map<Matrix>(p + off, r, c)\<close>: a view of \<open>r * c\<close> consecutive coefficients of a raw
  buffer, starting at offset \<open>off\<close>, as an \<open>r\<close> by \<open>c\<close> matrix.
\<close>

definition Map_m :: "'a list \<Rightarrow> nat \<Rightarrow> nat \<Rightarrow> nat \<Rightarrow> 'a matrix" where
  "Map_m buf off r c = \<lparr>rows = r, cols = c, data = take (r * c) (drop off buf)\<rparr>"

text \<open>Writing the coefficients of a matrix through such a view.\<close>

definition put_span :: "'a list \<Rightarrow> nat \<Rightarrow> 'a matrix \<Rightarrow> 'a list" where
  "put_span buf off M = take off buf @ data M @ drop (off + length (data M)) buf"

text \<open>
  Modelled from the spec: \<^verbatim>\<open>logSumExp\<close> is declared in \<^verbatim>\<open>utils.h\<close>, which is not among
  the sources.  The spec describes it as the numerically stable computation of
  \<open>log (\<Sum> exp x\<^sub>i)\<close> that subtracts \<open>max x\<^sub>i\<close> before exponentiating; applied to a
  matrix it works on every column and yields a row vector.
\<close>

definition lse :: "real list \<Rightarrow> real" where
  "lse xs = (let mx = Max (set xs) in mx + ln (sum_list (map (\<lambda>v. exp (v - mx)) xs)))"

definition column :: "'a matrix \<Rightarrow> nat \<Rightarrow> 'a list" where
  "column M j = map (\<lambda>i. coeff M i j) [0..<rows M]"

definition logSumExp :: "real matrix \<Rightarrow> real matrix" where
  "logSumExp M = mk_matrix 1 (cols M) (\<lambda>i j. lse (column M j))"

subsection \<open>Vectorization\<close>

text \<open>
  A statement \<^verbatim>\<open>if(flag) { block }\<close> as a function on the state the block changes.
\<close>

definition when_flag :: "bool \<Rightarrow> ('s \<Rightarrow> 's) \<Rightarrow> 's \<Rightarrow> 's" where
  "when_flag flag block s = (if flag then block s else s)"

text \<open>
  Modelled from the spec: \<^verbatim>\<open>numParameters\<close> is defined in \<^verbatim>\<open>mcbm.h\<close>, which is not among
  the sources.  The spec gives the length of the flat buffer as the sum of the sizes of
  all groups whose training flag is set.
\<close>

definition numParameters :: "MCBM \<Rightarrow> Parameters \<Rightarrow> nat" where
  "numParameters m params =
     (if trainPriors params then size_m (mPriors m) else 0) +
     (if trainWeights params then size_m (mWeights m) else 0) +
     (if trainFeatures params then size_m (mFeatures m) else 0) +
     (if trainPredictors params then size_m (mPredictors m) else 0) +
     (if trainInputBias params then size_m (mInputBias m) else 0) +
     (if trainOutputBias params then size_m (mOutputBias m) else 0)"

text \<open>
  One copy loop of \<^verbatim>\<open>MCBM::parameters\<close>:
  \<^verbatim>\<open>for(int i = 0; i < M.size(); ++i, ++k) x[k] = M.data()[i];\<close>
  on the pair of the buffer and the running index \<open>k\<close>.
\<close>

definition copy_group :: "real matrix \<Rightarrow> real list \<times> nat \<Rightarrow> real list \<times> nat" where
  "copy_group M xk =
     (case xk of (x, k) \<Rightarrow>
        (fold (\<lambda>i x'. x'[k + i := data M ! i]) [0..<size_m M] x, k + size_m M))"

text \<open>
  \<^verbatim>\<open>MCBM::parameters\<close>.  \<^verbatim>\<open>lbfgs_malloc\<close> returns a zero-filled buffer of the requested
  length.
\<close>

definition parameters :: "MCBM \<Rightarrow> Parameters \<Rightarrow> real list" where
  "parameters m params =
     (let xk = (replicate (numParameters m params) 0, 0);
          xk = when_flag (trainPriors params) (copy_group (mPriors m)) xk;
          xk = when_flag (trainWeights params) (copy_group (mWeights m)) xk;
          xk = when_flag (trainFeatures params) (copy_group (mFeatures m)) xk;
          xk = when_flag (trainPredictors params) (copy_group (mPredictors m)) xk;
          xk = when_flag (trainInputBias params) (copy_group (mInputBias m)) xk;
          xk = when_flag (trainOutputBias params) (copy_group (mOutputBias m)) xk
      in fst xk)"

text \<open>
  \<^verbatim>\<open>MCBM::setParameters\<close> on the pair of the model and the running offset.  Each flagged
  group is assigned a view of the buffer whose shape comes from the stored dimensions.
\<close>

definition setParameters :: "MCBM \<Rightarrow> real list \<Rightarrow> Parameters \<Rightarrow> MCBM" where
  "setParameters m x params =
     (let mo = (m, 0);
          mo = when_flag (trainPriors params)
                 (\<lambda>(m, offset).
                    let m = m\<lparr>mPriors := Map_m x 0 (mNumComponents m) 1\<rparr>
                    in (m, offset + size_m (mPriors m))) mo;
          mo = when_flag (trainWeights params)
                 (\<lambda>(m, offset).
                    let m = m\<lparr>mWeights := Map_m x offset (mNumComponents m) (mNumFeatures m)\<rparr>
                    in (m, offset + size_m (mWeights m))) mo;
          mo = when_flag (trainFeatures params)
                 (\<lambda>(m, offset).
                    let m = m\<lparr>mFeatures := Map_m x offset (mDimIn m) (mNumFeatures m)\<rparr>
                    in (m, offset + size_m (mFeatures m))) mo;
          mo = when_flag (trainPredictors params)
                 (\<lambda>(m, offset).
                    let m = m\<lparr>mPredictors := Map_m x offset (mNumComponents m) (mDimIn m)\<rparr>
                    in (m, offset + size_m (mPredictors m))) mo;
          mo = when_flag (trainInputBias params)
                 (\<lambda>(m, offset).
                    let m = m\<lparr>mInputBias := Map_m x offset (mDimIn m) (mNumComponents m)\<rparr>
                    in (m, offset + size_m (mInputBias m))) mo;
          mo = when_flag (trainOutputBias params)
                 (\<lambda>(m, offset).
                    let m = m\<lparr>mOutputBias := Map_m x offset (mNumComponents m) 1\<rparr>
                    in (m, offset + size_m (mOutputBias m))) mo
      in fst mo)"

subsection \<open>Forward computation\<close>

text \<open>
  The part that \<^verbatim>\<open>MCBM::sample\<close> and \<^verbatim>\<open>MCBM::logLikelihood\<close> have in common word for
  word: the energies, the unnormalized log-probabilities per component and their sum
  over the components.  The result is the pair \<^verbatim>\<open>(logProb0, logProb1)\<close>.
\<close>

definition logProbs :: "MCBM \<Rightarrow> real matrix \<Rightarrow> real matrix \<times> real matrix" where
  "logProbs m input =
     (let featureEnergy = mat_mul (mWeights m)
                            (cw_square (mat_mul (transpose_m (mFeatures m)) input));
          biasEnergy = mat_mul (transpose_m (mInputBias m)) input;
          predictorEnergy = mat_mul (mPredictors m) input;
          logProb0 = colwise_add (cw_add featureEnergy biasEnergy) (mPriors m);
          logProb1 = colwise_add (cw_add logProb0 predictorEnergy) (mOutputBias m);
          logProb0 = logSumExp logProb0;
          logProb1 = logSumExp logProb1
      in (logProb0, logProb1))"

text \<open>
  The normalization in \<^verbatim>\<open>MCBM::logLikelihood\<close>: \<^verbatim>\<open>logNorm = logSumExp(logProb01)\<close>,
  \<^verbatim>\<open>logProb1 -= logNorm\<close>, \<^verbatim>\<open>logProb0 -= logNorm\<close>.  The result is the pair of the
  normalized \<^verbatim>\<open>(logProb0, logProb1)\<close>.
\<close>

definition normalizedLogProbs :: "MCBM \<Rightarrow> real matrix \<Rightarrow> real matrix \<times> real matrix" where
  "normalizedLogProbs m input =
     (case logProbs m input of (logProb0, logProb1) \<Rightarrow>
        let logProb01 = stack_rows (cols input) logProb0 logProb1;
            logNorm = logSumExp logProb01;
            logProb1 = cw_sub logProb1 logNorm;
            logProb0 = cw_sub logProb0 logNorm
        in (logProb0, logProb1))"

definition logLikelihood :: "MCBM \<Rightarrow> int matrix \<Rightarrow> int matrix \<Rightarrow> real matrix" where
  "logLikelihood m input' output' =
     (let input = cw_map real_of_int input';
          output = cw_map real_of_int output'
      in case normalizedLogProbs m input of (logProb0, logProb1) \<Rightarrow>
           cw_add (cw_mul output logProb1) (cw_mul (one_minus output) logProb0))"

text \<open>
  \<^verbatim>\<open>MCBM::sample\<close>.  \<open>rnd\<close> is the source behind \<^verbatim>\<open>Array<double, 1, Dynamic>::Random\<close>,
  whose draws lie between \<open>-1\<close> and \<open>1\<close>; the code compares their absolute values with
  the normalized probability of a one.
\<close>

definition sample :: "MCBM \<Rightarrow> int matrix \<Rightarrow> (nat \<Rightarrow> real) \<Rightarrow> int matrix" where
  "sample m input' rnd =
     (let input = cw_map real_of_int input'
      in case logProbs m input of (logProb0, logProb1) \<Rightarrow>
           let logProb01 = stack_rows (cols input) logProb0 logProb1;
               logProb1 = cw_sub logProb1 (logSumExp logProb01)
           in cw_zip (\<lambda>u p. if u < p then 1 else 0)
                (cw_map abs (Random_m 1 (cols input) rnd)) (cw_exp logProb1))"

subsection \<open>Results of a floating-point division\<close>

text \<open>
  The arithmetic of the code is taken as exact: a \<^verbatim>\<open>double\<close> is a real number, and \<open>Fin r\<close>
  is the result whose value in exact arithmetic is \<open>r\<close>.  Rounding and the overflow of a
  \<^verbatim>\<open>double\<close> to an infinity are outside this model, so \<open>Fin r\<close> does not say that the
  \<^verbatim>\<open>double\<close> the code computes is finite.  The one exception that exact arithmetic itself
  has is kept: a division by zero does not trap in the code, its result is an infinity
  or a NaN, and every later addition, subtraction, multiplication, division by a number
  and square root of such a value is again an infinity or a NaN.  These values are not
  real numbers; they are the one outcome \<open>NonFinite\<close>.
\<close>

datatype dbl = Fin real | NonFinite

definition ddiv :: "real \<Rightarrow> real \<Rightarrow> dbl" where
  "ddiv a b = (if b = 0 then NonFinite else Fin (a / b))"

definition dbl_binop :: "(real \<Rightarrow> real \<Rightarrow> real) \<Rightarrow> dbl \<Rightarrow> dbl \<Rightarrow> dbl" where
  "dbl_binop f a b =
     (case a of NonFinite \<Rightarrow> NonFinite
      | Fin u \<Rightarrow> (case b of NonFinite \<Rightarrow> NonFinite | Fin v \<Rightarrow> Fin (f u v)))"

definition dadd :: "dbl \<Rightarrow> dbl \<Rightarrow> dbl" where
  "dadd = dbl_binop (+)"

definition dsub :: "dbl \<Rightarrow> dbl \<Rightarrow> dbl" where
  "dsub = dbl_binop (-)"

definition dmul :: "dbl \<Rightarrow> dbl \<Rightarrow> dbl" where
  "dmul = dbl_binop (*)"

definition ddiv_by :: "dbl \<Rightarrow> real \<Rightarrow> dbl" where
  "ddiv_by a b = (case a of NonFinite \<Rightarrow> NonFinite | Fin u \<Rightarrow> ddiv u b)"

definition dsqrt :: "dbl \<Rightarrow> dbl" where
  "dsqrt a = (case a of NonFinite \<Rightarrow> NonFinite | Fin u \<Rightarrow> Fin (sqrt u))"

subsection \<open>Gradient computation\<close>

text \<open>
  The first part of \<^verbatim>\<open>MCBM::computeGradient\<close> interprets memory: each group is a view
  either of the parameter buffer \<open>x\<close> at the running offset (flag set) or of the stored
  group (flag unset), and each gradient view starts at the running offset of the
  gradient buffer.  A gradient view is recorded by its offset.
\<close>

record views =
  priors :: "real matrix"
  priorsGrad :: nat
  weights :: "real matrix"
  weightsGrad :: nat
  features :: "real matrix"
  featuresGrad :: nat
  predictors :: "real matrix"
  predictorsGrad :: nat
  inputBias :: "real matrix"
  inputBiasGrad :: nat
  outputBias :: "real matrix"
  outputBiasGrad :: nat
  offset :: nat

definition interpret_memory :: "MCBM \<Rightarrow> real list \<Rightarrow> Parameters \<Rightarrow> views" where
  "interpret_memory m x params =
     (let off0 = 0;
          vPriors = (if trainPriors params then Map_m x 0 (mNumComponents m) 1
                     else Map_m (data (mPriors m)) 0 (mNumComponents m) 1);
          off1 = when_flag (trainPriors params) (\<lambda>off. off + size_m vPriors) off0;
          vWeights = (if trainWeights params
                      then Map_m x off1 (mNumComponents m) (mNumFeatures m)
                      else Map_m (data (mWeights m)) 0 (mNumComponents m) (mNumFeatures m));
          off2 = when_flag (trainWeights params) (\<lambda>off. off + size_m vWeights) off1;
          vFeatures = (if trainFeatures params
                       then Map_m x off2 (mDimIn m) (mNumFeatures m)
                       else Map_m (data (mFeatures m)) 0 (mDimIn m) (mNumFeatures m));
          off3 = when_flag (trainFeatures params) (\<lambda>off. off + size_m vFeatures) off2;
          vPredictors = (if trainPredictors params
                         then Map_m x off3 (mNumComponents m) (mDimIn m)
                         else Map_m (data (mPredictors m)) 0 (mNumComponents m) (mDimIn m));
          off4 = when_flag (trainPredictors params) (\<lambda>off. off + size_m vPredictors) off3;
          vInputBias = (if trainInputBias params
                        then Map_m x off4 (mDimIn m) (mNumComponents m)
                        else Map_m (data (mInputBias m)) 0 (mDimIn m) (mNumComponents m));
          off5 = when_flag (trainInputBias params) (\<lambda>off. off + size_m vInputBias) off4;
          vOutputBias = (if trainOutputBias params
                         then Map_m x off5 (mNumComponents m) 1
                         else Map_m (data (mOutputBias m)) 0 (mNumComponents m) 1);
          off6 = when_flag (trainOutputBias params) (\<lambda>off. off + size_m vOutputBias) off5
      in \<lparr>priors = vPriors, priorsGrad = off0,
          weights = vWeights, weightsGrad = off1,
          features = vFeatures, featuresGrad = off2,
          predictors = vPredictors, predictorsGrad = off3,
          inputBias = vInputBias, inputBiasGrad = off4,
          outputBias = vOutputBias, outputBiasGrad = off5,
          offset = off6\<rparr>)"

text \<open>\<^verbatim>\<open>view.setZero()\<close> and \<^verbatim>\<open>view += C\<close> on a view of the gradient buffer.\<close>

definition setZero_at :: "real list \<Rightarrow> nat \<Rightarrow> nat \<Rightarrow> nat \<Rightarrow> real list" where
  "setZero_at g off r c = put_span g off (Zero_m r c)"

definition add_at :: "real list \<Rightarrow> nat \<Rightarrow> nat \<Rightarrow> nat \<Rightarrow> real matrix \<Rightarrow> real list" where
  "add_at g off r c C = put_span g off (cw_add (Map_m g off r c) C)"

definition initialize_gradients :: "MCBM \<Rightarrow> views \<Rightarrow> Parameters \<Rightarrow> real list \<Rightarrow> real list" where
  "initialize_gradients m V params g =
     (let g = when_flag (trainPriors params)
                (\<lambda>g. setZero_at g (priorsGrad V) (mNumComponents m) 1) g;
          g = when_flag (trainWeights params)
                (\<lambda>g. setZero_at g (weightsGrad V) (mNumComponents m) (mNumFeatures m)) g;
          g = when_flag (trainFeatures params)
                (\<lambda>g. setZero_at g (featuresGrad V) (mDimIn m) (mNumFeatures m)) g;
          g = when_flag (trainPredictors params)
                (\<lambda>g. setZero_at g (predictorsGrad V) (mNumComponents m) (mDimIn m)) g;
          g = when_flag (trainInputBias params)
                (\<lambda>g. setZero_at g (inputBiasGrad V) (mDimIn m) (mNumComponents m)) g;
          g = when_flag (trainOutputBias params)
                (\<lambda>g. setZero_at g (outputBiasGrad V) (mNumComponents m) 1) g
      in g)"

text \<open>
  The quantities one pass of the batch loop computes from its slice of the data before
  it touches the accumulators, under the names they have in the code at the end of
  that part.
\<close>

record forward =
  featureOutput :: "real matrix"
  featureOutputSq :: "real matrix"
  logPost0 :: "real matrix"
  logPost1 :: "real matrix"
  logProb0 :: "real matrix"
  logProb1 :: "real matrix"

definition batch_forward :: "views \<Rightarrow> real matrix \<Rightarrow> forward" where
  "batch_forward V input =
     (let vFeatureOutput = mat_mul (transpose_m (features V)) input;
          vFeatureOutputSq = cw_square vFeatureOutput;
          weightsOutput = mat_mul (weights V) vFeatureOutputSq;
          predictorOutput = mat_mul (predictors V) input;
          vLogPost0 = colwise_add
                        (cw_add weightsOutput (mat_mul (transpose_m (inputBias V)) input))
                        (priors V);
          vLogPost1 = colwise_add (cw_add vLogPost0 predictorOutput) (outputBias V);
          vLogProb0 = logSumExp vLogPost0;
          vLogProb1 = logSumExp vLogPost1;
          vLogPost0 = rowwise_sub vLogPost0 vLogProb0;
          vLogPost1 = rowwise_sub vLogPost1 vLogProb1;
          logProb01 = stack_rows (cols input) vLogProb0 vLogProb1;
          logNorm = logSumExp logProb01;
          vLogProb1 = cw_sub vLogProb1 logNorm;
          vLogProb0 = cw_sub vLogProb0 logNorm
      in \<lparr>featureOutput = vFeatureOutput, featureOutputSq = vFeatureOutputSq,
          logPost0 = vLogPost0, logPost1 = vLogPost1,
          logProb0 = vLogProb0, logProb1 = vLogProb1\<rparr>)"

text \<open>The accumulation of the six gradients in one pass of the batch loop.\<close>

definition batch_gradients ::
  "MCBM \<Rightarrow> views \<Rightarrow> Parameters \<Rightarrow> real matrix \<Rightarrow> real matrix \<Rightarrow> forward \<Rightarrow> real list \<Rightarrow> real list" where
  "batch_gradients m V params input output F g =
     (let tmp = cw_sub (cw_mul output (cw_exp (logProb0 F)))
                       (cw_mul (one_minus output) (cw_exp (logProb1 F)));
          post0Tmp = rowwise_mul (cw_exp (logPost0 F)) tmp;
          post1Tmp = rowwise_mul (cw_exp (logPost1 F)) tmp;
          postDiffTmp = cw_sub post1Tmp post0Tmp;
          g = when_flag (trainPriors params)
                (\<lambda>g. add_at g (priorsGrad V) (mNumComponents m) 1 (rowwise_sum postDiffTmp)) g;
          g = when_flag (trainWeights params)
                (\<lambda>g. add_at g (weightsGrad V) (mNumComponents m) (mNumFeatures m)
                       (mat_mul postDiffTmp (transpose_m (featureOutputSq F)))) g;
          g = when_flag (trainFeatures params)
                (\<lambda>g. let tmp2 = cw_map (\<lambda>v. v * 2)
                                   (mat_mul (transpose_m (weights V)) postDiffTmp);
                          tmp3 = cw_mul (featureOutput F) tmp2
                      in add_at g (featuresGrad V) (mDimIn m) (mNumFeatures m)
                           (mat_mul input (transpose_m tmp3))) g;
          g = when_flag (trainPredictors params)
                (\<lambda>g. add_at g (predictorsGrad V) (mNumComponents m) (mDimIn m)
                       (mat_mul post1Tmp (transpose_m input))) g;
          g = when_flag (trainInputBias params)
                (\<lambda>g. add_at g (inputBiasGrad V) (mDimIn m) (mNumComponents m)
                       (mat_mul input (transpose_m postDiffTmp))) g;
          g = when_flag (trainOutputBias params)
                (\<lambda>g. add_at g (outputBiasGrad V) (mNumComponents m) 1
                       (rowwise_sum post1Tmp)) g
      in g)"

text \<open>
  The body of the batch loop on the pair of \<^verbatim>\<open>logLik\<close> and the gradient buffer; without
  a gradient buffer the pass ends after the log-likelihood (\<^verbatim>\<open>continue\<close>).
\<close>

definition batch_step ::
  "MCBM \<Rightarrow> views \<Rightarrow> Parameters \<Rightarrow> real matrix \<Rightarrow> real matrix \<Rightarrow>
     real \<times> real list option \<Rightarrow> real \<times> real list option" where
  "batch_step m V params input output st =
     (case st of (logLik, g) \<Rightarrow>
        let F = batch_forward V input;
            logLik = logLik + sum_m (cw_add (cw_mul output (logProb1 F))
                                            (cw_mul (one_minus output) (logProb0 F)))
        in case g of
             None \<Rightarrow> (logLik, None)
           | Some g \<Rightarrow> (logLik, Some (batch_gradients m V params input output F g)))"

text \<open>
  The batch loop \<^verbatim>\<open>for(int b = 0; b < inputCompl.cols(); b += batchSize)\<close>.  With a batch
  size of zero the loop never advances.  With a negative batch size the first pass asks
  \<^verbatim>\<open>middleCols\<close> for a block of negative width, which Eigen does not return from.  In
  both cases the function yields no result.
\<close>

partial_function (option) batch_loop ::
  "MCBM \<Rightarrow> views \<Rightarrow> Parameters \<Rightarrow> real matrix \<Rightarrow> real matrix \<Rightarrow> int \<Rightarrow> int \<Rightarrow>
     real \<times> real list option \<Rightarrow> (real \<times> real list option) option" where
  "batch_loop m V params inputCompl outputCompl batchSize' b st =
     (if b < int (cols inputCompl) then
        (if b < 0 \<or> min batchSize' (int (cols inputCompl) - b) < 0 then None
         else batch_loop m V params inputCompl outputCompl batchSize' (b + batchSize')
                (batch_step m V params
                   (middleCols inputCompl (nat b)
                      (nat (min batchSize' (int (cols inputCompl) - b))))
                   (middleCols outputCompl (nat b)
                      (nat (min batchSize' (int (cols inputCompl) - b))))
                   st))
      else Some st)"

text \<open>
  \<^verbatim>\<open>MCBM::computeGradient\<close>.  The gradient buffer is optional (a null pointer in the
  code).  The result is the returned value and the gradient buffer after the call; both
  divisions by \<^verbatim>\<open>normConst\<close> are floating-point divisions.
\<close>

definition normConst :: "real matrix \<Rightarrow> real" where
  "normConst inputCompl = real (cols inputCompl) / ln 2"

definition computeGradient ::
  "MCBM \<Rightarrow> real matrix \<Rightarrow> real matrix \<Rightarrow> real list \<Rightarrow> real list option \<Rightarrow> Parameters \<Rightarrow>
     (dbl \<times> dbl list option) option" where
  "computeGradient m inputCompl outputCompl x g params =
     (let logLik = 0;
          V = interpret_memory m x params;
          g = map_option (initialize_gradients m V params) g;
          numData = int (cols inputCompl);
          batchSize' = min (batchSize params) numData
      in case batch_loop m V params inputCompl outputCompl batchSize' 0 (logLik, g) of
           None \<Rightarrow> None
         | Some (logLik, g) \<Rightarrow>
             Some (ddiv logLik (normConst inputCompl),
                   map_option
                     (\<lambda>g. map (\<lambda>v. ddiv v (normConst inputCompl)) (take (offset V) g) @
                          map Fin (drop (offset V) g)) g))"

subsection \<open>Gradient check\<close>

record ParamsLBFGS =
  inst_mcbm :: MCBM
  inst_params :: Parameters
  inst_input :: "real matrix"
  inst_output :: "real matrix"

definition evaluateLBFGS ::
  "ParamsLBFGS \<Rightarrow> real list \<Rightarrow> real list option \<Rightarrow> (dbl \<times> dbl list option) option" where
  "evaluateLBFGS inst x g =
     computeGradient (inst_mcbm inst) (inst_input inst) (inst_output inst) x g (inst_params inst)"

text \<open>
  The loop of \<^verbatim>\<open>MCBM::checkGradient\<close> that computes the numerical gradient, over the
  indices still to visit, on the pair of the arrays \<^verbatim>\<open>y\<close> and \<^verbatim>\<open>n\<close>.
\<close>

fun central_differences ::
  "ParamsLBFGS \<Rightarrow> real \<Rightarrow> real list \<Rightarrow> nat list \<Rightarrow> real list \<times> dbl list \<Rightarrow>
     (real list \<times> dbl list) option" where
  "central_differences inst epsilon x [] yn = Some yn"
| "central_differences inst epsilon x (i # idxs) yn =
     (case yn of (y, n) \<Rightarrow>
        let y = y[i := x ! i + epsilon] in
        case evaluateLBFGS inst y None of
          None \<Rightarrow> None
        | Some (val1, _) \<Rightarrow>
            let y = y[i := x ! i - epsilon] in
            case evaluateLBFGS inst y None of
              None \<Rightarrow> None
            | Some (val2, _) \<Rightarrow>
                let y = y[i := x ! i];
                    n = n[i := ddiv_by (dsub val1 val2) (2 * epsilon)]
                in central_differences inst epsilon x idxs (y, n))"

text \<open>
  \<^verbatim>\<open>MCBM::checkGradient\<close>.  The local arrays \<^verbatim>\<open>g\<close> and \<^verbatim>\<open>n\<close> are not initialised by the
  code; \<open>g0\<close> and \<open>n0\<close> are their contents on entry.  The analytic evaluation is given a
  gradient buffer and therefore hands one back.
\<close>

definition checkGradient ::
  "MCBM \<Rightarrow> real matrix \<Rightarrow> real matrix \<Rightarrow> real \<Rightarrow> Parameters \<Rightarrow> real list \<Rightarrow> dbl list \<Rightarrow>
     (error + dbl) option" where
  "checkGradient m input output epsilon params g0 n0 =
     (if rows input \<noteq> mDimIn m \<or> rows output \<noteq> 1 then
        Some (Inl (Exception ''Data has wrong dimensionality.''))
      else if cols input \<noteq> cols output then
        Some (Inl (Exception ''The number of inputs and outputs should be the same.''))
      else
        let x = parameters m params;
            numParams = numParameters m params;
            y = map (\<lambda>i. x ! i) [0..<numParams];
            inst = \<lparr>inst_mcbm = m, inst_params = params,
                    inst_input = input, inst_output = output\<rparr>
        in case central_differences inst epsilon x [0..<numParams] (y, n0) of
             None \<Rightarrow> None
           | Some (y, n) \<Rightarrow>
               (case evaluateLBFGS inst x (Some g0) of
                  None \<Rightarrow> None
                | Some (val, None) \<Rightarrow> None
                | Some (val, Some g) \<Rightarrow>
                    let err = fold (\<lambda>i err. dadd err (dmul (dsub (g ! i) (n ! i))
                                                           (dsub (g ! i) (n ! i))))
                                [0..<numParams] (Fin 0)
                    in Some (Inr (dsqrt err))))"

subsection \<open>The flat layout, as a specification\<close>

text \<open>
  What the spec calls the flat parameter buffer: the coefficients of the flagged groups,
  one group after the other in the order priors, weights, features, predictors, input
  bias, output bias, with the unflagged groups left out.
\<close>

definition flagged :: "bool \<Rightarrow> 'a matrix \<Rightarrow> 'a list" where
  "flagged flag M = (if flag then data M else [])"

definition flag_size :: "bool \<Rightarrow> nat \<Rightarrow> nat" where
  "flag_size flag n = (if flag then n else 0)"

definition flat_layout :: "MCBM \<Rightarrow> Parameters \<Rightarrow> real list" where
  "flat_layout m params =
     flagged (trainPriors params) (mPriors m) @
     flagged (trainWeights params) (mWeights m) @
     flagged (trainFeatures params) (mFeatures m) @
     flagged (trainPredictors params) (mPredictors m) @
     flagged (trainInputBias params) (mInputBias m) @
     flagged (trainOutputBias params) (mOutputBias m)"

text \<open>The offsets at which the six groups start in the flat buffer.\<close>

definition offWeights :: "MCBM \<Rightarrow> Parameters \<Rightarrow> nat" where
  "offWeights m params = flag_size (trainPriors params) (mNumComponents m)"

definition offFeatures :: "MCBM \<Rightarrow> Parameters \<Rightarrow> nat" where
  "offFeatures m params =
     offWeights m params + flag_size (trainWeights params) (mNumComponents m * mNumFeatures m)"

definition offPredictors :: "MCBM \<Rightarrow> Parameters \<Rightarrow> nat" where
  "offPredictors m params =
     offFeatures m params + flag_size (trainFeatures params) (mDimIn m * mNumFeatures m)"

definition offInputBias :: "MCBM \<Rightarrow> Parameters \<Rightarrow> nat" where
  "offInputBias m params =
     offPredictors m params + flag_size (trainPredictors params) (mNumComponents m * mDimIn m)"

definition offOutputBias :: "MCBM \<Rightarrow> Parameters \<Rightarrow> nat" where
  "offOutputBias m params =
     offInputBias m params + flag_size (trainInputBias params) (mDimIn m * mNumComponents m)"

definition offEnd :: "MCBM \<Rightarrow> Parameters \<Rightarrow> nat" where
  "offEnd m params =
     offOutputBias m params + flag_size (trainOutputBias params) (mNumComponents m)"

subsection \<open>Training entry point\<close>

text \<open>
  \<^verbatim>\<open>bool MCBM::train(input, output, params)\<close> has the single statement
  \<^verbatim>\<open>return false;\<close>.  The result is the returned flag together with the model after
  the call.
\<close>

definition train :: "MCBM \<Rightarrow> int matrix \<Rightarrow> int matrix \<Rightarrow> Parameters \<Rightarrow> bool \<times> MCBM" where
  "train m input output params = (False, m)"

section \<open>The computation for one column, as a specification\<close>

text \<open>
  The quantities of the forward and the gradient computation for a single data column,
  written coefficient by coefficient.  They follow the formulas of the code and are
  what the matrix expressions are proved to compute.  A column of the data is the
  function from the row index to the coefficient.
\<close>

definition col :: "real matrix \<Rightarrow> nat \<Rightarrow> nat \<Rightarrow> real" where
  "col X n d = (if d < rows X then coeff X d n else 0)"

text \<open>The stored parameter groups, seen as views.\<close>

definition stored_views :: "MCBM \<Rightarrow> views" where
  "stored_views m =
     \<lparr>priors = mPriors m, priorsGrad = 0,
      weights = mWeights m, weightsGrad = 0,
      features = mFeatures m, featuresGrad = 0,
      predictors = mPredictors m, predictorsGrad = 0,
      inputBias = mInputBias m, inputBiasGrad = 0,
      outputBias = mOutputBias m, outputBiasGrad = 0,
      offset = 0\<rparr>"

definition wf_views :: "views \<Rightarrow> nat \<Rightarrow> nat \<Rightarrow> nat \<Rightarrow> bool" where
  "wf_views V D C F \<longleftrightarrow>
     has_shape (priors V) C 1 \<and> has_shape (weights V) C F \<and>
     has_shape (features V) D F \<and> has_shape (predictors V) C D \<and>
     has_shape (inputBias V) D C \<and> has_shape (outputBias V) C 1"

definition s_featureOutput :: "views \<Rightarrow> (nat \<Rightarrow> real) \<Rightarrow> nat \<Rightarrow> real" where
  "s_featureOutput V v f = (\<Sum>d\<leftarrow>[0..<rows (features V)]. coeff (features V) d f * v d)"

text \<open>The unnormalized log-posteriors of the components for the outputs 0 and 1.\<close>

definition s_logPost0 :: "views \<Rightarrow> (nat \<Rightarrow> real) \<Rightarrow> nat \<Rightarrow> real" where
  "s_logPost0 V v c =
     (\<Sum>f\<leftarrow>[0..<cols (weights V)].
        coeff (weights V) c f * (s_featureOutput V v f * s_featureOutput V v f)) +
     (\<Sum>d\<leftarrow>[0..<rows (inputBias V)]. coeff (inputBias V) d c * v d) +
     coeff (priors V) c 0"

definition s_logPost1 :: "views \<Rightarrow> (nat \<Rightarrow> real) \<Rightarrow> nat \<Rightarrow> real" where
  "s_logPost1 V v c =
     s_logPost0 V v c +
     (\<Sum>d\<leftarrow>[0..<cols (predictors V)]. coeff (predictors V) c d * v d) +
     coeff (outputBias V) c 0"

text \<open>Their sums over the components, and the normalizer over the two outputs.\<close>

definition s_logProb0 :: "views \<Rightarrow> (nat \<Rightarrow> real) \<Rightarrow> real" where
  "s_logProb0 V v = lse (map (s_logPost0 V v) [0..<rows (weights V)])"

definition s_logProb1 :: "views \<Rightarrow> (nat \<Rightarrow> real) \<Rightarrow> real" where
  "s_logProb1 V v = lse (map (s_logPost1 V v) [0..<rows (weights V)])"

definition s_logNorm :: "views \<Rightarrow> (nat \<Rightarrow> real) \<Rightarrow> real" where
  "s_logNorm V v = lse [s_logProb0 V v, s_logProb1 V v]"

text \<open>The conditional log-likelihood of the output bit \<open>y\<close>.\<close>

definition s_logLik :: "views \<Rightarrow> (nat \<Rightarrow> real) \<Rightarrow> real \<Rightarrow> real" where
  "s_logLik V v y =
     y * (s_logProb1 V v - s_logNorm V v) + (1 - y) * (s_logProb0 V v - s_logNorm V v)"

text \<open>The factors of the gradient: \<^verbatim>\<open>tmp\<close>, \<^verbatim>\<open>post0Tmp\<close>, \<^verbatim>\<open>post1Tmp\<close>, \<^verbatim>\<open>postDiffTmp\<close>.\<close>

definition s_tmp :: "views \<Rightarrow> (nat \<Rightarrow> real) \<Rightarrow> real \<Rightarrow> real" where
  "s_tmp V v y =
     y * exp (s_logProb0 V v - s_logNorm V v) -
     (1 - y) * exp (s_logProb1 V v - s_logNorm V v)"

definition s_post0Tmp :: "views \<Rightarrow> (nat \<Rightarrow> real) \<Rightarrow> real \<Rightarrow> nat \<Rightarrow> real" where
  "s_post0Tmp V v y c = exp (s_logPost0 V v c - s_logProb0 V v) * s_tmp V v y"

definition s_post1Tmp :: "views \<Rightarrow> (nat \<Rightarrow> real) \<Rightarrow> real \<Rightarrow> nat \<Rightarrow> real" where
  "s_post1Tmp V v y c = exp (s_logPost1 V v c - s_logProb1 V v) * s_tmp V v y"

definition s_postDiffTmp :: "views \<Rightarrow> (nat \<Rightarrow> real) \<Rightarrow> real \<Rightarrow> nat \<Rightarrow> real" where
  "s_postDiffTmp V v y c = s_post1Tmp V v y c - s_post0Tmp V v y c"

text \<open>
  The sum of the log-likelihoods and the six sums the gradient views hold after the
  columns \<open>0, \<dots>, b - 1\<close> of the data \<open>X\<close> with outputs \<open>Y\<close>.  The six sums are kept in a
  record of the model's type, so that their flat layout is that of the parameters.
\<close>

definition logLik_sum :: "views \<Rightarrow> real matrix \<Rightarrow> real matrix \<Rightarrow> nat \<Rightarrow> real" where
  "logLik_sum V X Y b = (\<Sum>n\<leftarrow>[0..<b]. s_logLik V (col X n) (coeff Y 0 n))"

definition gradient_sums :: "MCBM \<Rightarrow> views \<Rightarrow> real matrix \<Rightarrow> real matrix \<Rightarrow> nat \<Rightarrow> MCBM" where
  "gradient_sums m V X Y b =
     \<lparr>mDimIn = mDimIn m, mNumComponents = mNumComponents m, mNumFeatures = mNumFeatures m,
      mPriors = mk_matrix (mNumComponents m) 1
        (\<lambda>c j. \<Sum>n\<leftarrow>[0..<b]. s_postDiffTmp V (col X n) (coeff Y 0 n) c),
      mWeights = mk_matrix (mNumComponents m) (mNumFeatures m)
        (\<lambda>c f. \<Sum>n\<leftarrow>[0..<b]. s_postDiffTmp V (col X n) (coeff Y 0 n) c *
                   (s_featureOutput V (col X n) f * s_featureOutput V (col X n) f)),
      mFeatures = mk_matrix (mDimIn m) (mNumFeatures m)
        (\<lambda>d f. \<Sum>n\<leftarrow>[0..<b]. col X n d *
                   (s_featureOutput V (col X n) f *
                    ((\<Sum>c\<leftarrow>[0..<rows (weights V)].
                        coeff (weights V) c f * s_postDiffTmp V (col X n) (coeff Y 0 n) c) * 2))),
      mPredictors = mk_matrix (mNumComponents m) (mDimIn m)
        (\<lambda>c d. \<Sum>n\<leftarrow>[0..<b]. s_post1Tmp V (col X n) (coeff Y 0 n) c * col X n d),
      mInputBias = mk_matrix (mDimIn m) (mNumComponents m)
        (\<lambda>d c. \<Sum>n\<leftarrow>[0..<b]. col X n d * s_postDiffTmp V (col X n) (coeff Y 0 n) c),
      mOutputBias = mk_matrix (mNumComponents m) 1
        (\<lambda>c j. \<Sum>n\<leftarrow>[0..<b]. s_post1Tmp V (col X n) (coeff Y 0 n) c)\<rparr>"

text \<open>The matrix \<open>M\<close> with the \<open>j\<close>-th coefficient of its array replaced by \<open>t\<close>.\<close>

definition set_coeff :: "real matrix \<Rightarrow> nat \<Rightarrow> real \<Rightarrow> real matrix" where
  "set_coeff M j t = M\<lparr>data := (data M)[j := t]\<rparr>"

text \<open>
  The value \<^verbatim>\<open>computeGradient\<close> returns at the parameter buffer \<open>x\<close> when no gradient is
  asked for, as a function of \<open>x\<close>.
\<close>

definition objective :: "MCBM \<Rightarrow> real matrix \<Rightarrow> real matrix \<Rightarrow> Parameters \<Rightarrow> real list \<Rightarrow> real" where
  "objective m X Y params x =
     (case computeGradient m X Y x None params of
        Some (Fin v, g) \<Rightarrow> v
      | _ \<Rightarrow> 0)"

section \<open>Concrete instances\<close>

text \<open>
  A model with two inputs, two components and one feature, a configuration that trains
  the priors, the features, the predictors and the output bias only, and a parameter
  buffer of the matching length ten.
\<close>

definition example_model :: MCBM where
  "example_model =
     \<lparr>mDimIn = 2, mNumComponents = 2, mNumFeatures = 1,
      mPriors = \<lparr>rows = 2, cols = 1, data = [1, 2]\<rparr>,
      mWeights = \<lparr>rows = 2, cols = 1, data = [3, 4]\<rparr>,
      mFeatures = \<lparr>rows = 2, cols = 1, data = [5, 6]\<rparr>,
      mPredictors = \<lparr>rows = 2, cols = 2, data = [7, 8, 9, 10]\<rparr>,
      mInputBias = \<lparr>rows = 2, cols = 2, data = [11, 12, 13, 14]\<rparr>,
      mOutputBias = \<lparr>rows = 2, cols = 1, data = [15, 16]\<rparr>\<rparr>"

definition example_params :: Parameters where
  "example_params = Parameters_default\<lparr>trainWeights := False, trainInputBias := False\<rparr>"

definition example_x :: "real list" where
  "example_x = [21, 22, 23, 24, 25, 26, 27, 28, 29, 30]"

text \<open>A second model of the same shape, all of whose coefficients are zero.\<close>

definition zero_model :: MCBM where
  "zero_model =
     \<lparr>mDimIn = 2, mNumComponents = 2, mNumFeatures = 1,
      mPriors = \<lparr>rows = 2, cols = 1, data = [0, 0]\<rparr>,
      mWeights = \<lparr>rows = 2, cols = 1, data = [0, 0]\<rparr>,
      mFeatures = \<lparr>rows = 2, cols = 1, data = [0, 0]\<rparr>,
      mPredictors = \<lparr>rows = 2, cols = 2, data = [0, 0, 0, 0]\<rparr>,
      mInputBias = \<lparr>rows = 2, cols = 2, data = [0, 0, 0, 0]\<rparr>,
      mOutputBias = \<lparr>rows = 2, cols = 1, data = [0, 0]\<rparr>\<rparr>"

text \<open>A batch of three input columns for that model, and its three output bits.\<close>

definition example_input :: "real matrix" where
  "example_input = \<lparr>rows = 2, cols = 3, data = [1, 0, 0, 1, 1, 1]\<rparr>"

definition example_output :: "real matrix" where
  "example_output = \<lparr>rows = 1, cols = 3, data = [1, 0, 1]\<rparr>"

text \<open>A batch without columns for that model.\<close>

definition empty_input :: "real matrix" where
  "empty_input = \<lparr>rows = 2, cols = 0, data = []\<rparr>"

definition empty_output :: "real matrix" where
  "empty_output = \<lparr>rows = 1, cols = 0, data = []\<rparr>"

text \<open>
  The smallest model, with one input, one component and one feature and all coefficients
  zero; a configuration that trains the output bias only; the batch of the single input
  \<open>0\<close> with output \<open>1\<close>; and the value \<^verbatim>\<open>computeGradient\<close> returns for it as a function of
  the single entry of the parameter buffer.
\<close>

definition tiny_model :: MCBM where
  "tiny_model =
     \<lparr>mDimIn = 1, mNumComponents = 1, mNumFeatures = 1,
      mPriors = \<lparr>rows = 1, cols = 1, data = [0]\<rparr>,
      mWeights = \<lparr>rows = 1, cols = 1, data = [0]\<rparr>,
      mFeatures = \<lparr>rows = 1, cols = 1, data = [0]\<rparr>,
      mPredictors = \<lparr>rows = 1, cols = 1, data = [0]\<rparr>,
      mInputBias = \<lparr>rows = 1, cols = 1, data = [0]\<rparr>,
      mOutputBias = \<lparr>rows = 1, cols = 1, data = [0]\<rparr>\<rparr>"

definition tiny_params :: Parameters where
  "tiny_params =
     Parameters_default\<lparr>trainPriors := False, trainWeights := False, trainFeatures := False,
                          trainPredictors := False, trainInputBias := False\<rparr>"

definition tiny_input :: "real matrix" where
  "tiny_input = \<lparr>rows = 1, cols = 1, data = [0]\<rparr>"

definition tiny_output :: "real matrix" where
  "tiny_output = \<lparr>rows = 1, cols = 1, data = [1]\<rparr>"

definition tiny_objective :: "real \<Rightarrow> real" where
  "tiny_objective t = objective tiny_model tiny_input tiny_output tiny_params [t]"

text \<open>The same batch with integer coefficients, as \<^verbatim>\<open>sample\<close> takes it.\<close>

definition example_bits :: "int matrix" where
  "example_bits = \<lparr>rows = 2, cols = 3, data = [1, 0, 0, 1, 1, 1]\<rparr>"

text \<open>A random source that always draws zero.\<close>

definition zero_source :: "nat \<Rightarrow> real" where
  "zero_source k = 0"

section \<open>Basic facts about matrices\<close>

lemma has_shape_wf: "has_shape M r c \<Longrightarrow> wf_matrix M"
  by (simp add: has_shape_def wf_matrix_def)

lemma has_shape_mk_matrix: "has_shape (mk_matrix r c f) r c"
  by (simp add: has_shape_def mk_matrix_def)

lemma has_shape_Zero_m: "has_shape (Zero_m r c) r c"
  by (simp add: Zero_m_def has_shape_mk_matrix)

lemma has_shape_Random_m: "has_shape (Random_m r c src) r c"
  by (simp add: has_shape_def Random_m_def)

lemma has_shape_cw_map: "has_shape M r c \<Longrightarrow> has_shape (cw_map f M) r c"
  by (simp add: has_shape_def cw_map_def)

lemma set_data_Zero_m: "set (data (Zero_m r c)) \<subseteq> {0}"
  by (auto simp: Zero_m_def mk_matrix_def)

section \<open>Construction\<close>

lemma MCBM_new_wf:
  assumes "MCBM_new dimIn numComponents numFeatures rnd nrmF nrmP = Inr m"
  shows "wf_MCBM m"
proof -
  let ?nf = "if numFeatures < 0 then dimIn else numFeatures"
  from assms have c: "1 \<le> numComponents" and f: "1 \<le> ?nf"
    by (auto simp: MCBM_new_def Let_def split: if_splits)
  from assms c f have m: "m = \<lparr>mDimIn = nat dimIn,
                mNumComponents = nat numComponents,
                mNumFeatures = nat ?nf,
                mPriors = Zero_m (nat numComponents) 1,
                mWeights = cw_map (\<lambda>r. \<bar>r\<bar> / 100 + 1 / 100)
                             (Random_m (nat numComponents) (nat ?nf) rnd),
                mFeatures = cw_map (\<lambda>r. r / 100)
                              (Random_m (nat dimIn) (nat ?nf) nrmF),
                mPredictors = cw_map (\<lambda>r. r / 100)
                                (Random_m (nat numComponents) (nat dimIn) nrmP),
                mInputBias = Zero_m (nat dimIn) (nat numComponents),
                mOutputBias = Zero_m (nat numComponents) 1\<rparr>"
    by (auto simp: MCBM_new_def Let_def split: if_splits)
  from c f show ?thesis
    unfolding wf_MCBM_def m
    by (auto simp: has_shape_Zero_m has_shape_cw_map has_shape_Random_m split: if_splits)
qed

text \<open>
  C6, as amended.  The constructor raises its configuration error whenever
  \<open>numComponents < 1\<close> or the effective number of features (\<open>dimIn\<close> when
  \<open>numFeatures\<close> is negative, \<open>numFeatures\<close> otherwise) is below one.  When \<open>dimIn\<close>,
  \<open>numComponents\<close> and \<open>numFeatures\<close> are all at least one, construction succeeds, the
  priors and both biases are zero in every coefficient and every weight is strictly
  positive.
\<close>

theorem MCBM_new_checks:
  "((numComponents < 1 \<or> (if numFeatures < 0 then dimIn else numFeatures) < 1) \<longrightarrow>
      (\<exists>msg. MCBM_new dimIn numComponents numFeatures rnd nrmF nrmP = Inl (Exception msg))) \<and>
   (1 \<le> dimIn \<and> 1 \<le> numComponents \<and> 1 \<le> numFeatures \<longrightarrow>
      (\<exists>m. MCBM_new dimIn numComponents numFeatures rnd nrmF nrmP = Inr m \<and>
           wf_MCBM m \<and>
           mDimIn m = nat dimIn \<and> mNumComponents m = nat numComponents \<and>
           mNumFeatures m = nat numFeatures \<and>
           (\<forall>v \<in> set (data (mPriors m)). v = 0) \<and>
           (\<forall>v \<in> set (data (mInputBias m)). v = 0) \<and>
           (\<forall>v \<in> set (data (mOutputBias m)). v = 0) \<and>
           (\<forall>v \<in> set (data (mWeights m)). 0 < v)))"
proof (intro conjI impI)
  assume "numComponents < 1 \<or> (if numFeatures < 0 then dimIn else numFeatures) < 1"
  then show "\<exists>msg. MCBM_new dimIn numComponents numFeatures rnd nrmF nrmP = Inl (Exception msg)"
    by (auto simp: MCBM_new_def Let_def)
next
  assume a: "1 \<le> dimIn \<and> 1 \<le> numComponents \<and> 1 \<le> numFeatures"
  then obtain m where m: "MCBM_new dimIn numComponents numFeatures rnd nrmF nrmP = Inr m"
    by (auto simp: MCBM_new_def Let_def)
  have pos: "\<And>r::real. 0 < \<bar>r\<bar> / 100 + 1 / 100"
    by (smt (verit) divide_nonneg_pos zero_less_divide_iff abs_ge_zero)
  have z: "\<And>r c v. v \<in> set (data (Zero_m r c)) \<Longrightarrow> v = 0"
    using set_data_Zero_m by blast
  from a m have "mDimIn m = nat dimIn \<and> mNumComponents m = nat numComponents \<and>
           mNumFeatures m = nat numFeatures \<and>
           (\<forall>v \<in> set (data (mPriors m)). v = 0) \<and>
           (\<forall>v \<in> set (data (mInputBias m)). v = 0) \<and>
           (\<forall>v \<in> set (data (mOutputBias m)). v = 0) \<and>
           (\<forall>v \<in> set (data (mWeights m)). 0 < v)"
    by (auto simp: MCBM_new_def Let_def cw_map_def pos dest: z)
  with m MCBM_new_wf [OF m]
  show "\<exists>m. MCBM_new dimIn numComponents numFeatures rnd nrmF nrmP = Inr m \<and>
           wf_MCBM m \<and>
           mDimIn m = nat dimIn \<and> mNumComponents m = nat numComponents \<and>
           mNumFeatures m = nat numFeatures \<and>
           (\<forall>v \<in> set (data (mPriors m)). v = 0) \<and>
           (\<forall>v \<in> set (data (mInputBias m)). v = 0) \<and>
           (\<forall>v \<in> set (data (mOutputBias m)). v = 0) \<and>
           (\<forall>v \<in> set (data (mWeights m)). 0 < v)"
    by blast
qed


section \<open>Training entry point\<close>

text \<open>
  C10.  \<^verbatim>\<open>train\<close> returns false and leaves each of the six parameter groups, and the
  model as a whole, as it was, for every input, output and configuration.
\<close>

theorem train_returns_false_unchanged:
  "fst (train m input output params) = False \<and>
   mPriors (snd (train m input output params)) = mPriors m \<and>
   mWeights (snd (train m input output params)) = mWeights m \<and>
   mFeatures (snd (train m input output params)) = mFeatures m \<and>
   mPredictors (snd (train m input output params)) = mPredictors m \<and>
   mInputBias (snd (train m input output params)) = mInputBias m \<and>
   mOutputBias (snd (train m input output params)) = mOutputBias m \<and>
   snd (train m input output params) = m"
  by (simp add: train_def)

section \<open>Vectorization\<close>

lemma when_flag_True [simp]: "when_flag True f s = f s"
  and when_flag_False [simp]: "when_flag False f s = s"
  by (simp_all add: when_flag_def)

lemma when_flag_add: "when_flag c (\<lambda>off. off + k) (n::nat) = n + flag_size c k"
  by (simp add: when_flag_def flag_size_def)

lemma length_flagged: "has_shape M r c \<Longrightarrow> length (flagged b M) = flag_size b (r * c)"
  by (simp add: flagged_def flag_size_def has_shape_def)

lemma size_m_Map_m [simp]: "size_m (Map_m buf off r c) = r * c"
  by (simp add: size_m_def Map_m_def)

lemma fold_copy:
  "n \<le> length d \<Longrightarrow> k + n \<le> length x \<Longrightarrow>
   fold (\<lambda>i x'. x'[k + i := d ! i]) [0..<n] x = take k x @ take n d @ drop (k + n) x"
proof (induction n)
  case 0
  then show ?case by simp
next
  case (Suc n)
  have "(take k x @ take n d @ drop (k + n) x)[k + n := d ! n]
        = take k x @ take n d @ (drop (k + n) x)[0 := d ! n]"
    using Suc.prems by (simp add: list_update_append)
  also have "(drop (k + n) x)[0 := d ! n] = d ! n # drop (k + Suc n) x"
    using Suc.prems by (cases "drop (k + n) x") (auto simp: drop_Suc  dest: arg_cong[where f=tl] simp: drop_tl)
  finally show ?case using Suc by (simp add: take_Suc_conv_app_nth)
qed

lemma length_flagged_wf:
  "wf_matrix M \<Longrightarrow> length (flagged b M) = (if b then size_m M else 0)"
  by (simp add: flagged_def wf_matrix_def size_m_def)

lemma copy_group_step:
  assumes "wf_matrix M" and "length (flagged b M) \<le> length rest"
  shows "when_flag b (copy_group M) (pre @ rest, length pre) =
           ((pre @ flagged b M) @ drop (length (flagged b M)) rest, length (pre @ flagged b M))"
proof (cases b)
  case False
  then show ?thesis by (simp add: flagged_def)
next
  case True
  with assms have len: "size_m M = length (data M)" "length (data M) \<le> length rest"
    by (simp_all add: wf_matrix_def size_m_def flagged_def)
  have "fold (\<lambda>i x'. x'[length pre + i := data M ! i]) [0..<length (data M)] (pre @ rest)
        = take (length pre) (pre @ rest) @ take (length (data M)) (data M)
          @ drop (length pre + length (data M)) (pre @ rest)"
    by (rule fold_copy) (use len in simp_all)
  with True len show ?thesis
    by (simp add: copy_group_def flagged_def)
qed

lemma numParameters_eq:
  "wf_MCBM m \<Longrightarrow> numParameters m params = offEnd m params"
  by (simp add: numParameters_def wf_MCBM_def has_shape_def size_m_def offEnd_def
      offOutputBias_def offInputBias_def offPredictors_def offFeatures_def offWeights_def
      flag_size_def)

lemma wf_MCBM_shapes:
  assumes "wf_MCBM m"
  shows "has_shape (mPriors m) (mNumComponents m) 1"
    "has_shape (mWeights m) (mNumComponents m) (mNumFeatures m)"
    "has_shape (mFeatures m) (mDimIn m) (mNumFeatures m)"
    "has_shape (mPredictors m) (mNumComponents m) (mDimIn m)"
    "has_shape (mInputBias m) (mDimIn m) (mNumComponents m)"
    "has_shape (mOutputBias m) (mNumComponents m) 1"
  using assms by (simp_all add: wf_MCBM_def)

lemma parameters_eq:
  assumes "wf_MCBM m"
  shows "parameters m params = flat_layout m params"
proof -
  note sh = wf_MCBM_shapes [OF assms, THEN has_shape_wf]
  define z where "z = replicate (numParameters m params) (0::real)"
  define f1 where "f1 = flagged (trainPriors params) (mPriors m)"
  define f2 where "f2 = flagged (trainWeights params) (mWeights m)"
  define f3 where "f3 = flagged (trainFeatures params) (mFeatures m)"
  define f4 where "f4 = flagged (trainPredictors params) (mPredictors m)"
  define f5 where "f5 = flagged (trainInputBias params) (mInputBias m)"
  define f6 where "f6 = flagged (trainOutputBias params) (mOutputBias m)"
  note fs = f1_def f2_def f3_def f4_def f5_def f6_def
  have lz: "length z = length f1 + length f2 + length f3 + length f4 + length f5 + length f6"
    unfolding fs sh [THEN length_flagged_wf] by (simp add: z_def numParameters_def)
  define z1 where "z1 = drop (length f1) z"
  define z2 where "z2 = drop (length f2) z1"
  define z3 where "z3 = drop (length f3) z2"
  define z4 where "z4 = drop (length f4) z3"
  define z5 where "z5 = drop (length f5) z4"
  define z6 where "z6 = drop (length f6) z5"
  note zs = z1_def z2_def z3_def z4_def z5_def z6_def
  have s1: "when_flag (trainPriors params) (copy_group (mPriors m)) (z, 0) = (f1 @ z1, length f1)"
    using copy_group_step [OF sh(1), of "trainPriors params" z "[]"]
    by (simp add: lz zs fs [symmetric])
  have s2: "when_flag (trainWeights params) (copy_group (mWeights m)) (f1 @ z1, length f1)
            = ((f1 @ f2) @ z2, length (f1 @ f2))"
    using copy_group_step [OF sh(2), of "trainWeights params" z1 f1]
    by (simp add: lz zs fs [symmetric])
  have s3: "when_flag (trainFeatures params) (copy_group (mFeatures m)) ((f1 @ f2) @ z2, length (f1 @ f2))
            = ((f1 @ f2 @ f3) @ z3, length (f1 @ f2 @ f3))"
    using copy_group_step [OF sh(3), of "trainFeatures params" z2 "f1 @ f2"]
    by (simp add: lz zs fs [symmetric])
  have s4: "when_flag (trainPredictors params) (copy_group (mPredictors m))
              ((f1 @ f2 @ f3) @ z3, length (f1 @ f2 @ f3))
            = ((f1 @ f2 @ f3 @ f4) @ z4, length (f1 @ f2 @ f3 @ f4))"
    using copy_group_step [OF sh(4), of "trainPredictors params" z3 "f1 @ f2 @ f3"]
    by (simp add: lz zs fs [symmetric])
  have s5: "when_flag (trainInputBias params) (copy_group (mInputBias m))
              ((f1 @ f2 @ f3 @ f4) @ z4, length (f1 @ f2 @ f3 @ f4))
            = ((f1 @ f2 @ f3 @ f4 @ f5) @ z5, length (f1 @ f2 @ f3 @ f4 @ f5))"
    using copy_group_step [OF sh(5), of "trainInputBias params" z4 "f1 @ f2 @ f3 @ f4"]
    by (simp add: lz zs fs [symmetric])
  have s6: "when_flag (trainOutputBias params) (copy_group (mOutputBias m))
              ((f1 @ f2 @ f3 @ f4 @ f5) @ z5, length (f1 @ f2 @ f3 @ f4 @ f5))
            = ((f1 @ f2 @ f3 @ f4 @ f5 @ f6) @ z6, length (f1 @ f2 @ f3 @ f4 @ f5 @ f6))"
    using copy_group_step [OF sh(6), of "trainOutputBias params" z5 "f1 @ f2 @ f3 @ f4 @ f5"]
    by (simp add: lz zs fs [symmetric])
  have z6: "z6 = []"
    by (simp add: zs lz)
  have "parameters m params = (f1 @ f2 @ f3 @ f4 @ f5 @ f6) @ z6"
    unfolding parameters_def Let_def z_def [symmetric] s1 s2 s3 s4 s5 s6 by simp
  then show ?thesis
    by (simp add: z6 flat_layout_def fs)
qed

lemma set_priors_step:
  "when_flag c (\<lambda>(m, offset).
       (m\<lparr>mPriors := Map_m x 0 (mNumComponents m) (1)\<rparr>,
        offset + size_m (mPriors (m\<lparr>mPriors := Map_m x 0 (mNumComponents m) (1)\<rparr>)))) (m, off)
   = (m\<lparr>mPriors := if c then Map_m x 0 (mNumComponents m) (1) else mPriors m\<rparr>,
      off + flag_size c (mNumComponents m))"
  by (cases c) (simp_all add: flag_size_def)

lemma set_weights_step:
  "when_flag c (\<lambda>(m, offset).
       (m\<lparr>mWeights := Map_m x offset (mNumComponents m) (mNumFeatures m)\<rparr>,
        offset + size_m (mWeights (m\<lparr>mWeights := Map_m x offset (mNumComponents m) (mNumFeatures m)\<rparr>)))) (m, off)
   = (m\<lparr>mWeights := if c then Map_m x off (mNumComponents m) (mNumFeatures m) else mWeights m\<rparr>,
      off + flag_size c (mNumComponents m * mNumFeatures m))"
  by (cases c) (simp_all add: flag_size_def)

lemma set_features_step:
  "when_flag c (\<lambda>(m, offset).
       (m\<lparr>mFeatures := Map_m x offset (mDimIn m) (mNumFeatures m)\<rparr>,
        offset + size_m (mFeatures (m\<lparr>mFeatures := Map_m x offset (mDimIn m) (mNumFeatures m)\<rparr>)))) (m, off)
   = (m\<lparr>mFeatures := if c then Map_m x off (mDimIn m) (mNumFeatures m) else mFeatures m\<rparr>,
      off + flag_size c (mDimIn m * mNumFeatures m))"
  by (cases c) (simp_all add: flag_size_def)

lemma set_predictors_step:
  "when_flag c (\<lambda>(m, offset).
       (m\<lparr>mPredictors := Map_m x offset (mNumComponents m) (mDimIn m)\<rparr>,
        offset + size_m (mPredictors (m\<lparr>mPredictors := Map_m x offset (mNumComponents m) (mDimIn m)\<rparr>)))) (m, off)
   = (m\<lparr>mPredictors := if c then Map_m x off (mNumComponents m) (mDimIn m) else mPredictors m\<rparr>,
      off + flag_size c (mNumComponents m * mDimIn m))"
  by (cases c) (simp_all add: flag_size_def)

lemma set_inputBias_step:
  "when_flag c (\<lambda>(m, offset).
       (m\<lparr>mInputBias := Map_m x offset (mDimIn m) (mNumComponents m)\<rparr>,
        offset + size_m (mInputBias (m\<lparr>mInputBias := Map_m x offset (mDimIn m) (mNumComponents m)\<rparr>)))) (m, off)
   = (m\<lparr>mInputBias := if c then Map_m x off (mDimIn m) (mNumComponents m) else mInputBias m\<rparr>,
      off + flag_size c (mDimIn m * mNumComponents m))"
  by (cases c) (simp_all add: flag_size_def)

lemma set_outputBias_step:
  "when_flag c (\<lambda>(m, offset).
       (m\<lparr>mOutputBias := Map_m x offset (mNumComponents m) (1)\<rparr>,
        offset + size_m (mOutputBias (m\<lparr>mOutputBias := Map_m x offset (mNumComponents m) (1)\<rparr>)))) (m, off)
   = (m\<lparr>mOutputBias := if c then Map_m x off (mNumComponents m) (1) else mOutputBias m\<rparr>,
      off + flag_size c (mNumComponents m))"
  by (cases c) (simp_all add: flag_size_def)

lemmas off_defs = offEnd_def offOutputBias_def offInputBias_def offPredictors_def
  offFeatures_def offWeights_def

lemma setParameters_eq:
  "setParameters m x params =
     m\<lparr>mPriors := (if trainPriors params then Map_m x 0 (mNumComponents m) 1 else mPriors m),
       mWeights := (if trainWeights params
                    then Map_m x (offWeights m params) (mNumComponents m) (mNumFeatures m)
                    else mWeights m),
       mFeatures := (if trainFeatures params
                     then Map_m x (offFeatures m params) (mDimIn m) (mNumFeatures m)
                     else mFeatures m),
       mPredictors := (if trainPredictors params
                       then Map_m x (offPredictors m params) (mNumComponents m) (mDimIn m)
                       else mPredictors m),
       mInputBias := (if trainInputBias params
                      then Map_m x (offInputBias m params) (mDimIn m) (mNumComponents m)
                      else mInputBias m),
       mOutputBias := (if trainOutputBias params
                       then Map_m x (offOutputBias m params) (mNumComponents m) 1
                       else mOutputBias m)\<rparr>"
  unfolding setParameters_def Let_def set_priors_step set_weights_step set_features_step
    set_predictors_step set_inputBias_step set_outputBias_step
  by (simp add: off_defs split del: if_split cong: if_cong)

lemma flag_size_simps [simp]: "flag_size True n = n" "flag_size False n = 0"
  by (simp_all add: flag_size_def)

lemma has_shape_Map_m:
  "off + r * c \<le> length buf \<Longrightarrow> has_shape (Map_m buf off r c) r c"
  by (simp add: has_shape_def Map_m_def)

lemma Map_m_append:
  "has_shape M r c \<Longrightarrow> length pre = off \<Longrightarrow> Map_m (pre @ data M @ post) off r c = M"
  by (simp add: has_shape_def Map_m_def)

lemma setParameters_unflagged:
  "\<not> trainPriors params \<Longrightarrow> mPriors (setParameters m x params) = mPriors m"
  "\<not> trainWeights params \<Longrightarrow> mWeights (setParameters m x params) = mWeights m"
  "\<not> trainFeatures params \<Longrightarrow> mFeatures (setParameters m x params) = mFeatures m"
  "\<not> trainPredictors params \<Longrightarrow> mPredictors (setParameters m x params) = mPredictors m"
  "\<not> trainInputBias params \<Longrightarrow> mInputBias (setParameters m x params) = mInputBias m"
  "\<not> trainOutputBias params \<Longrightarrow> mOutputBias (setParameters m x params) = mOutputBias m"
  by (simp_all add: setParameters_eq)

lemma setParameters_flagged:
  "trainPriors params \<Longrightarrow>
     mPriors (setParameters m x params) = Map_m x 0 (mNumComponents m) 1"
  "trainWeights params \<Longrightarrow>
     mWeights (setParameters m x params) =
       Map_m x (offWeights m params) (mNumComponents m) (mNumFeatures m)"
  "trainFeatures params \<Longrightarrow>
     mFeatures (setParameters m x params) =
       Map_m x (offFeatures m params) (mDimIn m) (mNumFeatures m)"
  "trainPredictors params \<Longrightarrow>
     mPredictors (setParameters m x params) =
       Map_m x (offPredictors m params) (mNumComponents m) (mDimIn m)"
  "trainInputBias params \<Longrightarrow>
     mInputBias (setParameters m x params) =
       Map_m x (offInputBias m params) (mDimIn m) (mNumComponents m)"
  "trainOutputBias params \<Longrightarrow>
     mOutputBias (setParameters m x params) =
       Map_m x (offOutputBias m params) (mNumComponents m) 1"
  by (simp_all add: setParameters_eq)

lemma setParameters_dims:
  "mDimIn (setParameters m x params) = mDimIn m"
  "mNumComponents (setParameters m x params) = mNumComponents m"
  "mNumFeatures (setParameters m x params) = mNumFeatures m"
  by (simp_all add: setParameters_eq)

lemma setParameters_shapes:
  assumes "wf_MCBM m" and "length x = numParameters m params"
  shows "has_shape (mPriors (setParameters m x params)) (mNumComponents m) 1"
    and "has_shape (mWeights (setParameters m x params)) (mNumComponents m) (mNumFeatures m)"
    and "has_shape (mFeatures (setParameters m x params)) (mDimIn m) (mNumFeatures m)"
    and "has_shape (mPredictors (setParameters m x params)) (mNumComponents m) (mDimIn m)"
    and "has_shape (mInputBias (setParameters m x params)) (mDimIn m) (mNumComponents m)"
    and "has_shape (mOutputBias (setParameters m x params)) (mNumComponents m) 1"
proof -
  note sh = wf_MCBM_shapes [OF assms(1)]
  have lx: "length x = offEnd m params"
    using assms by (simp add: numParameters_eq)
  show "has_shape (mPriors (setParameters m x params)) (mNumComponents m) 1"
    by (cases "trainPriors params")
       (simp_all add: setParameters_flagged setParameters_unflagged sh [unfolded One_nat_def]
         has_shape_Map_m lx off_defs)
  show "has_shape (mWeights (setParameters m x params)) (mNumComponents m) (mNumFeatures m)"
    by (cases "trainWeights params")
       (simp_all add: setParameters_flagged setParameters_unflagged sh [unfolded One_nat_def]
         has_shape_Map_m lx off_defs)
  show "has_shape (mFeatures (setParameters m x params)) (mDimIn m) (mNumFeatures m)"
    by (cases "trainFeatures params")
       (simp_all add: setParameters_flagged setParameters_unflagged sh [unfolded One_nat_def]
         has_shape_Map_m lx off_defs)
  show "has_shape (mPredictors (setParameters m x params)) (mNumComponents m) (mDimIn m)"
    by (cases "trainPredictors params")
       (simp_all add: setParameters_flagged setParameters_unflagged sh [unfolded One_nat_def]
         has_shape_Map_m lx off_defs)
  show "has_shape (mInputBias (setParameters m x params)) (mDimIn m) (mNumComponents m)"
    by (cases "trainInputBias params")
       (simp_all add: setParameters_flagged setParameters_unflagged sh [unfolded One_nat_def]
         has_shape_Map_m lx off_defs)
  show "has_shape (mOutputBias (setParameters m x params)) (mNumComponents m) 1"
    by (cases "trainOutputBias params")
       (simp_all add: setParameters_flagged setParameters_unflagged sh [unfolded One_nat_def]
         has_shape_Map_m lx off_defs)
qed

lemma setParameters_wf:
  assumes "wf_MCBM m" and "length x = numParameters m params"
  shows "wf_MCBM (setParameters m x params)"
  using setParameters_shapes [OF assms] assms(1)
  by (simp add: wf_MCBM_def setParameters_dims)

text \<open>
  C8.  For a well-shaped model and a flat buffer of the length \<^verbatim>\<open>numParameters\<close> gives,
  \<^verbatim>\<open>setParameters\<close> leaves every group whose flag is unset exactly as it was, assigns
  every flagged group the span of the buffer that starts where the flagged groups
  before it end, and keeps the shape of all six groups and the three dimensions.
\<close>

theorem setParameters_frame:
  assumes "wf_MCBM m" and "length x = numParameters m params"
  shows "(\<not> trainPriors params \<longrightarrow> mPriors (setParameters m x params) = mPriors m) \<and>
         (\<not> trainWeights params \<longrightarrow> mWeights (setParameters m x params) = mWeights m) \<and>
         (\<not> trainFeatures params \<longrightarrow> mFeatures (setParameters m x params) = mFeatures m) \<and>
         (\<not> trainPredictors params \<longrightarrow>
            mPredictors (setParameters m x params) = mPredictors m) \<and>
         (\<not> trainInputBias params \<longrightarrow> mInputBias (setParameters m x params) = mInputBias m) \<and>
         (\<not> trainOutputBias params \<longrightarrow>
            mOutputBias (setParameters m x params) = mOutputBias m) \<and>
         (trainPriors params \<longrightarrow>
            data (mPriors (setParameters m x params)) = take (mNumComponents m) (drop 0 x)) \<and>
         (trainWeights params \<longrightarrow>
            data (mWeights (setParameters m x params)) =
              take (mNumComponents m * mNumFeatures m) (drop (offWeights m params) x)) \<and>
         (trainFeatures params \<longrightarrow>
            data (mFeatures (setParameters m x params)) =
              take (mDimIn m * mNumFeatures m) (drop (offFeatures m params) x)) \<and>
         (trainPredictors params \<longrightarrow>
            data (mPredictors (setParameters m x params)) =
              take (mNumComponents m * mDimIn m) (drop (offPredictors m params) x)) \<and>
         (trainInputBias params \<longrightarrow>
            data (mInputBias (setParameters m x params)) =
              take (mDimIn m * mNumComponents m) (drop (offInputBias m params) x)) \<and>
         (trainOutputBias params \<longrightarrow>
            data (mOutputBias (setParameters m x params)) =
              take (mNumComponents m) (drop (offOutputBias m params) x)) \<and>
         has_shape (mPriors (setParameters m x params)) (mNumComponents m) 1 \<and>
         has_shape (mWeights (setParameters m x params)) (mNumComponents m) (mNumFeatures m) \<and>
         has_shape (mFeatures (setParameters m x params)) (mDimIn m) (mNumFeatures m) \<and>
         has_shape (mPredictors (setParameters m x params)) (mNumComponents m) (mDimIn m) \<and>
         has_shape (mInputBias (setParameters m x params)) (mDimIn m) (mNumComponents m) \<and>
         has_shape (mOutputBias (setParameters m x params)) (mNumComponents m) 1 \<and>
         mDimIn (setParameters m x params) = mDimIn m \<and>
         mNumComponents (setParameters m x params) = mNumComponents m \<and>
         mNumFeatures (setParameters m x params) = mNumFeatures m"
  by (intro conjI impI setParameters_unflagged setParameters_shapes [OF assms]
      setParameters_dims)
     (simp_all add: setParameters_flagged Map_m_def)

lemma offsets_flat:
  assumes "wf_MCBM s"
  shows "offWeights s params = length (flagged (trainPriors params) (mPriors s))"
    and "offFeatures s params =
           length (flagged (trainPriors params) (mPriors s) @
                   flagged (trainWeights params) (mWeights s))"
    and "offPredictors s params =
           length (flagged (trainPriors params) (mPriors s) @
                   flagged (trainWeights params) (mWeights s) @
                   flagged (trainFeatures params) (mFeatures s))"
    and "offInputBias s params =
           length (flagged (trainPriors params) (mPriors s) @
                   flagged (trainWeights params) (mWeights s) @
                   flagged (trainFeatures params) (mFeatures s) @
                   flagged (trainPredictors params) (mPredictors s))"
    and "offOutputBias s params =
           length (flagged (trainPriors params) (mPriors s) @
                   flagged (trainWeights params) (mWeights s) @
                   flagged (trainFeatures params) (mFeatures s) @
                   flagged (trainPredictors params) (mPredictors s) @
                   flagged (trainInputBias params) (mInputBias s))"
  by (simp_all add: off_defs wf_MCBM_shapes [OF assms, THEN length_flagged])

text \<open>
  C2.  For two well-shaped models \<open>s\<close> and \<open>t\<close> with the same dimensions and every set
  of flags, \<^verbatim>\<open>setParameters\<close> applied in \<open>t\<close> to the buffer that \<^verbatim>\<open>parameters\<close> builds
  from \<open>s\<close> makes every flagged group of \<open>t\<close> equal to that group of \<open>s\<close>: the same shape
  and the same coefficients.  The buffer is the flat layout, the flagged groups in the
  fixed order.
\<close>

theorem parameters_setParameters_roundtrip:
  assumes "wf_MCBM s" and "wf_MCBM t"
    and "mDimIn t = mDimIn s" and "mNumComponents t = mNumComponents s"
    and "mNumFeatures t = mNumFeatures s"
  shows "(trainPriors params \<longrightarrow>
            mPriors (setParameters t (parameters s params) params) = mPriors s) \<and>
         (trainWeights params \<longrightarrow>
            mWeights (setParameters t (parameters s params) params) = mWeights s) \<and>
         (trainFeatures params \<longrightarrow>
            mFeatures (setParameters t (parameters s params) params) = mFeatures s) \<and>
         (trainPredictors params \<longrightarrow>
            mPredictors (setParameters t (parameters s params) params) = mPredictors s) \<and>
         (trainInputBias params \<longrightarrow>
            mInputBias (setParameters t (parameters s params) params) = mInputBias s) \<and>
         (trainOutputBias params \<longrightarrow>
            mOutputBias (setParameters t (parameters s params) params) = mOutputBias s)"
proof -
  note sh = wf_MCBM_shapes [OF assms(1)]
  have offs: "offWeights t params = offWeights s params"
    "offFeatures t params = offFeatures s params"
    "offPredictors t params = offPredictors s params"
    "offInputBias t params = offInputBias s params"
    "offOutputBias t params = offOutputBias s params"
    using assms(3-5) by (simp_all add: off_defs)
  define f1 where "f1 = flagged (trainPriors params) (mPriors s)"
  define f2 where "f2 = flagged (trainWeights params) (mWeights s)"
  define f3 where "f3 = flagged (trainFeatures params) (mFeatures s)"
  define f4 where "f4 = flagged (trainPredictors params) (mPredictors s)"
  define f5 where "f5 = flagged (trainInputBias params) (mInputBias s)"
  define f6 where "f6 = flagged (trainOutputBias params) (mOutputBias s)"
  note fs = f1_def f2_def f3_def f4_def f5_def f6_def
  have x: "parameters s params = f1 @ f2 @ f3 @ f4 @ f5 @ f6"
    by (simp add: parameters_eq [OF assms(1)] flat_layout_def fs)
  note ol = offsets_flat [OF assms(1), of params, folded fs]
  have p: "trainPriors params \<Longrightarrow> Map_m (f1 @ f2 @ f3 @ f4 @ f5 @ f6) 0 (mNumComponents s) 1 = mPriors s"
    using Map_m_append [OF sh(1), of "[]" 0 "f2 @ f3 @ f4 @ f5 @ f6"]
    by (simp add: f1_def flagged_def)
  have w: "trainWeights params \<Longrightarrow>
    Map_m (f1 @ f2 @ f3 @ f4 @ f5 @ f6) (offWeights s params) (mNumComponents s) (mNumFeatures s) = mWeights s"
    using Map_m_append [OF sh(2), of "f1" "offWeights s params" "f3 @ f4 @ f5 @ f6"]
    by (simp add: f2_def flagged_def ol)
  have f: "trainFeatures params \<Longrightarrow>
    Map_m (f1 @ f2 @ f3 @ f4 @ f5 @ f6) (offFeatures s params) (mDimIn s) (mNumFeatures s) = mFeatures s"
    using Map_m_append [OF sh(3), of "f1 @ f2" "offFeatures s params" "f4 @ f5 @ f6"]
    by (simp add: f3_def flagged_def ol)
  have pr: "trainPredictors params \<Longrightarrow>
    Map_m (f1 @ f2 @ f3 @ f4 @ f5 @ f6) (offPredictors s params) (mNumComponents s) (mDimIn s) = mPredictors s"
    using Map_m_append [OF sh(4), of "f1 @ f2 @ f3" "offPredictors s params" "f5 @ f6"]
    by (simp add: f4_def flagged_def ol)
  have ib: "trainInputBias params \<Longrightarrow>
    Map_m (f1 @ f2 @ f3 @ f4 @ f5 @ f6) (offInputBias s params) (mDimIn s) (mNumComponents s) = mInputBias s"
    using Map_m_append [OF sh(5), of "f1 @ f2 @ f3 @ f4" "offInputBias s params" "f6"]
    by (simp add: f5_def flagged_def ol)
  have ob: "trainOutputBias params \<Longrightarrow>
    Map_m (f1 @ f2 @ f3 @ f4 @ f5 @ f6) (offOutputBias s params) (mNumComponents s) 1 = mOutputBias s"
    using Map_m_append [OF sh(6), of "f1 @ f2 @ f3 @ f4 @ f5" "offOutputBias s params" "[]"]
    by (simp add: f6_def flagged_def ol)
  show ?thesis
    unfolding x
    by (intro conjI impI) (simp_all add: setParameters_flagged assms(3-5) offs p [unfolded One_nat_def] w f pr ib
        ob [unfolded One_nat_def])
qed

section \<open>Witnesses for construction and vectorization\<close>

lemma wf_example_model: "wf_MCBM example_model"
  by (simp add: wf_MCBM_def has_shape_def example_model_def)

lemma wf_zero_model: "wf_MCBM zero_model"
  by (simp add: wf_MCBM_def has_shape_def zero_model_def)

lemma length_example_x: "length example_x = numParameters example_model example_params"
  by (simp add: example_x_def numParameters_def example_model_def example_params_def
      Parameters_default_def size_m_def)

theorem setParameters_frame_witness:
  "wf_MCBM example_model \<and>
   length example_x = numParameters example_model example_params \<and>
   mWeights (setParameters example_model example_x example_params) = mWeights example_model \<and>
   mInputBias (setParameters example_model example_x example_params)
     = mInputBias example_model \<and>
   data (mPriors (setParameters example_model example_x example_params)) = [21, 22] \<and>
   data (mFeatures (setParameters example_model example_x example_params)) = [23, 24] \<and>
   data (mPredictors (setParameters example_model example_x example_params))
     = [25, 26, 27, 28] \<and>
   data (mOutputBias (setParameters example_model example_x example_params)) = [29, 30]"
proof -
  have flags: "trainPriors example_params" "\<not> trainWeights example_params"
    "trainFeatures example_params" "trainPredictors example_params"
    "\<not> trainInputBias example_params" "trainOutputBias example_params"
    by (simp_all add: example_params_def Parameters_default_def)
  have dims: "mDimIn example_model = 2" "mNumComponents example_model = 2"
    "mNumFeatures example_model = 1"
    by (simp_all add: example_model_def)
  from setParameters_frame [OF wf_example_model length_example_x] flags
  show ?thesis
    using wf_example_model length_example_x
    by (simp add: dims off_defs example_x_def)
qed

theorem parameters_setParameters_roundtrip_witness:
  "wf_MCBM example_model \<and> wf_MCBM zero_model \<and>
   mDimIn zero_model = mDimIn example_model \<and>
   mNumComponents zero_model = mNumComponents example_model \<and>
   mNumFeatures zero_model = mNumFeatures example_model \<and>
   mPriors (setParameters zero_model (parameters example_model example_params) example_params)
     = \<lparr>rows = 2, cols = 1, data = [1, 2]\<rparr> \<and>
   mFeatures (setParameters zero_model (parameters example_model example_params) example_params)
     = \<lparr>rows = 2, cols = 1, data = [5, 6]\<rparr> \<and>
   mPredictors (setParameters zero_model (parameters example_model example_params) example_params)
     = \<lparr>rows = 2, cols = 2, data = [7, 8, 9, 10]\<rparr> \<and>
   mOutputBias (setParameters zero_model (parameters example_model example_params) example_params)
     = \<lparr>rows = 2, cols = 1, data = [15, 16]\<rparr>"
proof -
  have flags: "trainPriors example_params" "\<not> trainWeights example_params"
    "trainFeatures example_params" "trainPredictors example_params"
    "\<not> trainInputBias example_params" "trainOutputBias example_params"
    by (simp_all add: example_params_def Parameters_default_def)
  have dims: "mDimIn zero_model = mDimIn example_model"
    "mNumComponents zero_model = mNumComponents example_model"
    "mNumFeatures zero_model = mNumFeatures example_model"
    by (simp_all add: example_model_def zero_model_def)
  have groups: "mPriors example_model = \<lparr>rows = 2, cols = 1, data = [1, 2]\<rparr>"
    "mFeatures example_model = \<lparr>rows = 2, cols = 1, data = [5, 6]\<rparr>"
    "mPredictors example_model = \<lparr>rows = 2, cols = 2, data = [7, 8, 9, 10]\<rparr>"
    "mOutputBias example_model = \<lparr>rows = 2, cols = 1, data = [15, 16]\<rparr>"
    by (simp_all add: example_model_def)
  from parameters_setParameters_roundtrip [OF wf_example_model wf_zero_model dims,
      of example_params] flags
  show ?thesis
    using wf_example_model wf_zero_model dims by (simp add: groups)
qed

theorem MCBM_new_checks_witness:
  "(\<exists>msg. MCBM_new 4 0 2 zero_source zero_source zero_source = Inl (Exception msg)) \<and>
   (\<exists>msg. MCBM_new 4 3 0 zero_source zero_source zero_source = Inl (Exception msg)) \<and>
   (\<exists>m. MCBM_new 4 3 2 zero_source zero_source zero_source = Inr m \<and> wf_MCBM m \<and>
        mDimIn m = 4 \<and> mNumComponents m = 3 \<and> mNumFeatures m = 2 \<and>
        (\<forall>v \<in> set (data (mPriors m)). v = 0) \<and>
        (\<forall>v \<in> set (data (mInputBias m)). v = 0) \<and>
        (\<forall>v \<in> set (data (mOutputBias m)). v = 0) \<and>
        (\<forall>v \<in> set (data (mWeights m)). 0 < v))"
  using MCBM_new_checks [of 0 2 4 zero_source zero_source zero_source]
    MCBM_new_checks [of 3 0 4 zero_source zero_source zero_source]
    MCBM_new_checks [of 3 2 4 zero_source zero_source zero_source]
  by simp

theorem MCBM_new_negative_numFeatures_counterexample:
  "(- 1 :: int) < 1 \<and>
   \<not> isl (MCBM_new 3 2 (- 1) zero_source zero_source zero_source) \<and>
   mNumFeatures (projr (MCBM_new 3 2 (- 1) zero_source zero_source zero_source)) = 3"
  by (simp add: MCBM_new_def)

section \<open>Forward computation\<close>

lemma index_lt: "i < r \<Longrightarrow> j < c \<Longrightarrow> i + j * r < r * (c::nat)"
proof -
  assume i: "i < r" and j: "j < c"
  have "i + j * r < r + j * r" using i by simp
  also have "\<dots> = r * Suc j" by simp
  also have "\<dots> \<le> r * c" using j by (intro mult_le_mono2) simp
  finally show ?thesis .
qed

lemma coeff_mk_matrix [simp]:
  "i < r \<Longrightarrow> j < c \<Longrightarrow> coeff (mk_matrix r c f) i j = f i j"
  by (simp add: coeff_def mk_matrix_def index_lt)

lemma rows_mk_matrix [simp]: "rows (mk_matrix r c f) = r"
  and cols_mk_matrix [simp]: "cols (mk_matrix r c f) = c"
  by (simp_all add: mk_matrix_def)

lemma rows_cw_map [simp]: "rows (cw_map f M) = rows M"
  and cols_cw_map [simp]: "cols (cw_map f M) = cols M"
  by (simp_all add: cw_map_def)

lemma coeff_cw_map:
  "has_shape M r c \<Longrightarrow> i < r \<Longrightarrow> j < c \<Longrightarrow> coeff (cw_map f M) i j = f (coeff M i j)"
  by (simp add: coeff_def cw_map_def has_shape_def index_lt)

lemma rows_cw_zip [simp]: "rows (cw_zip f A B) = rows A"
  and cols_cw_zip [simp]: "cols (cw_zip f A B) = cols A"
  by (simp_all add: cw_zip_def)

lemma coeff_cw_zip [simp]:
  "i < rows A \<Longrightarrow> j < cols A \<Longrightarrow> coeff (cw_zip f A B) i j = f (coeff A i j) (coeff B i j)"
  by (simp add: cw_zip_def)

lemma dims_cw_ops [simp]:
  "rows (cw_add A B) = rows A" "cols (cw_add A B) = cols A"
  "rows (cw_sub A B) = rows A" "cols (cw_sub A B) = cols A"
  "rows (cw_mul A B) = rows A" "cols (cw_mul A B) = cols A"
  "rows (cw_square A) = rows A" "cols (cw_square A) = cols A"
  "rows (cw_exp A) = rows A" "cols (cw_exp A) = cols A"
  "rows (one_minus A) = rows A" "cols (one_minus A) = cols A"
  by (simp_all add: cw_add_def cw_sub_def cw_mul_def cw_square_def cw_exp_def one_minus_def)

lemma dims_matrix_ops [simp]:
  "rows (transpose_m M) = cols M" "cols (transpose_m M) = rows M"
  "rows (mat_mul A B) = rows A" "cols (mat_mul A B) = cols B"
  "rows (colwise_add A v) = rows A" "cols (colwise_add A v) = cols A"
  "rows (rowwise_sub A v) = rows A" "cols (rowwise_sub A v) = cols A"
  "rows (rowwise_mul A v) = rows A" "cols (rowwise_mul A v) = cols A"
  "rows (rowwise_sum A) = rows A" "cols (rowwise_sum A) = 1"
  "rows (middleCols M b n) = rows M" "cols (middleCols M b n) = n"
  "rows (stack_rows n A B) = 2" "cols (stack_rows n A B) = n"
  "rows (Map_m buf off r c) = r" "cols (Map_m buf off r c) = c"
  by (simp_all add: transpose_m_def mat_mul_def colwise_add_def rowwise_sub_def
      rowwise_mul_def rowwise_sum_def middleCols_def stack_rows_def Map_m_def)

lemma lse_eq:
  assumes "xs \<noteq> []"
  shows "lse xs = ln (sum_list (map exp xs))"
proof -
  define mx where "mx = Max (set xs)"
  have "sum_list (map (\<lambda>v. exp (v - mx)) xs) = sum_list (map (\<lambda>v. exp v * exp (- mx)) xs)"
    by (simp add: exp_diff exp_minus divide_inverse)
  also have "\<dots> = sum_list (map exp xs) * exp (- mx)"
    by (simp add: sum_list_mult_const)
  finally have e: "sum_list (map (\<lambda>v. exp (v - mx)) xs) = sum_list (map exp xs) * exp (- mx)" .
  have nonneg: "0 \<le> sum_list (map exp ys)" for ys :: "real list"
    by (rule sum_list_nonneg) auto
  have pos: "0 < sum_list (map exp xs)"
    using assms nonneg [of "tl xs"] by (cases xs) (auto intro: add_pos_nonneg)
  have "ln (sum_list (map exp xs) * exp (- mx)) = ln (sum_list (map exp xs)) + (- mx)"
    using pos by (simp add: ln_mult)
  then show ?thesis
    by (simp add: lse_def Let_def mx_def [symmetric] e)
qed

lemma rows_logSumExp [simp]: "rows (logSumExp M) = 1"
  and cols_logSumExp [simp]: "cols (logSumExp M) = cols M"
  by (simp_all add: logSumExp_def)

lemma coeff_logSumExp [simp]: "j < cols M \<Longrightarrow> coeff (logSumExp M) 0 j = lse (column M j)"
  by (simp add: logSumExp_def)

lemma column_stack_rows:
  "j < n \<Longrightarrow> column (stack_rows n a b) j = [coeff a 0 j, coeff b 0 j]"
  by (simp add: column_def stack_rows_def upt_conv_Cons)

lemma two_way_normalization:
  "exp (u - ln (exp u + exp v)) + exp (v - ln (exp u + exp v)) = (1::real)"
proof -
  have pos: "0 < exp u + exp v" by (simp add: add_pos_pos)
  have "exp (u - ln (exp u + exp v)) + exp (v - ln (exp u + exp v))
        = exp u / (exp u + exp v) + exp v / (exp u + exp v)"
    using pos by (simp add: exp_diff)
  also have "\<dots> = 1" using pos by (simp add: add_divide_distrib [symmetric])
  finally show ?thesis .
qed

lemma cols_logProbs:
  "cols (fst (logProbs m input)) = cols input" "cols (snd (logProbs m input)) = cols input"
  "rows (fst (logProbs m input)) = 1" "rows (snd (logProbs m input)) = 1"
  by (simp_all add: logProbs_def Let_def)

lemma coeff_normalizedLogProbs:
  assumes "n < cols input"
  shows "coeff (fst (normalizedLogProbs m input)) 0 n =
           coeff (fst (logProbs m input)) 0 n -
           lse [coeff (fst (logProbs m input)) 0 n, coeff (snd (logProbs m input)) 0 n]"
    and "coeff (snd (normalizedLogProbs m input)) 0 n =
           coeff (snd (logProbs m input)) 0 n -
           lse [coeff (fst (logProbs m input)) 0 n, coeff (snd (logProbs m input)) 0 n]"
  using assms
  by (simp_all add: normalizedLogProbs_def Let_def split_def cw_sub_def cols_logProbs
      column_stack_rows)

text \<open>
  C5.  For every model, every input batch and every column \<open>n\<close> of it, the two
  normalized log-probabilities of the forward computation, \<^verbatim>\<open>logProb0 - logNorm\<close> and
  \<^verbatim>\<open>logProb1 - logNorm\<close>, satisfy \<open>exp (logProb0[n]) + exp (logProb1[n]) = 1\<close>.
\<close>

theorem normalizedLogProbs_sum_to_one:
  assumes "n < cols input"
  shows "exp (coeff (fst (normalizedLogProbs m input)) 0 n) +
         exp (coeff (snd (normalizedLogProbs m input)) 0 n) = 1"
  by (simp add: coeff_normalizedLogProbs [OF assms] lse_eq two_way_normalization)

theorem normalizedLogProbs_sum_to_one_witness:
  "(0::nat) < cols example_input \<and>
   exp (coeff (fst (normalizedLogProbs example_model example_input)) 0 0) +
   exp (coeff (snd (normalizedLogProbs example_model example_input)) 0 0) = 1"
proof -
  have h: "(0::nat) < cols example_input"
    by (simp add: example_input_def)
  from normalizedLogProbs_sum_to_one [OF h, of example_model] h show ?thesis
    by simp
qed

section \<open>Coefficients of the matrix expressions\<close>

lemma coeff_transpose_m [simp]:
  "i < cols M \<Longrightarrow> j < rows M \<Longrightarrow> coeff (transpose_m M) i j = coeff M j i"
  by (simp add: transpose_m_def)

lemma coeff_mat_mul [simp]:
  "i < rows A \<Longrightarrow> j < cols B \<Longrightarrow>
   coeff (mat_mul A B) i j = (\<Sum>k\<leftarrow>[0..<cols A]. coeff A i k * coeff B k j)"
  by (simp add: mat_mul_def)

lemma coeff_colwise_add [simp]:
  "i < rows M \<Longrightarrow> j < cols M \<Longrightarrow> coeff (colwise_add M v) i j = coeff M i j + coeff v i 0"
  by (simp add: colwise_add_def)

lemma coeff_rowwise_sub [simp]:
  "i < rows M \<Longrightarrow> j < cols M \<Longrightarrow> coeff (rowwise_sub M r) i j = coeff M i j - coeff r 0 j"
  by (simp add: rowwise_sub_def)

lemma coeff_rowwise_mul [simp]:
  "i < rows M \<Longrightarrow> j < cols M \<Longrightarrow> coeff (rowwise_mul M r) i j = coeff M i j * coeff r 0 j"
  by (simp add: rowwise_mul_def)

lemma coeff_rowwise_sum [simp]:
  "i < rows M \<Longrightarrow> coeff (rowwise_sum M) i 0 = (\<Sum>k\<leftarrow>[0..<cols M]. coeff M i k)"
  by (simp add: rowwise_sum_def)

lemma coeff_middleCols [simp]:
  "i < rows M \<Longrightarrow> j < n \<Longrightarrow> coeff (middleCols M b n) i j = coeff M i (b + j)"
  by (simp add: middleCols_def)

lemma coeff_cw_ops [simp]:
  "i < rows A \<Longrightarrow> j < cols A \<Longrightarrow> coeff (cw_add A B) i j = coeff A i j + coeff B i j"
  "i < rows A \<Longrightarrow> j < cols A \<Longrightarrow> coeff (cw_sub A B) i j = coeff A i j - coeff B i j"
  "i < rows A \<Longrightarrow> j < cols A \<Longrightarrow> coeff (cw_mul A B) i j = coeff A i j * coeff B i j"
  by (simp_all add: cw_add_def cw_sub_def cw_mul_def)

lemma has_shape_ops [simp]:
  "has_shape (cw_zip f A B) (rows A) (cols A)"
  "has_shape (cw_add A B) (rows A) (cols A)"
  "has_shape (cw_sub A B) (rows A) (cols A)"
  "has_shape (cw_mul A B) (rows A) (cols A)"
  "has_shape (transpose_m M) (cols M) (rows M)"
  "has_shape (mat_mul A B) (rows A) (cols B)"
  "has_shape (colwise_add A v) (rows A) (cols A)"
  "has_shape (rowwise_sub A v) (rows A) (cols A)"
  "has_shape (rowwise_mul A v) (rows A) (cols A)"
  "has_shape (rowwise_sum A) (rows A) 1"
  "has_shape (middleCols M b n) (rows M) n"
  "has_shape (stack_rows n A B) 2 n"
  "has_shape (logSumExp M) 1 (cols M)"
  by (simp_all add: cw_zip_def cw_add_def cw_sub_def cw_mul_def transpose_m_def mat_mul_def
      colwise_add_def rowwise_sub_def rowwise_mul_def rowwise_sum_def middleCols_def
      stack_rows_def logSumExp_def has_shape_mk_matrix)

lemma has_shape_cw_maps:
  "has_shape M r c \<Longrightarrow> has_shape (cw_square M) r c"
  "has_shape M r c \<Longrightarrow> has_shape (cw_exp M) r c"
  "has_shape M r c \<Longrightarrow> has_shape (one_minus M) r c"
  by (simp_all add: cw_square_def cw_exp_def one_minus_def has_shape_cw_map)

lemma coeff_cw_maps:
  "has_shape M r c \<Longrightarrow> i < r \<Longrightarrow> j < c \<Longrightarrow> coeff (cw_square M) i j = coeff M i j * coeff M i j"
  "has_shape M r c \<Longrightarrow> i < r \<Longrightarrow> j < c \<Longrightarrow> coeff (cw_exp M) i j = exp (coeff M i j)"
  "has_shape M r c \<Longrightarrow> i < r \<Longrightarrow> j < c \<Longrightarrow> coeff (one_minus M) i j = 1 - coeff M i j"
  by (simp_all add: cw_square_def cw_exp_def one_minus_def coeff_cw_map)

lemma sum_list_upt_cong:
  "n = n' \<Longrightarrow> (\<And>k. k < n' \<Longrightarrow> f k = g k) \<Longrightarrow>
   (\<Sum>k\<leftarrow>[0..<n]. f k) = (\<Sum>k\<leftarrow>[0..<n']. g k :: real)"
  by (rule arg_cong [where f = sum_list]) simp

lemma map_upt_cong:
  "n = n' \<Longrightarrow> (\<And>k. k < n' \<Longrightarrow> f k = g k) \<Longrightarrow> map f [0..<n] = map g [0..<n']"
  by simp

lemma forward_featureOutput:
  assumes "wf_views V D C F" and "rows Z = D" and "n < cols Z" and "f < F"
  shows "coeff (mat_mul (transpose_m (features V)) Z) f n = s_featureOutput V (col Z n) f"
proof -
  from assms(1) have sh: "rows (features V) = D" "cols (features V) = F"
    by (simp_all add: wf_views_def has_shape_def)
  show ?thesis
    using assms(2-4) by (simp add: sh s_featureOutput_def col_def cong: sum_list_upt_cong)
qed

lemma wf_views_dims:
  assumes "wf_views V D C F"
  shows "rows (priors V) = C" "cols (priors V) = 1"
    "rows (weights V) = C" "cols (weights V) = F"
    "rows (features V) = D" "cols (features V) = F"
    "rows (predictors V) = C" "cols (predictors V) = D"
    "rows (inputBias V) = D" "cols (inputBias V) = C"
    "rows (outputBias V) = C" "cols (outputBias V) = 1"
  using assms by (simp_all add: wf_views_def has_shape_def)

lemma batch_forward_dims:
  assumes "wf_views V D C F"
  shows "has_shape (featureOutput (batch_forward V Z)) F (cols Z)"
    and "has_shape (featureOutputSq (batch_forward V Z)) F (cols Z)"
    and "has_shape (logPost0 (batch_forward V Z)) C (cols Z)"
    and "has_shape (logPost1 (batch_forward V Z)) C (cols Z)"
    and "has_shape (logProb0 (batch_forward V Z)) 1 (cols Z)"
    and "has_shape (logProb1 (batch_forward V Z)) 1 (cols Z)"
proof -
  note d = wf_views_dims [OF assms]
  have a: "has_shape (mat_mul (transpose_m (features V)) Z) F (cols Z)"
    using has_shape_ops(6) [of "transpose_m (features V)" Z] by (simp add: d)
  show "has_shape (featureOutput (batch_forward V Z)) F (cols Z)"
    using a by (simp add: batch_forward_def Let_def)
  show "has_shape (featureOutputSq (batch_forward V Z)) F (cols Z)"
    using a by (simp add: batch_forward_def Let_def has_shape_cw_maps)
  show "has_shape (logPost0 (batch_forward V Z)) C (cols Z)"
    unfolding batch_forward_def Let_def
    by (simp add: has_shape_def d rowwise_sub_def mk_matrix_def)
  show "has_shape (logPost1 (batch_forward V Z)) C (cols Z)"
    unfolding batch_forward_def Let_def
    by (simp add: has_shape_def d rowwise_sub_def mk_matrix_def)
  show "has_shape (logProb0 (batch_forward V Z)) 1 (cols Z)"
    unfolding batch_forward_def Let_def
    by (simp add: has_shape_def d cw_sub_def cw_zip_def mk_matrix_def)
  show "has_shape (logProb1 (batch_forward V Z)) 1 (cols Z)"
    unfolding batch_forward_def Let_def
    by (simp add: has_shape_def d cw_sub_def cw_zip_def mk_matrix_def)
qed

lemma batch_forward_coeffs:
  assumes wf: "wf_views V D C F" and rz: "rows Z = D" and n: "n < cols Z"
  shows "f < F \<Longrightarrow>
           coeff (featureOutput (batch_forward V Z)) f n = s_featureOutput V (col Z n) f"
    and "f < F \<Longrightarrow>
           coeff (featureOutputSq (batch_forward V Z)) f n =
             s_featureOutput V (col Z n) f * s_featureOutput V (col Z n) f"
    and "c < C \<Longrightarrow>
           coeff (logPost0 (batch_forward V Z)) c n =
             s_logPost0 V (col Z n) c - s_logProb0 V (col Z n)"
    and "c < C \<Longrightarrow>
           coeff (logPost1 (batch_forward V Z)) c n =
             s_logPost1 V (col Z n) c - s_logProb1 V (col Z n)"
    and "coeff (logProb0 (batch_forward V Z)) 0 n =
           s_logProb0 V (col Z n) - s_logNorm V (col Z n)"
    and "coeff (logProb1 (batch_forward V Z)) 0 n =
           s_logProb1 V (col Z n) - s_logNorm V (col Z n)"
proof -
  note d = wf_views_dims [OF wf]
  define fo where "fo = mat_mul (transpose_m (features V)) Z"
  define fsq where "fsq = cw_square fo"
  define u0 where "u0 = colwise_add
     (cw_add (mat_mul (weights V) fsq) (mat_mul (transpose_m (inputBias V)) Z)) (priors V)"
  define u1 where "u1 = colwise_add (cw_add u0 (mat_mul (predictors V) Z)) (outputBias V)"
  define l0 where "l0 = logSumExp u0"
  define l1 where "l1 = logSumExp u1"
  define ln where "ln = logSumExp (stack_rows (cols Z) l0 l1)"
  have bf: "batch_forward V Z =
      \<lparr>featureOutput = fo, featureOutputSq = fsq,
       logPost0 = rowwise_sub u0 l0, logPost1 = rowwise_sub u1 l1,
       logProb0 = cw_sub l0 ln, logProb1 = cw_sub l1 ln\<rparr>"
    by (simp add: batch_forward_def Let_def fo_def fsq_def u0_def u1_def l0_def l1_def ln_def)
  have sfo: "has_shape fo F (cols Z)"
    using has_shape_ops(6) [of "transpose_m (features V)" Z] by (simp add: d fo_def)
  have cfo: "coeff fo f n = s_featureOutput V (col Z n) f" if "f < F" for f
    unfolding fo_def by (rule forward_featureOutput [OF wf rz n that])
  have cfsq: "coeff fsq f n = s_featureOutput V (col Z n) f * s_featureOutput V (col Z n) f"
    if "f < F" for f
    unfolding fsq_def using coeff_cw_maps(1) [OF sfo that n] cfo [OF that] by simp
  have dfsq: "rows fsq = F" "cols fsq = cols Z"
    using sfo by (simp_all add: fsq_def has_shape_def)
  have du0: "rows u0 = C" "cols u0 = cols Z"
    by (simp_all add: u0_def d dfsq)
  have du1: "rows u1 = C" "cols u1 = cols Z"
    by (simp_all add: u1_def du0)
  have cu0: "coeff u0 c n = s_logPost0 V (col Z n) c" if "c < C" for c
    using that n rz
    by (simp add: u0_def d dfsq cfsq s_logPost0_def col_def cong: sum_list_upt_cong)
  have cu1: "coeff u1 c n = s_logPost1 V (col Z n) c" if "c < C" for c
    using that n rz
    by (simp add: u1_def d du0 cu0 s_logPost1_def col_def cong: sum_list_upt_cong)
  have cl0: "coeff l0 0 n = s_logProb0 V (col Z n)"
    using n by (simp add: l0_def du0 column_def cu0 s_logProb0_def d cong: map_upt_cong)
  have cl1: "coeff l1 0 n = s_logProb1 V (col Z n)"
    using n by (simp add: l1_def du1 column_def cu1 s_logProb1_def d cong: map_upt_cong)
  have cln: "coeff ln 0 n = s_logNorm V (col Z n)"
    using n by (simp add: ln_def column_stack_rows cl0 cl1 s_logNorm_def)
  show "f < F \<Longrightarrow>
           coeff (featureOutput (batch_forward V Z)) f n = s_featureOutput V (col Z n) f"
    by (simp add: bf cfo)
  show "f < F \<Longrightarrow>
           coeff (featureOutputSq (batch_forward V Z)) f n =
             s_featureOutput V (col Z n) f * s_featureOutput V (col Z n) f"
    by (simp add: bf cfsq)
  show "c < C \<Longrightarrow>
           coeff (logPost0 (batch_forward V Z)) c n =
             s_logPost0 V (col Z n) c - s_logProb0 V (col Z n)"
    using n by (simp add: bf du0 cu0 cl0)
  show "c < C \<Longrightarrow>
           coeff (logPost1 (batch_forward V Z)) c n =
             s_logPost1 V (col Z n) c - s_logProb1 V (col Z n)"
    using n by (simp add: bf du1 cu1 cl1)
  show "coeff (logProb0 (batch_forward V Z)) 0 n =
           s_logProb0 V (col Z n) - s_logNorm V (col Z n)"
    using n by (simp add: bf l0_def du0 cl0 [unfolded l0_def] cln)
  show "coeff (logProb1 (batch_forward V Z)) 0 n =
           s_logProb1 V (col Z n) - s_logNorm V (col Z n)"
    using n by (simp add: bf l1_def du1 cl1 [unfolded l1_def] cln)
qed

section \<open>Sampling\<close>

lemma wf_stored_views:
  "wf_MCBM m \<Longrightarrow> wf_views (stored_views m) (mDimIn m) (mNumComponents m) (mNumFeatures m)"
  by (simp add: wf_MCBM_def wf_views_def stored_views_def)

lemma logProbs_batch_forward:
  "normalizedLogProbs m Z =
     (logProb0 (batch_forward (stored_views m) Z), logProb1 (batch_forward (stored_views m) Z))"
  by (simp add: normalizedLogProbs_def logProbs_def batch_forward_def Let_def stored_views_def)

lemma sample_batch_forward:
  "sample m input' rnd =
     cw_zip (\<lambda>u p. if u < p then 1 else 0)
       (cw_map abs (Random_m 1 (cols input') rnd))
       (cw_exp (logProb1 (batch_forward (stored_views m) (cw_map real_of_int input'))))"
  by (simp add: sample_def logProbs_def batch_forward_def Let_def stored_views_def)

lemma dims_Random_m [simp]: "rows (Random_m r c src) = r" "cols (Random_m r c src) = c"
  by (simp_all add: Random_m_def)

lemma coeff_Random_m: "n < c \<Longrightarrow> coeff (Random_m 1 c src) 0 n = src n"
  by (simp add: coeff_def Random_m_def)

lemma col_cast:
  "has_shape Z D N \<Longrightarrow> n < N \<Longrightarrow>
   col (cw_map real_of_int Z) n = (\<lambda>d. if d < D then real_of_int (coeff Z d n) else 0)"
  by (rule ext) (simp add: col_def coeff_cw_map has_shape_def)

lemma sample_coeff:
  assumes wf: "wf_MCBM m" and sh: "has_shape input' (mDimIn m) N" and n: "n < N"
  shows "coeff (sample m input' rnd) 0 n =
           (if \<bar>rnd n\<bar> <
                 exp (s_logProb1 (stored_views m) (col (cw_map real_of_int input') n) -
                      s_logNorm (stored_views m) (col (cw_map real_of_int input') n))
            then 1 else 0)"
proof -
  define Z where "Z = cw_map real_of_int input'"
  have dz: "rows Z = mDimIn m" "cols Z = N" "cols input' = N"
    using sh by (simp_all add: Z_def has_shape_def)
  have nz: "n < cols Z" using n dz by simp
  note bf = batch_forward_coeffs(6) [OF wf_stored_views [OF wf] dz(1) nz]
  note bd = batch_forward_dims(6) [OF wf_stored_views [OF wf], of Z]
  have r: "has_shape (Random_m 1 N rnd) 1 N"
    by (rule has_shape_Random_m)
  have "coeff (sample m input' rnd) 0 n =
      (if coeff (cw_map abs (Random_m 1 N rnd)) 0 n <
          coeff (cw_exp (logProb1 (batch_forward (stored_views m) Z))) 0 n then 1 else 0)"
    using n by (simp add: sample_batch_forward Z_def [symmetric] dz)
  also have "coeff (cw_map abs (Random_m 1 N rnd)) 0 n = \<bar>rnd n\<bar>"
    using coeff_cw_map [OF r, of 0 n abs] coeff_Random_m [of n N rnd] n by simp
  also have "coeff (cw_exp (logProb1 (batch_forward (stored_views m) Z))) 0 n =
      exp (s_logProb1 (stored_views m) (col Z n) - s_logNorm (stored_views m) (col Z n))"
    using coeff_cw_maps(2) [OF bd, of 0 n] nz by (simp add: bf)
  finally show ?thesis by (simp add: Z_def)
qed

text \<open>
  C7.  For a well-shaped model, an input batch of \<open>N\<close> columns and a random source
  \<open>rnd\<close>, \<^verbatim>\<open>sample\<close> returns a row of \<open>N\<close> bits.  Bit \<open>n\<close> is one exactly when the \<open>n\<close>-th
  uniform draw, the absolute value of the \<open>n\<close>-th number of the source, is below
  \<open>exp (logProb1[n] - logNorm[n])\<close>, where \<open>logNorm[n]\<close> is the log-sum-exp of the two
  marginal log-probabilities of column \<open>n\<close>; this threshold lies strictly between zero
  and one.  The bit depends on column \<open>n\<close> of the input and on draw \<open>n\<close> only: a second
  batch and source that agree with the first there give the same bit.
\<close>

theorem sample_bernoulli:
  assumes "wf_MCBM m" and "has_shape input' (mDimIn m) N" and "n < N"
  shows "has_shape (sample m input' rnd) 1 N \<and>
         (coeff (sample m input' rnd) 0 n = 0 \<or> coeff (sample m input' rnd) 0 n = 1) \<and>
         (coeff (sample m input' rnd) 0 n = 1 \<longleftrightarrow>
            \<bar>rnd n\<bar> < exp (s_logProb1 (stored_views m) (col (cw_map real_of_int input') n) -
                           s_logNorm (stored_views m) (col (cw_map real_of_int input') n))) \<and>
         s_logNorm (stored_views m) (col (cw_map real_of_int input') n) =
           lse [s_logProb0 (stored_views m) (col (cw_map real_of_int input') n),
                s_logProb1 (stored_views m) (col (cw_map real_of_int input') n)] \<and>
         0 < exp (s_logProb1 (stored_views m) (col (cw_map real_of_int input') n) -
                  s_logNorm (stored_views m) (col (cw_map real_of_int input') n)) \<and>
         exp (s_logProb1 (stored_views m) (col (cw_map real_of_int input') n) -
              s_logNorm (stored_views m) (col (cw_map real_of_int input') n)) < 1 \<and>
         (\<forall>input2 rnd2.
            has_shape input2 (mDimIn m) N \<and>
            (\<forall>d < mDimIn m. coeff input2 d n = coeff input' d n) \<and> rnd2 n = rnd n \<longrightarrow>
            coeff (sample m input2 rnd2) 0 n = coeff (sample m input' rnd) 0 n)"
proof -
  let ?V = "stored_views m"
  let ?v = "col (cw_map real_of_int input') n"
  have c: "cols input' = N" using assms(2) by (simp add: has_shape_def)
  have shape: "has_shape (sample m input' rnd) 1 N"
    using has_shape_ops(1) [of "\<lambda>u p. if u < p then (1::int) else 0"
        "cw_map abs (Random_m 1 (cols input') rnd)"]
    by (simp add: sample_batch_forward c Random_m_def)
  have lt1: "exp (s_logProb1 ?V ?v - s_logNorm ?V ?v) < 1"
  proof -
    have "exp (s_logProb0 ?V ?v - s_logNorm ?V ?v) + exp (s_logProb1 ?V ?v - s_logNorm ?V ?v) = 1"
      by (simp add: s_logNorm_def lse_eq two_way_normalization)
    moreover have "0 < exp (s_logProb0 ?V ?v - s_logNorm ?V ?v)" by simp
    ultimately show ?thesis by linarith
  qed
  have indep: "coeff (sample m input2 rnd2) 0 n = coeff (sample m input' rnd) 0 n"
    if "has_shape input2 (mDimIn m) N"
      and "\<forall>d < mDimIn m. coeff input2 d n = coeff input' d n" and "rnd2 n = rnd n"
    for input2 rnd2
  proof -
    have "col (cw_map real_of_int input2) n = col (cw_map real_of_int input') n"
      using that(2)
      by (auto simp: col_cast [OF that(1) assms(3)] col_cast [OF assms(2,3)] fun_eq_iff)
    then show ?thesis
      by (simp add: sample_coeff [OF assms(1) that(1) assms(3)] sample_coeff [OF assms] that(3))
  qed
  show ?thesis
    using shape lt1 indep
    by (simp add: sample_coeff [OF assms] s_logNorm_def)
qed

theorem sample_bernoulli_witness:
  "wf_MCBM example_model \<and> has_shape example_bits (mDimIn example_model) 3 \<and> (1::nat) < 3 \<and>
   has_shape (sample example_model example_bits zero_source) 1 3 \<and>
   coeff (sample example_model example_bits zero_source) 0 1 = 1"
proof -
  have sh: "has_shape example_bits (mDimIn example_model) 3"
    by (simp add: has_shape_def example_bits_def example_model_def)
  have n: "(1::nat) < 3" by simp
  from sample_bernoulli [OF wf_example_model sh n, of zero_source]
  show ?thesis
    using wf_example_model sh by (simp add: zero_source_def)
qed

section \<open>The gradient buffer\<close>

lemma mk_matrix_eqI:
  assumes "\<And>i j. i < r \<Longrightarrow> j < c \<Longrightarrow> f i j = g i j"
  shows "mk_matrix r c f = mk_matrix r c g"
proof -
  have "f (k mod r) (k div r) = g (k mod r) (k div r)" if "k < r * c" for k
  proof -
    from that have "0 < r" by (cases r) simp_all
    moreover from that have "k div r < c"
      by (simp add: less_mult_imp_div_less mult.commute)
    ultimately show ?thesis by (intro assms) simp_all
  qed
  then show ?thesis by (simp add: mk_matrix_def)
qed

lemma cw_add_mk_matrix:
  "cw_add (mk_matrix r c f) Cm = mk_matrix r c (\<lambda>i j. f i j + coeff Cm i j)"
  unfolding cw_add_def cw_zip_def by (simp, rule mk_matrix_eqI) simp

lemma sum_list_upt_split:
  "(\<Sum>n\<leftarrow>[0..<b]. t n) + (\<Sum>k\<leftarrow>[0..<cnt]. t (b + k)) = (\<Sum>n\<leftarrow>[0..<b + cnt]. t n :: real)"
  by (induction cnt) (simp_all add: add.assoc [symmetric])

lemma col_middleCols: "k < cnt \<Longrightarrow> col (middleCols X b cnt) k = col X (b + k)"
  by (rule ext) (simp add: col_def)

lemma add_at_step:
  assumes "has_shape G r c" and "length pre = off"
  shows "when_flag b (\<lambda>g. add_at g off r c Cm) (pre @ flagged b G @ post)
         = pre @ flagged b (cw_add G Cm) @ post"
proof (cases b)
  case False
  then show ?thesis by (simp add: flagged_def)
next
  case True
  have m: "Map_m (pre @ data G @ post) off r c = G"
    by (rule Map_m_append [OF assms])
  have l: "length (data (cw_add G Cm)) = r * c"
    using assms(1) has_shape_ops(2) [of G Cm] by (simp add: has_shape_def)
  have l': "length (data G) = r * c"
    using assms(1) by (simp add: has_shape_def)
  show ?thesis
    using True assms(2) by (simp add: flagged_def add_at_def m put_span_def l l')
qed

lemma setZero_at_step:
  assumes "length pre = off" and "flag_size b (r * c) \<le> length rest"
  shows "when_flag b (\<lambda>g. setZero_at g off r c) (pre @ rest)
         = pre @ flagged b (Zero_m r c) @ drop (flag_size b (r * c)) rest"
proof (cases b)
  case False
  then show ?thesis by (simp add: flagged_def)
next
  case True
  have l: "length (data (Zero_m r c)) = r * c"
    using has_shape_Zero_m [of r c] by (simp add: has_shape_def)
  show ?thesis
    using True assms by (simp add: flagged_def setZero_at_def put_span_def l)
qed

lemma gradient_sums_dims [simp]:
  "mDimIn (gradient_sums m V X Y b) = mDimIn m"
  "mNumComponents (gradient_sums m V X Y b) = mNumComponents m"
  "mNumFeatures (gradient_sums m V X Y b) = mNumFeatures m"
  by (simp_all add: gradient_sums_def)

lemma gradient_sums_shapes:
  "has_shape (mPriors (gradient_sums m V X Y b)) (mNumComponents m) 1"
  "has_shape (mWeights (gradient_sums m V X Y b)) (mNumComponents m) (mNumFeatures m)"
  "has_shape (mFeatures (gradient_sums m V X Y b)) (mDimIn m) (mNumFeatures m)"
  "has_shape (mPredictors (gradient_sums m V X Y b)) (mNumComponents m) (mDimIn m)"
  "has_shape (mInputBias (gradient_sums m V X Y b)) (mDimIn m) (mNumComponents m)"
  "has_shape (mOutputBias (gradient_sums m V X Y b)) (mNumComponents m) 1"
  by (simp_all add: gradient_sums_def has_shape_mk_matrix)

lemma wf_gradient_sums: "wf_MCBM m \<Longrightarrow> wf_MCBM (gradient_sums m V X Y b)"
  using gradient_sums_shapes [of m V X Y b] by (simp add: wf_MCBM_def)

lemma off_gradient_sums [simp]:
  "offWeights (gradient_sums m V X Y b) params = offWeights m params"
  "offFeatures (gradient_sums m V X Y b) params = offFeatures m params"
  "offPredictors (gradient_sums m V X Y b) params = offPredictors m params"
  "offInputBias (gradient_sums m V X Y b) params = offInputBias m params"
  "offOutputBias (gradient_sums m V X Y b) params = offOutputBias m params"
  "offEnd (gradient_sums m V X Y b) params = offEnd m params"
  by (simp_all add: off_defs)

text \<open>The coefficients of the factors of the gradient in one pass of the batch loop.\<close>

lemma batch_factors:
  assumes wv: "wf_views V D C F" and rz: "rows Z = D" and ry: "has_shape Yz 1 (cols Z)"
    and k: "k < cols Z"
  defines "Fw \<equiv> batch_forward V Z"
  defines "tmp \<equiv> cw_sub (cw_mul Yz (cw_exp (logProb0 Fw)))
                       (cw_mul (one_minus Yz) (cw_exp (logProb1 Fw)))"
  shows "rows tmp = 1" and "cols tmp = cols Z"
    and "coeff tmp 0 k = s_tmp V (col Z k) (coeff Yz 0 k)"
    and "c < C \<Longrightarrow> coeff (rowwise_mul (cw_exp (logPost0 Fw)) tmp) c k
           = s_post0Tmp V (col Z k) (coeff Yz 0 k) c"
    and "c < C \<Longrightarrow> coeff (rowwise_mul (cw_exp (logPost1 Fw)) tmp) c k
           = s_post1Tmp V (col Z k) (coeff Yz 0 k) c"
    and "c < C \<Longrightarrow> coeff (cw_sub (rowwise_mul (cw_exp (logPost1 Fw)) tmp)
                                 (rowwise_mul (cw_exp (logPost0 Fw)) tmp)) c k
           = s_postDiffTmp V (col Z k) (coeff Yz 0 k) c"
proof -
  note bd = batch_forward_dims [OF wv, of Z, folded Fw_def]
  note bc = batch_forward_coeffs [OF wv rz k, folded Fw_def]
  have dy: "rows Yz = 1" "cols Yz = cols Z"
    using ry by (simp_all add: has_shape_def)
  show rt: "rows tmp = 1" and ct: "cols tmp = cols Z"
    by (simp_all add: tmp_def dy)
  have e0: "coeff (cw_exp (logProb0 Fw)) 0 k = exp (s_logProb0 V (col Z k) - s_logNorm V (col Z k))"
    using coeff_cw_maps(2) [OF bd(5), of 0 k] k by (simp add: bc)
  have e1: "coeff (cw_exp (logProb1 Fw)) 0 k = exp (s_logProb1 V (col Z k) - s_logNorm V (col Z k))"
    using coeff_cw_maps(2) [OF bd(6), of 0 k] k by (simp add: bc)
  have om: "coeff (one_minus Yz) 0 k = 1 - coeff Yz 0 k"
    using coeff_cw_maps(3) [OF ry, of 0 k] k by simp
  show t: "coeff tmp 0 k = s_tmp V (col Z k) (coeff Yz 0 k)"
    using k by (simp add: tmp_def dy e0 e1 om s_tmp_def)
  have p0: "coeff (cw_exp (logPost0 Fw)) c k = exp (s_logPost0 V (col Z k) c - s_logProb0 V (col Z k))"
    if "c < C" for c
    using coeff_cw_maps(2) [OF bd(3) that k] by (simp add: bc that)
  have p1: "coeff (cw_exp (logPost1 Fw)) c k = exp (s_logPost1 V (col Z k) c - s_logProb1 V (col Z k))"
    if "c < C" for c
    using coeff_cw_maps(2) [OF bd(4) that k] by (simp add: bc that)
  have de: "rows (logPost0 Fw) = C" "cols (logPost0 Fw) = cols Z"
    "rows (logPost1 Fw) = C" "cols (logPost1 Fw) = cols Z"
    using bd(3,4) by (simp_all add: has_shape_def)
  show q0: "c < C \<Longrightarrow> coeff (rowwise_mul (cw_exp (logPost0 Fw)) tmp) c k
           = s_post0Tmp V (col Z k) (coeff Yz 0 k) c"
    using k by (simp add: de p0 t s_post0Tmp_def)
  show q1: "c < C \<Longrightarrow> coeff (rowwise_mul (cw_exp (logPost1 Fw)) tmp) c k
           = s_post1Tmp V (col Z k) (coeff Yz 0 k) c"
    using k by (simp add: de p1 t s_post1Tmp_def)
  show "c < C \<Longrightarrow> coeff (cw_sub (rowwise_mul (cw_exp (logPost1 Fw)) tmp)
                                 (rowwise_mul (cw_exp (logPost0 Fw)) tmp)) c k
           = s_postDiffTmp V (col Z k) (coeff Yz 0 k) c"
    using k by (simp add: de p0 p1 t s_postDiffTmp_def s_post0Tmp_def s_post1Tmp_def)
qed

text \<open>
  One pass of the batch loop over the columns \<open>b, \<dots>, b + cnt - 1\<close> adds to each of the
  six sums, and to the sum of the log-likelihoods, the terms of exactly these columns.
\<close>

lemma batch_contributions:
  fixes b cnt :: nat
  assumes wv: "wf_views V (mDimIn m) (mNumComponents m) (mNumFeatures m)"
    and rx: "rows X = mDimIn m" and ry: "rows Y = 1"
  defines "Z \<equiv> middleCols X b cnt"
  defines "Yz \<equiv> middleCols Y b cnt"
  defines "Fw \<equiv> batch_forward V Z"
  defines "tmp \<equiv> cw_sub (cw_mul Yz (cw_exp (logProb0 Fw)))
                       (cw_mul (one_minus Yz) (cw_exp (logProb1 Fw)))"
  defines "p0 \<equiv> rowwise_mul (cw_exp (logPost0 Fw)) tmp"
  defines "p1 \<equiv> rowwise_mul (cw_exp (logPost1 Fw)) tmp"
  defines "pd \<equiv> cw_sub p1 p0"
  shows "cw_add (mPriors (gradient_sums m V X Y b)) (rowwise_sum pd)
           = mPriors (gradient_sums m V X Y (b + cnt))"
    and "cw_add (mWeights (gradient_sums m V X Y b))
           (mat_mul pd (transpose_m (featureOutputSq Fw)))
           = mWeights (gradient_sums m V X Y (b + cnt))"
    and "cw_add (mFeatures (gradient_sums m V X Y b))
           (mat_mul Z (transpose_m (cw_mul (featureOutput Fw)
              (cw_map (\<lambda>v. v * 2) (mat_mul (transpose_m (weights V)) pd)))))
           = mFeatures (gradient_sums m V X Y (b + cnt))"
    and "cw_add (mPredictors (gradient_sums m V X Y b)) (mat_mul p1 (transpose_m Z))
           = mPredictors (gradient_sums m V X Y (b + cnt))"
    and "cw_add (mInputBias (gradient_sums m V X Y b)) (mat_mul Z (transpose_m pd))
           = mInputBias (gradient_sums m V X Y (b + cnt))"
    and "cw_add (mOutputBias (gradient_sums m V X Y b)) (rowwise_sum p1)
           = mOutputBias (gradient_sums m V X Y (b + cnt))"
    and "logLik_sum V X Y b +
           sum_m (cw_add (cw_mul Yz (logProb1 Fw)) (cw_mul (one_minus Yz) (logProb0 Fw)))
           = logLik_sum V X Y (b + cnt)"
proof -
  let ?D = "mDimIn m" and ?C = "mNumComponents m" and ?F = "mNumFeatures m"
  note d = wf_views_dims [OF wv]
  have dz: "rows Z = ?D" "cols Z = cnt"
    by (simp_all add: Z_def rx)
  have sy: "has_shape Yz 1 (cols Z)"
    using has_shape_ops(11) [of Y b cnt] by (simp add: Yz_def ry dz)
  have dy: "rows Yz = 1" "cols Yz = cnt"
    using sy by (simp_all add: has_shape_def dz)
  note bd = batch_forward_dims [OF wv, of Z, folded Fw_def, unfolded dz]
  have dF: "rows (featureOutput Fw) = ?F" "cols (featureOutput Fw) = cnt"
    "rows (featureOutputSq Fw) = ?F" "cols (featureOutputSq Fw) = cnt"
    "rows (logPost0 Fw) = ?C" "cols (logPost0 Fw) = cnt"
    "rows (logPost1 Fw) = ?C" "cols (logPost1 Fw) = cnt"
    "rows (logProb0 Fw) = 1" "cols (logProb0 Fw) = cnt"
    "rows (logProb1 Fw) = 1" "cols (logProb1 Fw) = cnt"
    using bd by (simp_all add: has_shape_def)
  have colk: "col Z k = col X (b + k)" if "k < cnt" for k
    unfolding Z_def by (rule col_middleCols [OF that])
  have zk: "coeff Z i k = col X (b + k) i" if "k < cnt" "i < ?D" for i k
    using that by (simp add: Z_def rx col_def)
  have yk: "coeff Yz 0 k = coeff Y 0 (b + k)" if "k < cnt" for k
    using that by (simp add: Yz_def ry)
  have kz: "k < cols Z" if "k < cnt" for k
    using that by (simp add: dz)
  note bf = batch_factors [OF wv dz(1) sy kz, folded Fw_def, folded tmp_def,
      folded p0_def p1_def, folded pd_def]
  note bc = batch_forward_coeffs [OF wv dz(1) kz, folded Fw_def]
  have dp: "rows p0 = ?C" "cols p0 = cnt" "rows p1 = ?C" "cols p1 = cnt"
    "rows pd = ?C" "cols pd = cnt"
    by (simp_all add: p0_def p1_def pd_def dF)
  have pdk: "coeff pd c k = s_postDiffTmp V (col X (b + k)) (coeff Y 0 (b + k)) c"
    if "c < ?C" "k < cnt" for c k
    using bf(6) [OF that(2,1)] by (simp add: colk that yk)
  have p1k: "coeff p1 c k = s_post1Tmp V (col X (b + k)) (coeff Y 0 (b + k)) c"
    if "c < ?C" "k < cnt" for c k
    using bf(5) [OF that(2,1)] by (simp add: colk that yk)
  have fok: "coeff (featureOutput Fw) f k = s_featureOutput V (col X (b + k)) f"
    if "f < ?F" "k < cnt" for f k
    using bc(1) [OF that(2,1)] by (simp add: colk that)
  have fsk: "coeff (featureOutputSq Fw) f k =
      s_featureOutput V (col X (b + k)) f * s_featureOutput V (col X (b + k)) f"
    if "f < ?F" "k < cnt" for f k
    using bc(2) [OF that(2,1)] by (simp add: colk that)
  show "cw_add (mPriors (gradient_sums m V X Y b)) (rowwise_sum pd)
           = mPriors (gradient_sums m V X Y (b + cnt))"
    unfolding gradient_sums_def
    apply (simp add: cw_add_mk_matrix)
    apply (rule mk_matrix_eqI)
    apply (simp add: dp pdk sum_list_upt_split [symmetric] cong: sum_list_upt_cong)
    done
  show "cw_add (mOutputBias (gradient_sums m V X Y b)) (rowwise_sum p1)
           = mOutputBias (gradient_sums m V X Y (b + cnt))"
    unfolding gradient_sums_def
    apply (simp add: cw_add_mk_matrix)
    apply (rule mk_matrix_eqI)
    apply (simp add: dp p1k sum_list_upt_split [symmetric] cong: sum_list_upt_cong)
    done
  show "cw_add (mWeights (gradient_sums m V X Y b))
           (mat_mul pd (transpose_m (featureOutputSq Fw)))
           = mWeights (gradient_sums m V X Y (b + cnt))"
    unfolding gradient_sums_def
    apply (simp add: cw_add_mk_matrix)
    apply (rule mk_matrix_eqI)
    apply (simp add: dp dF pdk fsk sum_list_upt_split [symmetric] cong: sum_list_upt_cong)
    done
  show "cw_add (mPredictors (gradient_sums m V X Y b)) (mat_mul p1 (transpose_m Z))
           = mPredictors (gradient_sums m V X Y (b + cnt))"
    unfolding gradient_sums_def
    apply (simp add: cw_add_mk_matrix)
    apply (rule mk_matrix_eqI)
    apply (simp add: dp dz p1k zk sum_list_upt_split [symmetric] cong: sum_list_upt_cong)
    done
  show "cw_add (mInputBias (gradient_sums m V X Y b)) (mat_mul Z (transpose_m pd))
           = mInputBias (gradient_sums m V X Y (b + cnt))"
    unfolding gradient_sums_def
    apply (simp add: cw_add_mk_matrix)
    apply (rule mk_matrix_eqI)
    apply (simp add: dp dz pdk zk sum_list_upt_split [symmetric] cong: sum_list_upt_cong)
    done
  have st2: "has_shape (mat_mul (transpose_m (weights V)) pd) ?F cnt"
    using has_shape_ops(6) [of "transpose_m (weights V)" pd] by (simp add: d dp)
  have t2k: "coeff (cw_map (\<lambda>v. v * 2) (mat_mul (transpose_m (weights V)) pd)) f k =
      (\<Sum>c\<leftarrow>[0..<rows (weights V)].
          coeff (weights V) c f * s_postDiffTmp V (col X (b + k)) (coeff Y 0 (b + k)) c) * 2"
    if "f < ?F" "k < cnt" for f k
    using coeff_cw_map [OF st2 that, of "\<lambda>v. v * 2"] that
    by (simp add: d dp pdk cong: sum_list_upt_cong)
  show "cw_add (mFeatures (gradient_sums m V X Y b))
           (mat_mul Z (transpose_m (cw_mul (featureOutput Fw)
              (cw_map (\<lambda>v. v * 2) (mat_mul (transpose_m (weights V)) pd)))))
           = mFeatures (gradient_sums m V X Y (b + cnt))"
    unfolding gradient_sums_def
    apply (simp add: cw_add_mk_matrix)
    apply (rule mk_matrix_eqI)
    apply (simp add: dz dF zk fok t2k sum_list_upt_split [symmetric] cong: sum_list_upt_cong)
    done
  have om: "coeff (one_minus Yz) 0 k = 1 - coeff Y 0 (b + k)" if "k < cnt" for k
    using coeff_cw_maps(3) [OF sy, of 0 k] that by (simp add: dz yk)
  have "sum_m (cw_add (cw_mul Yz (logProb1 Fw)) (cw_mul (one_minus Yz) (logProb0 Fw)))
        = (\<Sum>k\<leftarrow>[0..<cnt]. s_logLik V (col X (b + k)) (coeff Y 0 (b + k)))"
    unfolding sum_m_def cw_add_def cw_zip_def mk_matrix_def
    by (simp add: dy om yk bc colk s_logLik_def cong: map_upt_cong)
  then show "logLik_sum V X Y b +
           sum_m (cw_add (cw_mul Yz (logProb1 Fw)) (cw_mul (one_minus Yz) (logProb0 Fw)))
           = logLik_sum V X Y (b + cnt)"
    by (simp add: logLik_sum_def sum_list_upt_split [symmetric])
qed

lemma size_m_if_Map_m [simp]:
  "size_m (if b then Map_m buf off r c else Map_m buf' off' r c) = r * c"
  by simp

lemma interpret_memory_offsets:
  "priorsGrad (interpret_memory m x params) = 0"
  "weightsGrad (interpret_memory m x params) = offWeights m params"
  "featuresGrad (interpret_memory m x params) = offFeatures m params"
  "predictorsGrad (interpret_memory m x params) = offPredictors m params"
  "inputBiasGrad (interpret_memory m x params) = offInputBias m params"
  "outputBiasGrad (interpret_memory m x params) = offOutputBias m params"
  "offset (interpret_memory m x params) = offEnd m params"
  unfolding interpret_memory_def Let_def
  by (simp_all add: when_flag_add off_defs split del: if_split)

lemma interpret_memory_groups:
  "priors (interpret_memory m x params) =
     (if trainPriors params then Map_m x 0 (mNumComponents m) 1
      else Map_m (data (mPriors m)) 0 (mNumComponents m) 1)"
  "weights (interpret_memory m x params) =
     (if trainWeights params
      then Map_m x (offWeights m params) (mNumComponents m) (mNumFeatures m)
      else Map_m (data (mWeights m)) 0 (mNumComponents m) (mNumFeatures m))"
  "features (interpret_memory m x params) =
     (if trainFeatures params
      then Map_m x (offFeatures m params) (mDimIn m) (mNumFeatures m)
      else Map_m (data (mFeatures m)) 0 (mDimIn m) (mNumFeatures m))"
  "predictors (interpret_memory m x params) =
     (if trainPredictors params
      then Map_m x (offPredictors m params) (mNumComponents m) (mDimIn m)
      else Map_m (data (mPredictors m)) 0 (mNumComponents m) (mDimIn m))"
  "inputBias (interpret_memory m x params) =
     (if trainInputBias params
      then Map_m x (offInputBias m params) (mDimIn m) (mNumComponents m)
      else Map_m (data (mInputBias m)) 0 (mDimIn m) (mNumComponents m))"
  "outputBias (interpret_memory m x params) =
     (if trainOutputBias params
      then Map_m x (offOutputBias m params) (mNumComponents m) 1
      else Map_m (data (mOutputBias m)) 0 (mNumComponents m) 1)"
  unfolding interpret_memory_def Let_def
  by (simp_all add: when_flag_add off_defs split del: if_split cong: if_cong)

lemma Map_m_stored: "has_shape M r c \<Longrightarrow> Map_m (data M) 0 r c = M"
  by (simp add: Map_m_def has_shape_def)

lemma offs_le_offEnd:
  "trainPriors params \<Longrightarrow> 0 + mNumComponents m * 1 \<le> offEnd m params"
  "trainWeights params \<Longrightarrow>
     offWeights m params + mNumComponents m * mNumFeatures m \<le> offEnd m params"
  "trainFeatures params \<Longrightarrow>
     offFeatures m params + mDimIn m * mNumFeatures m \<le> offEnd m params"
  "trainPredictors params \<Longrightarrow>
     offPredictors m params + mNumComponents m * mDimIn m \<le> offEnd m params"
  "trainInputBias params \<Longrightarrow>
     offInputBias m params + mDimIn m * mNumComponents m \<le> offEnd m params"
  "trainOutputBias params \<Longrightarrow>
     offOutputBias m params + mNumComponents m * 1 \<le> offEnd m params"
  by (simp_all add: off_defs)

lemma wf_interpret_memory:
  assumes "wf_MCBM m" and "offEnd m params \<le> length x"
  shows "wf_views (interpret_memory m x params) (mDimIn m) (mNumComponents m) (mNumFeatures m)"
proof -
  note sh = wf_MCBM_shapes [OF assms(1)]
  note le = offs_le_offEnd [of params m, THEN order_trans, OF _ assms(2)]
  have "has_shape (priors (interpret_memory m x params)) (mNumComponents m) 1"
    using sh(1) le(1)
    by (cases "trainPriors params")
      (simp_all add: interpret_memory_groups Map_m_stored has_shape_Map_m)
  moreover have "has_shape (weights (interpret_memory m x params))
      (mNumComponents m) (mNumFeatures m)"
    using sh(2) le(2)
    by (cases "trainWeights params")
      (simp_all add: interpret_memory_groups Map_m_stored has_shape_Map_m)
  moreover have "has_shape (features (interpret_memory m x params))
      (mDimIn m) (mNumFeatures m)"
    using sh(3) le(3)
    by (cases "trainFeatures params")
      (simp_all add: interpret_memory_groups Map_m_stored has_shape_Map_m)
  moreover have "has_shape (predictors (interpret_memory m x params))
      (mNumComponents m) (mDimIn m)"
    using sh(4) le(4)
    by (cases "trainPredictors params")
      (simp_all add: interpret_memory_groups Map_m_stored has_shape_Map_m)
  moreover have "has_shape (inputBias (interpret_memory m x params))
      (mDimIn m) (mNumComponents m)"
    using sh(5) le(5)
    by (cases "trainInputBias params")
      (simp_all add: interpret_memory_groups Map_m_stored has_shape_Map_m)
  moreover have "has_shape (outputBias (interpret_memory m x params)) (mNumComponents m) 1"
    using sh(6) le(6)
    by (cases "trainOutputBias params")
      (simp_all add: interpret_memory_groups Map_m_stored has_shape_Map_m)
  ultimately show ?thesis
    by (simp add: wf_views_def)
qed

lemma length_flat_layout:
  assumes "wf_MCBM s"
  shows "length (flat_layout s params) = offEnd s params"
  by (simp add: flat_layout_def off_defs wf_MCBM_shapes [OF assms, THEN length_flagged])

lemma batch_gradients_flat:
  fixes b cnt :: nat
  assumes wf: "wf_MCBM m"
    and wv: "wf_views V (mDimIn m) (mNumComponents m) (mNumFeatures m)"
    and rx: "rows X = mDimIn m" and ry: "rows Y = 1"
    and offs: "priorsGrad V = 0" "weightsGrad V = offWeights m params"
      "featuresGrad V = offFeatures m params" "predictorsGrad V = offPredictors m params"
      "inputBiasGrad V = offInputBias m params" "outputBiasGrad V = offOutputBias m params"
  shows "batch_gradients m V params (middleCols X b cnt) (middleCols Y b cnt)
           (batch_forward V (middleCols X b cnt))
           (flat_layout (gradient_sums m V X Y b) params @ rest)
         = flat_layout (gradient_sums m V X Y (b + cnt)) params @ rest"
proof -
  let ?G = "gradient_sums m V X Y b" and ?G' = "gradient_sums m V X Y (b + cnt)"
  note sh = gradient_sums_shapes [of m V X Y b]
  note sh' = gradient_sums_shapes [of m V X Y "b + cnt"]
  note bc = batch_contributions [OF wv rx ry, of b cnt]
  define f1 where "f1 = flagged (trainPriors params) (mPriors ?G)"
  define f2 where "f2 = flagged (trainWeights params) (mWeights ?G)"
  define f3 where "f3 = flagged (trainFeatures params) (mFeatures ?G)"
  define f4 where "f4 = flagged (trainPredictors params) (mPredictors ?G)"
  define f5 where "f5 = flagged (trainInputBias params) (mInputBias ?G)"
  define f6 where "f6 = flagged (trainOutputBias params) (mOutputBias ?G)"
  define h1 where "h1 = flagged (trainPriors params) (mPriors ?G')"
  define h2 where "h2 = flagged (trainWeights params) (mWeights ?G')"
  define h3 where "h3 = flagged (trainFeatures params) (mFeatures ?G')"
  define h4 where "h4 = flagged (trainPredictors params) (mPredictors ?G')"
  define h5 where "h5 = flagged (trainInputBias params) (mInputBias ?G')"
  define h6 where "h6 = flagged (trainOutputBias params) (mOutputBias ?G')"
  note fs = f1_def f2_def f3_def f4_def f5_def f6_def
  note hs = h1_def h2_def h3_def h4_def h5_def h6_def
  have g0: "flat_layout ?G params @ rest = f1 @ f2 @ f3 @ f4 @ f5 @ f6 @ rest"
    by (simp add: flat_layout_def fs)
  have g1: "flat_layout ?G' params @ rest = h1 @ h2 @ h3 @ h4 @ h5 @ h6 @ rest"
    by (simp add: flat_layout_def hs)
  note ol = offsets_flat [OF wf_gradient_sums [OF wf], of V X Y "b + cnt" params,
      unfolded off_gradient_sums, folded hs]
  have s1: "when_flag (trainPriors params) (\<lambda>g. add_at g 0 (mNumComponents m) 1 Cm)
              (f1 @ f2 @ f3 @ f4 @ f5 @ f6 @ rest)
            = flagged (trainPriors params) (cw_add (mPriors ?G) Cm)
              @ f2 @ f3 @ f4 @ f5 @ f6 @ rest" for Cm
    using add_at_step [OF sh(1), of "[]" 0 "trainPriors params" Cm "f2 @ f3 @ f4 @ f5 @ f6 @ rest"]
    by (simp add: f1_def)
  have s2: "when_flag (trainWeights params)
              (\<lambda>g. add_at g (offWeights m params) (mNumComponents m) (mNumFeatures m) Cm)
              (h1 @ f2 @ f3 @ f4 @ f5 @ f6 @ rest)
            = h1 @ flagged (trainWeights params) (cw_add (mWeights ?G) Cm)
              @ f3 @ f4 @ f5 @ f6 @ rest" for Cm
    using add_at_step [OF sh(2), of h1 "offWeights m params" "trainWeights params" Cm
        "f3 @ f4 @ f5 @ f6 @ rest"]
    by (simp add: f2_def ol)
  have s3: "when_flag (trainFeatures params)
              (\<lambda>g. add_at g (offFeatures m params) (mDimIn m) (mNumFeatures m) Cm)
              (h1 @ h2 @ f3 @ f4 @ f5 @ f6 @ rest)
            = h1 @ h2 @ flagged (trainFeatures params) (cw_add (mFeatures ?G) Cm)
              @ f4 @ f5 @ f6 @ rest" for Cm
    using add_at_step [OF sh(3), of "h1 @ h2" "offFeatures m params" "trainFeatures params" Cm
        "f4 @ f5 @ f6 @ rest"]
    by (simp add: f3_def ol)
  have s4: "when_flag (trainPredictors params)
              (\<lambda>g. add_at g (offPredictors m params) (mNumComponents m) (mDimIn m) Cm)
              (h1 @ h2 @ h3 @ f4 @ f5 @ f6 @ rest)
            = h1 @ h2 @ h3 @ flagged (trainPredictors params) (cw_add (mPredictors ?G) Cm)
              @ f5 @ f6 @ rest" for Cm
    using add_at_step [OF sh(4), of "h1 @ h2 @ h3" "offPredictors m params"
        "trainPredictors params" Cm "f5 @ f6 @ rest"]
    by (simp add: f4_def ol)
  have s5: "when_flag (trainInputBias params)
              (\<lambda>g. add_at g (offInputBias m params) (mDimIn m) (mNumComponents m) Cm)
              (h1 @ h2 @ h3 @ h4 @ f5 @ f6 @ rest)
            = h1 @ h2 @ h3 @ h4 @ flagged (trainInputBias params) (cw_add (mInputBias ?G) Cm)
              @ f6 @ rest" for Cm
    using add_at_step [OF sh(5), of "h1 @ h2 @ h3 @ h4" "offInputBias m params"
        "trainInputBias params" Cm "f6 @ rest"]
    by (simp add: f5_def ol)
  have s6: "when_flag (trainOutputBias params)
              (\<lambda>g. add_at g (offOutputBias m params) (mNumComponents m) 1 Cm)
              (h1 @ h2 @ h3 @ h4 @ h5 @ f6 @ rest)
            = h1 @ h2 @ h3 @ h4 @ h5
              @ flagged (trainOutputBias params) (cw_add (mOutputBias ?G) Cm) @ rest" for Cm
    using add_at_step [OF sh(6), of "h1 @ h2 @ h3 @ h4 @ h5" "offOutputBias m params"
        "trainOutputBias params" Cm "rest"]
    by (simp add: f6_def ol)
  show ?thesis
    unfolding batch_gradients_def Let_def offs g0 g1
      s1 bc(1) h1_def [symmetric]
      s2 bc(2) h2_def [symmetric]
      s3 bc(3) h3_def [symmetric]
      s4 bc(4) h4_def [symmetric]
      s5 bc(5) h5_def [symmetric]
      s6 bc(6) h6_def [symmetric]
    by (rule refl)
qed

lemma gradient_sums_zero:
  "mPriors (gradient_sums m V X Y 0) = Zero_m (mNumComponents m) 1"
  "mWeights (gradient_sums m V X Y 0) = Zero_m (mNumComponents m) (mNumFeatures m)"
  "mFeatures (gradient_sums m V X Y 0) = Zero_m (mDimIn m) (mNumFeatures m)"
  "mPredictors (gradient_sums m V X Y 0) = Zero_m (mNumComponents m) (mDimIn m)"
  "mInputBias (gradient_sums m V X Y 0) = Zero_m (mDimIn m) (mNumComponents m)"
  "mOutputBias (gradient_sums m V X Y 0) = Zero_m (mNumComponents m) 1"
  by (simp_all add: gradient_sums_def Zero_m_def)

lemma initialize_gradients_flat:
  assumes wf: "wf_MCBM m"
    and offs: "priorsGrad V = 0" "weightsGrad V = offWeights m params"
      "featuresGrad V = offFeatures m params" "predictorsGrad V = offPredictors m params"
      "inputBiasGrad V = offInputBias m params" "outputBiasGrad V = offOutputBias m params"
    and len: "offEnd m params \<le> length g"
  shows "initialize_gradients m V params g
         = flat_layout (gradient_sums m V X Y 0) params @ drop (offEnd m params) g"
proof -
  let ?G = "gradient_sums m V X Y 0"
  define h1 where "h1 = flagged (trainPriors params) (mPriors ?G)"
  define h2 where "h2 = flagged (trainWeights params) (mWeights ?G)"
  define h3 where "h3 = flagged (trainFeatures params) (mFeatures ?G)"
  define h4 where "h4 = flagged (trainPredictors params) (mPredictors ?G)"
  define h5 where "h5 = flagged (trainInputBias params) (mInputBias ?G)"
  define h6 where "h6 = flagged (trainOutputBias params) (mOutputBias ?G)"
  note hs = h1_def h2_def h3_def h4_def h5_def h6_def
  note hz = hs [unfolded gradient_sums_zero, unfolded One_nat_def]
  note ol = offsets_flat [OF wf_gradient_sums [OF wf], of V X Y 0 params,
      unfolded off_gradient_sums, folded hs]
  define n1 where "n1 = flag_size (trainPriors params) (mNumComponents m)"
  define n2 where "n2 = flag_size (trainWeights params) (mNumComponents m * mNumFeatures m)"
  define n3 where "n3 = flag_size (trainFeatures params) (mDimIn m * mNumFeatures m)"
  define n4 where "n4 = flag_size (trainPredictors params) (mNumComponents m * mDimIn m)"
  define n5 where "n5 = flag_size (trainInputBias params) (mDimIn m * mNumComponents m)"
  define n6 where "n6 = flag_size (trainOutputBias params) (mNumComponents m)"
  note ns = n1_def n2_def n3_def n4_def n5_def n6_def
  have tot: "offEnd m params = n1 + n2 + n3 + n4 + n5 + n6"
    by (simp add: off_defs ns)
  have o: "offWeights m params = n1" "offFeatures m params = n1 + n2"
    "offPredictors m params = n1 + n2 + n3" "offInputBias m params = n1 + n2 + n3 + n4"
    "offOutputBias m params = n1 + n2 + n3 + n4 + n5"
    by (simp_all add: off_defs ns)
  define r1 where "r1 = drop n1 g"
  define r2 where "r2 = drop n2 r1"
  define r3 where "r3 = drop n3 r2"
  define r4 where "r4 = drop n4 r3"
  define r5 where "r5 = drop n5 r4"
  define r6 where "r6 = drop n6 r5"
  note rs = r1_def r2_def r3_def r4_def r5_def r6_def
  have s1: "when_flag (trainPriors params) (\<lambda>g. setZero_at g 0 (mNumComponents m) 1) g
            = h1 @ r1"
    using setZero_at_step [of "[]" 0 "trainPriors params" "mNumComponents m" 1 g] len
    by (simp add: hz [symmetric] rs ns [symmetric] tot)
  have s2: "when_flag (trainWeights params)
              (\<lambda>g. setZero_at g (offWeights m params) (mNumComponents m) (mNumFeatures m))
              (h1 @ r1) = h1 @ h2 @ r2"
    using setZero_at_step [of h1 "offWeights m params" "trainWeights params"
        "mNumComponents m" "mNumFeatures m" r1] len
    by (simp add: hz [symmetric] ol rs ns [symmetric] tot)
  have s3: "when_flag (trainFeatures params)
              (\<lambda>g. setZero_at g (offFeatures m params) (mDimIn m) (mNumFeatures m))
              (h1 @ h2 @ r2) = h1 @ h2 @ h3 @ r3"
    using setZero_at_step [of "h1 @ h2" "offFeatures m params" "trainFeatures params"
        "mDimIn m" "mNumFeatures m" r2] len
    by (simp add: hz [symmetric] ol rs ns [symmetric] tot)
  have s4: "when_flag (trainPredictors params)
              (\<lambda>g. setZero_at g (offPredictors m params) (mNumComponents m) (mDimIn m))
              (h1 @ h2 @ h3 @ r3) = h1 @ h2 @ h3 @ h4 @ r4"
    using setZero_at_step [of "h1 @ h2 @ h3" "offPredictors m params" "trainPredictors params"
        "mNumComponents m" "mDimIn m" r3] len
    by (simp add: hz [symmetric] ol rs ns [symmetric] tot)
  have s5: "when_flag (trainInputBias params)
              (\<lambda>g. setZero_at g (offInputBias m params) (mDimIn m) (mNumComponents m))
              (h1 @ h2 @ h3 @ h4 @ r4) = h1 @ h2 @ h3 @ h4 @ h5 @ r5"
    using setZero_at_step [of "h1 @ h2 @ h3 @ h4" "offInputBias m params"
        "trainInputBias params" "mDimIn m" "mNumComponents m" r4] len
    by (simp add: hz [symmetric] ol rs ns [symmetric] tot)
  have s6: "when_flag (trainOutputBias params)
              (\<lambda>g. setZero_at g (offOutputBias m params) (mNumComponents m) 1)
              (h1 @ h2 @ h3 @ h4 @ h5 @ r5) = h1 @ h2 @ h3 @ h4 @ h5 @ h6 @ r6"
    using setZero_at_step [of "h1 @ h2 @ h3 @ h4 @ h5" "offOutputBias m params"
        "trainOutputBias params" "mNumComponents m" 1 r5] len
    by (simp add: hz [symmetric] ol rs ns [symmetric] tot)
  have r6: "r6 = drop (offEnd m params) g"
    by (simp add: rs tot add.commute add.left_commute)
  show ?thesis
    unfolding initialize_gradients_def Let_def offs s1 s2 s3 s4 s5 s6 r6
    by (simp add: flat_layout_def hs)
qed

lemma batch_step_flat:
  fixes b cnt :: nat
  assumes wf: "wf_MCBM m"
    and wv: "wf_views V (mDimIn m) (mNumComponents m) (mNumFeatures m)"
    and rx: "rows X = mDimIn m" and ry: "rows Y = 1"
    and offs: "priorsGrad V = 0" "weightsGrad V = offWeights m params"
      "featuresGrad V = offFeatures m params" "predictorsGrad V = offPredictors m params"
      "inputBiasGrad V = offInputBias m params" "outputBiasGrad V = offOutputBias m params"
  shows "batch_step m V params (middleCols X b cnt) (middleCols Y b cnt)
           (logLik_sum V X Y b,
            map_option (\<lambda>r. flat_layout (gradient_sums m V X Y b) params @ r) ropt)
         = (logLik_sum V X Y (b + cnt),
            map_option (\<lambda>r. flat_layout (gradient_sums m V X Y (b + cnt)) params @ r) ropt)"
proof (cases ropt)
  case None
  then show ?thesis
    by (simp add: batch_step_def Let_def batch_contributions(7) [OF wv rx ry])
next
  case (Some r)
  then show ?thesis
    by (simp add: batch_step_def Let_def batch_contributions(7) [OF wv rx ry]
        batch_gradients_flat [OF wf wv rx ry offs])
qed

lemma batch_loop_closed:
  fixes b N :: nat
  assumes wf: "wf_MCBM m"
    and wv: "wf_views V (mDimIn m) (mNumComponents m) (mNumFeatures m)"
    and rx: "rows X = mDimIn m" and ry: "rows Y = 1"
    and offs: "priorsGrad V = 0" "weightsGrad V = offWeights m params"
      "featuresGrad V = offFeatures m params" "predictorsGrad V = offPredictors m params"
      "inputBiasGrad V = offInputBias m params" "outputBiasGrad V = offOutputBias m params"
    and bs: "1 \<le> bs" and N: "N = cols X"
  shows "batch_loop m V params X Y bs (int b)
           (logLik_sum V X Y (min b N),
            map_option (\<lambda>r. flat_layout (gradient_sums m V X Y (min b N)) params @ r) ropt)
         = Some (logLik_sum V X Y N,
                 map_option (\<lambda>r. flat_layout (gradient_sums m V X Y N) params @ r) ropt)"
proof (induction "N - b" arbitrary: b rule: less_induct)
  case less
  show ?case
  proof (cases "b < N")
    case False
    then have "min b N = N" by simp
    with False N show ?thesis
      by (subst batch_loop.simps) simp
  next
    case True
    define cnt where "cnt = nat (min bs (int (cols X) - int b))"
    have mb: "min b N = b" using True by simp
    have cnt: "b + cnt = min (b + nat bs) N"
    proof (cases "bs \<le> int N - int b")
      case le: True
      then have "cnt = nat bs" by (simp add: cnt_def N)
      moreover from le bs have "b + nat bs \<le> N" by linarith
      ultimately show ?thesis by simp
    next
      case gt: False
      then have "cnt = N - b" using True by (simp add: cnt_def N [symmetric] min_def)
      moreover from gt bs True have "N \<le> b + nat bs" by linarith
      ultimately show ?thesis using True by simp
    qed
    have nxt: "int b + bs = int (b + nat bs)"
      using bs by simp
    have nn: "\<not> min bs (int (cols X) - int b) < 0"
      using True bs N by simp
    have "N - (b + nat bs) < N - b"
      using True bs by simp
    note ih = less.hyps [OF this, folded cnt]
    let ?S = "\<lambda>k. (logLik_sum V X Y k,
       map_option (\<lambda>r. flat_layout (gradient_sums m V X Y k) params @ r) ropt)"
    have "batch_loop m V params X Y bs (int b) (?S b)
        = batch_loop m V params X Y bs (int b + bs)
            (batch_step m V params (middleCols X (nat (int b)) cnt)
               (middleCols Y (nat (int b)) cnt) (?S b))"
      by (subst batch_loop.simps) (use True N nn in \<open>simp add: cnt_def\<close>)
    also have "\<dots> = batch_loop m V params X Y bs (int (b + nat bs)) (?S (b + cnt))"
      by (simp only: nat_int batch_step_flat [OF wf wv rx ry offs] nxt)
    also have "\<dots> = Some (?S N)"
      by (rule ih)
    finally show ?thesis
      by (simp only: mb)
  qed
qed

lemma normConst_nonzero: "1 \<le> cols X \<Longrightarrow> normConst X \<noteq> 0"
  by (simp add: normConst_def)

lemma normConst_zero: "cols X = 0 \<Longrightarrow> normConst X = 0"
  by (simp add: normConst_def)

lemma logLik_sum_zero [simp]: "logLik_sum V X Y 0 = 0"
  by (simp add: logLik_sum_def)

text \<open>
  The closed form of \<^verbatim>\<open>computeGradient\<close> on a batch of at least one column: the value is
  the sum of the log-likelihoods of all columns and the gradient buffer starts with the
  flat layout of the six sums over all columns, both divided by \<^verbatim>\<open>normConst\<close>; what
  lies behind the layout in the buffer is untouched.
\<close>

lemma computeGradient_closed:
  assumes wf: "wf_MCBM m"
    and lx: "numParameters m params \<le> length x"
    and rx: "rows X = mDimIn m" and ry: "rows Y = 1"
    and bs: "1 \<le> batchSize params" and N: "1 \<le> cols X"
    and lg: "\<And>g'. g = Some g' \<Longrightarrow> numParameters m params \<le> length g'"
  shows "computeGradient m X Y x g params =
           Some (Fin (logLik_sum (interpret_memory m x params) X Y (cols X) / normConst X),
                 map_option
                   (\<lambda>g'. map Fin
                      (map (\<lambda>v. v / normConst X)
                         (flat_layout
                            (gradient_sums m (interpret_memory m x params) X Y (cols X)) params)
                       @ drop (numParameters m params) g')) g)"
proof -
  define V where "V = interpret_memory m x params"
  note np = numParameters_eq [OF wf, of params]
  have wv: "wf_views V (mDimIn m) (mNumComponents m) (mNumFeatures m)"
    unfolding V_def by (rule wf_interpret_memory [OF wf]) (use lx np in simp)
  note offs = interpret_memory_offsets(1-6) [of m x params, folded V_def]
  have oe: "offset V = offEnd m params"
    by (simp add: V_def interpret_memory_offsets)
  define ropt where "ropt = map_option (drop (offEnd m params)) g"
  have init: "map_option (initialize_gradients m V params) g
      = map_option (\<lambda>r. flat_layout (gradient_sums m V X Y (min 0 (cols X))) params @ r) ropt"
  proof (cases g)
    case None
    then show ?thesis by (simp add: ropt_def)
  next
    case (Some g')
    with lg np have "offEnd m params \<le> length g'" by simp
    from initialize_gradients_flat [OF wf offs this, of X Y] Some show ?thesis
      by (simp add: ropt_def)
  qed
  have bs': "1 \<le> min (batchSize params) (int (cols X))"
    using bs N by simp
  have loop: "batch_loop m V params X Y (min (batchSize params) (int (cols X))) 0
      (0, map_option (initialize_gradients m V params) g)
      = Some (logLik_sum V X Y (cols X),
              map_option (\<lambda>r. flat_layout (gradient_sums m V X Y (cols X)) params @ r) ropt)"
    using batch_loop_closed [OF wf wv rx ry offs bs' refl, of 0 ropt]
    by (simp add: init)
  have len: "length (flat_layout (gradient_sums m V X Y (cols X)) params) = offEnd m params"
    using length_flat_layout [OF wf_gradient_sums [OF wf], of V X Y "cols X" params] by simp
  have nz: "normConst X \<noteq> 0"
    by (rule normConst_nonzero [OF N])
  show ?thesis
    unfolding computeGradient_def Let_def V_def [symmetric] loop
    by (cases g) (simp_all add: ddiv_def nz oe len ropt_def np)
qed

text \<open>
  On a batch without columns the loop body never runs, whatever the batch size, and
  both divisions are divisions of zero by zero.
\<close>

lemma computeGradient_empty:
  assumes "cols X = 0"
  shows "computeGradient m X Y x None params = Some (NonFinite, None)"
  unfolding computeGradient_def Let_def
  by (subst batch_loop.simps) (simp add: assms ddiv_def normConst_zero)

section \<open>Batches and normalization\<close>

lemma batchSize_irrelevant [simp]:
  "numParameters m (params\<lparr>batchSize := b\<rparr>) = numParameters m params"
  "interpret_memory m x (params\<lparr>batchSize := b\<rparr>) = interpret_memory m x params"
  "flat_layout s (params\<lparr>batchSize := b\<rparr>) = flat_layout s params"
  by (simp_all add: numParameters_def interpret_memory_def flat_layout_def)

text \<open>
  C4.  For a well-shaped model, a data set of \<open>N \<ge> 1\<close> columns with its outputs, a
  parameter buffer and an optional gradient buffer of sufficient length, and any two
  batch sizes \<open>b\<close> and \<open>b'\<close> of at least one, \<^verbatim>\<open>computeGradient\<close> returns, and returns the
  same value and the same gradient buffer: the sums over all columns, divided once by
  \<open>N / ln 2\<close>.
\<close>

theorem computeGradient_batch_invariance:
  assumes "wf_MCBM m"
    and "has_shape X (mDimIn m) N" and "has_shape Y 1 N" and "1 \<le> N"
    and "numParameters m params \<le> length x"
    and "\<forall>g'. g = Some g' \<longrightarrow> numParameters m params \<le> length g'"
    and "1 \<le> b" and "1 \<le> b'"
  shows "computeGradient m X Y x g (params\<lparr>batchSize := b\<rparr>) =
           computeGradient m X Y x g (params\<lparr>batchSize := b'\<rparr>) \<and>
         computeGradient m X Y x g (params\<lparr>batchSize := b\<rparr>) =
           Some (Fin (logLik_sum (interpret_memory m x params) X Y N / (real N / ln 2)),
                 map_option
                   (\<lambda>g'. map Fin
                      (map (\<lambda>v. v / (real N / ln 2))
                         (flat_layout
                            (gradient_sums m (interpret_memory m x params) X Y N) params)
                       @ drop (numParameters m params) g')) g)"
proof -
  have d: "rows X = mDimIn m" "rows Y = 1" "cols X = N"
    using assms(2,3) by (simp_all add: has_shape_def)
  have N: "1 \<le> cols X" using assms(4) d by simp
  have c: "computeGradient m X Y x g (params\<lparr>batchSize := k\<rparr>) =
           Some (Fin (logLik_sum (interpret_memory m x params) X Y N / (real N / ln 2)),
                 map_option
                   (\<lambda>g'. map Fin
                      (map (\<lambda>v. v / (real N / ln 2))
                         (flat_layout
                            (gradient_sums m (interpret_memory m x params) X Y N) params)
                       @ drop (numParameters m params) g')) g)" if "1 \<le> k" for k
    using computeGradient_closed [of m "params\<lparr>batchSize := k\<rparr>" x X Y g]
      assms(1,5,6) d(1,2) N that
    by (simp add: d(3) normConst_def)
  show ?thesis
    by (simp add: c [OF assms(7)] c [OF assms(8)])
qed

lemma example_shapes:
  "has_shape example_input (mDimIn example_model) 3" "has_shape example_output 1 3"
  by (simp_all add: has_shape_def example_input_def example_output_def example_model_def)

lemma example_lengths:
  "numParameters example_model example_params \<le> length example_x"
  "\<forall>g'. Some example_x = Some g' \<longrightarrow> numParameters example_model example_params \<le> length g'"
  using length_example_x by simp_all

theorem computeGradient_batch_invariance_witness:
  "wf_MCBM example_model \<and>
   has_shape example_input (mDimIn example_model) 3 \<and> has_shape example_output 1 3 \<and>
   numParameters example_model example_params \<le> length example_x \<and>
   computeGradient example_model example_input example_output example_x (Some example_x)
     (example_params\<lparr>batchSize := 1\<rparr>) =
   computeGradient example_model example_input example_output example_x (Some example_x)
     (example_params\<lparr>batchSize := 3\<rparr>) \<and>
   computeGradient example_model example_input example_output example_x (Some example_x)
     (example_params\<lparr>batchSize := 2\<rparr>) =
   computeGradient example_model example_input example_output example_x (Some example_x)
     (example_params\<lparr>batchSize := 3\<rparr>)"
proof -
  have one: "(1::nat) \<le> 3" "(1::int) \<le> 1" "(1::int) \<le> 2" "(1::int) \<le> 3"
    by simp_all
  from computeGradient_batch_invariance [OF wf_example_model example_shapes one(1)
      example_lengths one(2) one(4)]
    computeGradient_batch_invariance [OF wf_example_model example_shapes one(1)
      example_lengths one(3) one(4)]
  show ?thesis
    using wf_example_model example_shapes example_lengths(1) by simp
qed

lemma computeGradient_empty_buffer:
  assumes wf: "wf_MCBM m" and c: "cols X = 0" and lg: "numParameters m params \<le> length g'"
  shows "computeGradient m X Y x (Some g') params =
           Some (NonFinite,
                 Some (replicate (numParameters m params) NonFinite @
                       map Fin (drop (numParameters m params) g')))"
proof -
  define V where "V = interpret_memory m x params"
  note np = numParameters_eq [OF wf, of params]
  note offs = interpret_memory_offsets(1-6) [of m x params, folded V_def]
  have oe: "offset V = offEnd m params"
    by (simp add: V_def interpret_memory_offsets)
  have le: "offEnd m params \<le> length g'" using lg np by simp
  note init = initialize_gradients_flat [OF wf offs le, of X Y]
  have len: "length (flat_layout (gradient_sums m V X Y 0) params) = offEnd m params"
    using length_flat_layout [OF wf_gradient_sums [OF wf], of V X Y 0 params] by simp
  show ?thesis
    unfolding computeGradient_def Let_def V_def [symmetric]
    by (subst batch_loop.simps)
       (simp add: c ddiv_def normConst_zero init oe len np map_replicate_const)
qed

text \<open>
  C9, as amended.  The final normalization of \<^verbatim>\<open>computeGradient\<close> divides by the constant
  \<open>N / ln 2\<close>, which is zero exactly for a batch without columns.  For a batch of \<open>N \<ge> 1\<close>
  columns and a batch size of at least one, what is returned is the sum of the
  log-likelihoods, and what is written is every entry of the gradient layout, each
  divided by this constant, which is not zero.  A batch without columns is not rejected:
  the loop body never runs, \<^verbatim>\<open>computeGradient\<close> returns, and its value and every entry of
  the gradient layout are the non-finite result of the division by zero.
\<close>

theorem computeGradient_normalization:
  assumes "wf_MCBM m"
    and "has_shape X (mDimIn m) N" and "has_shape Y 1 N"
    and "numParameters m params \<le> length x"
    and "\<forall>g'. g = Some g' \<longrightarrow> numParameters m params \<le> length g'"
  shows "normConst X = real N / ln 2 \<and>
         (normConst X = 0 \<longleftrightarrow> N = 0) \<and>
         (1 \<le> N \<and> 1 \<le> batchSize params \<longrightarrow>
            real N / ln 2 \<noteq> 0 \<and>
            computeGradient m X Y x g params =
              Some (ddiv (logLik_sum (interpret_memory m x params) X Y N) (real N / ln 2),
                    map_option
                      (\<lambda>g'. map (\<lambda>v. ddiv v (real N / ln 2))
                              (flat_layout
                                 (gradient_sums m (interpret_memory m x params) X Y N) params) @
                            map Fin (drop (numParameters m params) g')) g)) \<and>
         (N = 0 \<longrightarrow>
            computeGradient m X Y x g params =
              Some (NonFinite,
                    map_option
                      (\<lambda>g'. replicate (numParameters m params) NonFinite @
                            map Fin (drop (numParameters m params) g')) g))"
proof -
  have d: "rows X = mDimIn m" "rows Y = 1" "cols X = N"
    using assms(2,3) by (simp_all add: has_shape_def)
  have nc: "normConst X = real N / ln 2"
    by (simp add: normConst_def d)
  have a: "normConst X = 0 \<longleftrightarrow> N = 0"
    by (simp add: normConst_def d)
  have b: "real N / ln 2 \<noteq> 0 \<and>
      computeGradient m X Y x g params =
        Some (ddiv (logLik_sum (interpret_memory m x params) X Y N) (real N / ln 2),
              map_option
                (\<lambda>g'. map (\<lambda>v. ddiv v (real N / ln 2))
                        (flat_layout
                           (gradient_sums m (interpret_memory m x params) X Y N) params) @
                      map Fin (drop (numParameters m params) g')) g)"
    if "1 \<le> N" "1 \<le> batchSize params"
  proof -
    have nz: "real N / ln 2 \<noteq> 0"
      using that(1) by simp
    have "computeGradient m X Y x g params =
        Some (Fin (logLik_sum (interpret_memory m x params) X Y N / (real N / ln 2)),
              map_option
                (\<lambda>g'. map Fin (map (\<lambda>v. v / (real N / ln 2))
                      (flat_layout
                         (gradient_sums m (interpret_memory m x params) X Y N) params)
                       @ drop (numParameters m params) g')) g)"
      using computeGradient_closed [OF assms(1,4) d(1,2) that(2), of g] assms(5) that(1) d(3)
      by (simp add: nc)
    also have "\<dots> =
        Some (ddiv (logLik_sum (interpret_memory m x params) X Y N) (real N / ln 2),
              map_option
                (\<lambda>g'. map (\<lambda>v. ddiv v (real N / ln 2))
                        (flat_layout
                           (gradient_sums m (interpret_memory m x params) X Y N) params) @
                      map Fin (drop (numParameters m params) g')) g)"
      using nz by (simp add: ddiv_def comp_def)
    finally show ?thesis using nz by simp
  qed
  have c: "computeGradient m X Y x g params =
              Some (NonFinite,
                    map_option
                      (\<lambda>g'. replicate (numParameters m params) NonFinite @
                            map Fin (drop (numParameters m params) g')) g)" if "N = 0"
  proof (cases g)
    case None
    then show ?thesis using that d by (simp add: computeGradient_empty)
  next
    case (Some g')
    then show ?thesis
      using that d computeGradient_empty_buffer [OF assms(1), of X params g' Y x] assms(5)
      by simp
  qed
  show ?thesis using nc a b c by blast
qed

lemma empty_shapes:
  "has_shape empty_input (mDimIn example_model) 0" "has_shape empty_output 1 0"
  by (simp_all add: has_shape_def empty_input_def empty_output_def example_model_def)

theorem computeGradient_normalization_witness:
  "wf_MCBM example_model \<and>
   has_shape example_input (mDimIn example_model) 3 \<and> has_shape example_output 1 3 \<and>
   has_shape empty_input (mDimIn example_model) 0 \<and> has_shape empty_output 1 0 \<and>
   numParameters example_model example_params \<le> length example_x \<and>
   (1::nat) \<le> 3 \<and> 1 \<le> batchSize example_params \<and>
   normConst example_input = 3 / ln 2 \<and>
   normConst example_input \<noteq> 0 \<and> normConst empty_input = 0 \<and>
   computeGradient example_model example_input example_output example_x
     (Some example_x) example_params =
     Some (ddiv (logLik_sum (interpret_memory example_model example_x example_params)
                   example_input example_output 3) (3 / ln 2),
           Some (map (\<lambda>v. ddiv v (3 / ln 2))
                   (flat_layout
                      (gradient_sums example_model
                         (interpret_memory example_model example_x example_params)
                         example_input example_output 3) example_params))) \<and>
   computeGradient example_model empty_input empty_output example_x
     (Some example_x) example_params = Some (NonFinite, Some (replicate 10 NonFinite))"
proof -
  have bs: "1 \<le> batchSize example_params"
    by (simp add: example_params_def Parameters_default_def)
  have np: "numParameters example_model example_params = 10"
    using length_example_x by (simp add: example_x_def)
  have lx: "length example_x = 10"
    by (simp add: example_x_def)
  from computeGradient_normalization [OF wf_example_model example_shapes example_lengths]
    computeGradient_normalization [OF wf_example_model empty_shapes example_lengths]
  show ?thesis
    using wf_example_model example_shapes empty_shapes example_lengths(1) bs
    by (simp add: np lx)
qed

theorem computeGradient_empty_batch_counterexample:
  "cols empty_input = 0 \<and> cols empty_output = cols empty_input \<and>
   computeGradient example_model empty_input empty_output example_x None example_params
     = Some (NonFinite, None)"
  by (simp add: computeGradient_empty empty_input_def empty_output_def)

section \<open>Gradient check\<close>

lemma dbl_simps [simp]:
  "dadd (Fin a) (Fin b) = Fin (a + b)"
  "dsub (Fin a) (Fin b) = Fin (a - b)"
  "dmul (Fin a) (Fin b) = Fin (a * b)"
  "dsqrt (Fin a) = Fin (sqrt a)"
  "b \<noteq> 0 \<Longrightarrow> ddiv_by (Fin a) b = Fin (a / b)"
  by (simp_all add: dadd_def dsub_def dmul_def dsqrt_def ddiv_by_def ddiv_def dbl_binop_def)

lemma objective_closed:
  assumes "wf_MCBM m" and "numParameters m params \<le> length y"
    and "rows X = mDimIn m" and "rows Y = 1"
    and "1 \<le> batchSize params" and "1 \<le> cols X"
  shows "computeGradient m X Y y None params = Some (Fin (objective m X Y params y), None)"
    and "objective m X Y params y =
           logLik_sum (interpret_memory m y params) X Y (cols X) / normConst X"
  using computeGradient_closed [OF assms, of None]
  by (simp_all add: objective_def)

text \<open>
  The loop of the numerical gradient: started with \<open>y\<close> equal to \<open>x\<close>, it ends with \<open>y\<close>
  equal to \<open>x\<close> again, and has stored at every index it visited the central difference
  of the objective in that coordinate alone.
\<close>

lemma central_differences_closed:
  assumes wf: "wf_MCBM m" and lx: "numParameters m params \<le> length x"
    and rx: "rows X = mDimIn m" and ry: "rows Y = 1"
    and bs: "1 \<le> batchSize params" and N: "1 \<le> cols X"
    and eps: "epsilon \<noteq> 0"
  defines "inst \<equiv> \<lparr>inst_mcbm = m, inst_params = params, inst_input = X, inst_output = Y\<rparr>"
  shows "central_differences inst epsilon x idxs (x, n) =
           Some (x, fold (\<lambda>i n. n[i := Fin ((objective m X Y params (x[i := x ! i + epsilon]) -
                                              objective m X Y params (x[i := x ! i - epsilon]))
                                             / (2 * epsilon))]) idxs n)"
proof (induction idxs arbitrary: n)
  case Nil
  show ?case by simp
next
  case (Cons i idxs)
  have ev: "evaluateLBFGS inst y None = Some (Fin (objective m X Y params y), None)"
    if "length y = length x" for y
    unfolding evaluateLBFGS_def inst_def
    using objective_closed(1) [OF wf _ rx ry bs N, of y] lx that by simp
  show ?case
    using eps by (simp add: Let_def ev Cons.IH)
qed

lemma fold_update_nth:
  "k \<le> length n \<Longrightarrow> i < k \<Longrightarrow> fold (\<lambda>i n. n[i := F i]) [0..<k] n ! i = F i"
proof (induction k arbitrary: i)
  case 0
  then show ?case by simp
next
  case (Suc k)
  have l: "length (fold (\<lambda>i n. n[i := F i]) [0..<k] n) = length n"
    by (induction k) simp_all
  show ?case
  proof (cases "i = k")
    case True
    then show ?thesis using Suc.prems l by simp
  next
    case False
    then have "i < k" using Suc.prems by simp
    with Suc.IH [of i] Suc.prems False show ?thesis by simp
  qed
qed

lemma fold_squared_error:
  assumes "\<And>i. i < k \<Longrightarrow> g ! i = Fin (G i)" and "\<And>i. i < k \<Longrightarrow> n ! i = Fin (D i)"
  shows "fold (\<lambda>i err. dadd err (dmul (dsub (g ! i) (n ! i)) (dsub (g ! i) (n ! i))))
           [0..<k] (Fin 0) = Fin (\<Sum>i<k. (G i - D i) * (G i - D i))"
  using assms by (induction k) simp_all

text \<open>
  C3.  For a well-shaped model, a batch of \<open>N \<ge> 1\<close> columns of the model's input
  dimension with one row of outputs, a batch size of at least one, a step \<open>\<epsilon> \<noteq> 0\<close> and
  every set of flags, \<^verbatim>\<open>checkGradient\<close> raises no exception and returns the Euclidean norm
  of the difference between two vectors over the flagged scalar parameters: the analytic
  gradient \<open>G\<close>, which one evaluation at the base point \<open>x\<close> writes, and the central
  differences \<open>(f (x + \<epsilon> e\<^sub>i) - f (x - \<epsilon> e\<^sub>i)) / (2 \<epsilon>)\<close> of the objective \<open>f\<close>, each taken with all
  coordinates but the \<open>i\<close>-th at their base values.
\<close>

theorem checkGradient_central_differences:
  assumes "wf_MCBM m"
    and "has_shape X (mDimIn m) N" and "has_shape Y 1 N" and "1 \<le> N"
    and "1 \<le> batchSize params" and "epsilon \<noteq> 0"
    and "length g0 = numParameters m params" and "length n0 = numParameters m params"
  shows "\<exists>val G.
           length G = numParameters m params \<and>
           computeGradient m X Y (parameters m params) (Some g0) params
             = Some (Fin val, Some (map Fin G)) \<and>
           checkGradient m X Y epsilon params g0 n0 =
             Some (Inr (Fin (sqrt (\<Sum>i<numParameters m params.
                (G ! i -
                 (objective m X Y params
                    ((parameters m params)[i := parameters m params ! i + epsilon]) -
                  objective m X Y params
                    ((parameters m params)[i := parameters m params ! i - epsilon]))
                 / (2 * epsilon))\<^sup>2))))"
proof -
  define x where "x = parameters m params"
  define np where "np = numParameters m params"
  define inst where
    "inst = \<lparr>inst_mcbm = m, inst_params = params, inst_input = X, inst_output = Y\<rparr>"
  define D where "D = (\<lambda>i. (objective m X Y params (x[i := x ! i + epsilon]) -
                            objective m X Y params (x[i := x ! i - epsilon])) / (2 * epsilon))"
  define G where "G = map (\<lambda>v. v / normConst X)
     (flat_layout (gradient_sums m (interpret_memory m x params) X Y (cols X)) params)"
  have d: "rows X = mDimIn m" "rows Y = 1" "cols X = N" "cols Y = N"
    using assms(2,3) by (simp_all add: has_shape_def)
  have N: "1 \<le> cols X" using assms(4) d by simp
  have lx: "length x = np"
    by (simp add: x_def np_def parameters_eq [OF assms(1)]
        length_flat_layout [OF assms(1)] numParameters_eq [OF assms(1)])
  have y: "map (\<lambda>i. x ! i) [0..<np] = x"
    using map_nth [of x] by (simp add: lx)
  have lG: "length G = np"
    using length_flat_layout [OF wf_gradient_sums [OF assms(1)],
        of "interpret_memory m x params" X Y "cols X" params]
    by (simp add: G_def np_def numParameters_eq [OF assms(1)])
  have cd: "central_differences inst epsilon x [0..<np] (x, n0) =
      Some (x, fold (\<lambda>i n. n[i := Fin (D i)]) [0..<np] n0)"
    unfolding inst_def D_def
    by (rule central_differences_closed [OF assms(1) _ d(1,2) assms(5) N assms(6)])
       (simp add: lx np_def)
  have an: "computeGradient m X Y x (Some g0) params =
      Some (Fin (logLik_sum (interpret_memory m x params) X Y (cols X) / normConst X),
            Some (map Fin G))"
    using computeGradient_closed [OF assms(1) _ d(1,2) assms(5) N, of x "Some g0"] lx
    by (simp add: G_def np_def assms(7))
  have gi: "map Fin G ! i = Fin (G ! i)" if "i < np" for i
    using that lG by simp
  have ni: "fold (\<lambda>i n. n[i := Fin (D i)]) [0..<np] n0 ! i = Fin (D i)" if "i < np" for i
    by (rule fold_update_nth [where F = "\<lambda>i. Fin (D i)"]) (use that assms(8) in \<open>simp_all add: np_def\<close>)
  have err: "fold (\<lambda>i err. dadd err
                (dmul (dsub (map Fin G ! i) (fold (\<lambda>i n. n[i := Fin (D i)]) [0..<np] n0 ! i))
                      (dsub (map Fin G ! i) (fold (\<lambda>i n. n[i := Fin (D i)]) [0..<np] n0 ! i))))
              [0..<np] (Fin 0)
             = Fin (\<Sum>i<np. (G ! i - D i) * (G ! i - D i))"
    by (rule fold_squared_error) (simp_all add: gi ni)
  have "checkGradient m X Y epsilon params g0 n0 =
      Some (Inr (Fin (sqrt (\<Sum>i<np. (G ! i - D i)\<^sup>2))))"
    unfolding checkGradient_def Let_def x_def [symmetric] np_def [symmetric]
      inst_def [symmetric] y cd
    by (simp add: d evaluateLBFGS_def inst_def an err power2_eq_square)
  with an lG show ?thesis
    unfolding x_def np_def D_def by blast
qed

theorem checkGradient_central_differences_witness:
  "wf_MCBM example_model \<and>
   has_shape example_input (mDimIn example_model) 3 \<and> has_shape example_output 1 3 \<and>
   (1::nat) \<le> 3 \<and> 1 \<le> batchSize example_params \<and> (1 / 100000 :: real) \<noteq> 0 \<and>
   length (replicate 10 (0::real)) = numParameters example_model example_params \<and>
   length (replicate 10 NonFinite) = numParameters example_model example_params \<and>
   (\<exists>r. checkGradient example_model example_input example_output (1 / 100000) example_params
          (replicate 10 0) (replicate 10 NonFinite) = Some (Inr (Fin r)))"
proof -
  have bs: "1 \<le> batchSize example_params"
    by (simp add: example_params_def Parameters_default_def)
  have np: "numParameters example_model example_params = 10"
    using length_example_x by (simp add: example_x_def)
  have l: "length (replicate 10 (0::real)) = numParameters example_model example_params"
    "length (replicate 10 NonFinite) = numParameters example_model example_params"
    by (simp_all add: np)
  have one: "(1::nat) \<le> 3" and eps: "(1 / 100000 :: real) \<noteq> 0"
    by simp_all
  from checkGradient_central_differences [OF wf_example_model example_shapes one bs eps l]
  obtain val G where "checkGradient example_model example_input example_output (1 / 100000)
      example_params (replicate 10 0) (replicate 10 NonFinite) =
      Some (Inr (Fin (sqrt (\<Sum>i<numParameters example_model example_params.
                (G ! i -
                 (objective example_model example_input example_output example_params
                    ((parameters example_model example_params)
                       [i := parameters example_model example_params ! i + 1 / 100000]) -
                  objective example_model example_input example_output example_params
                    ((parameters example_model example_params)
                       [i := parameters example_model example_params ! i - 1 / 100000]))
                 / (2 * (1 / 100000)))\<^sup>2))))"
    by blast
  then have "\<exists>r. checkGradient example_model example_input example_output (1 / 100000)
      example_params (replicate 10 0) (replicate 10 NonFinite) = Some (Inr (Fin r))"
    by blast
  with wf_example_model example_shapes bs l show ?thesis
    by simp
qed

section \<open>Derivatives of the log-likelihood\<close>

lemma sum_list_upt_sum: "(\<Sum>k\<leftarrow>[0..<n]. f k) = (\<Sum>k<n. f k :: real)"
  by (induction n) simp_all

lemma lse_upt:
  "1 \<le> C \<Longrightarrow> lse (map s [0..<C]) = ln (\<Sum>c<C. exp (s c))"
  using lse_eq [of "map s [0..<C]"] sum_list_upt_sum [of "\<lambda>c. exp (s c)" C]
  by (simp add: comp_def)

lemma sum_exp_pos: "1 \<le> (C::nat) \<Longrightarrow> 0 < (\<Sum>c<C. exp (s c :: real))"
  by (rule sum_pos) (auto simp: lessThan_empty_iff)

lemma exp_minus_lse:
  assumes "1 \<le> C" and "c < C"
  shows "exp (s c - lse (map s [0..<C])) = exp (s c) / (\<Sum>c<C. exp (s c))"
  using sum_exp_pos [OF assms(1), of s]
  by (simp add: lse_upt [OF assms(1)] exp_diff)

lemma DERIV_lse:
  assumes C: "1 \<le> C"
    and d: "\<And>c. c < C \<Longrightarrow> ((\<lambda>t. s t c) has_real_derivative a c) (at t0)"
  shows "((\<lambda>t. lse (map (s t) [0..<C])) has_real_derivative
           (\<Sum>c<C. exp (s t0 c - lse (map (s t0) [0..<C])) * a c)) (at t0)"
proof -
  have pos: "0 < (\<Sum>c<C. exp (s t c))" for t
    by (rule sum_exp_pos [OF C])
  have "((\<lambda>t. ln (\<Sum>c<C. exp (s t c))) has_real_derivative
          (\<Sum>c<C. exp (s t0 c) * a c) / (\<Sum>c<C. exp (s t0 c))) (at t0)"
    using pos [of t0]
    by (auto intro!: derivative_eq_intros d simp: divide_simps)
  moreover have "(\<Sum>c<C. exp (s t0 c) * a c) / (\<Sum>c<C. exp (s t0 c))
      = (\<Sum>c<C. exp (s t0 c - lse (map (s t0) [0..<C])) * a c)"
    by (simp add: exp_minus_lse [OF C] sum_divide_distrib)
  ultimately show ?thesis
    by (simp add: lse_upt [OF C])
qed

lemma lik_algebra:
  fixes e0 e1 l0 l1 y :: real
  assumes "0 < e0" and "0 < e1"
  shows "y * (l1 - (e0 * l0 + e1 * l1) / (e0 + e1)) +
         (1 - y) * (l0 - (e0 * l0 + e1 * l1) / (e0 + e1))
         = (y * (e0 / (e0 + e1)) - (1 - y) * (e1 / (e0 + e1))) * (l1 - l0)"
proof -
  have "e0 + e1 \<noteq> 0" using assms by simp
  then show ?thesis
    by (simp add: field_simps)
qed

lemma lse_two: "lse [u, v] = ln (exp u + exp v)"
  by (simp add: lse_eq)

lemma DERIV_s_logLik:
  assumes C: "1 \<le> C" and r: "\<And>t. rows (weights (V t)) = C"
    and d0: "\<And>c. c < C \<Longrightarrow> ((\<lambda>t. s_logPost0 (V t) v c) has_real_derivative a0 c) (at t0)"
    and d1: "\<And>c. c < C \<Longrightarrow> ((\<lambda>t. s_logPost1 (V t) v c) has_real_derivative a1 c) (at t0)"
  shows "((\<lambda>t. s_logLik (V t) v y) has_real_derivative
           (\<Sum>c<C. s_post1Tmp (V t0) v y c * a1 c - s_post0Tmp (V t0) v y c * a0 c)) (at t0)"
proof -
  define L0 where "L0 = (\<lambda>t. s_logProb0 (V t) v)"
  define L1 where "L1 = (\<lambda>t. s_logProb1 (V t) v)"
  define l0 where "l0 = (\<Sum>c<C. exp (s_logPost0 (V t0) v c - L0 t0) * a0 c)"
  define l1 where "l1 = (\<Sum>c<C. exp (s_logPost1 (V t0) v c - L1 t0) * a1 c)"
  have D0: "(L0 has_real_derivative l0) (at t0)"
    unfolding L0_def l0_def s_logProb0_def r
    by (rule DERIV_lse [OF C d0])
  have D1: "(L1 has_real_derivative l1) (at t0)"
    unfolding L1_def l1_def s_logProb1_def r
    by (rule DERIV_lse [OF C d1])
  have pos: "0 < exp (L0 t0) + exp (L1 t0)"
    by (simp add: add_pos_pos)
  have Dn: "((\<lambda>t. ln (exp (L0 t) + exp (L1 t))) has_real_derivative
       (exp (L0 t0) * l0 + exp (L1 t0) * l1) / (exp (L0 t0) + exp (L1 t0))) (at t0)"
    using pos by (auto intro!: derivative_eq_intros D0 D1 simp: divide_simps)
  have Dl: "((\<lambda>t. y * (L1 t - ln (exp (L0 t) + exp (L1 t))) +
                  (1 - y) * (L0 t - ln (exp (L0 t) + exp (L1 t)))) has_real_derivative
       y * (l1 - (exp (L0 t0) * l0 + exp (L1 t0) * l1) / (exp (L0 t0) + exp (L1 t0))) +
       (1 - y) * (l0 - (exp (L0 t0) * l0 + exp (L1 t0) * l1) / (exp (L0 t0) + exp (L1 t0))))
       (at t0)"
    using pos by (auto intro!: derivative_eq_intros D0 D1 Dn)
  have f: "(\<lambda>t. s_logLik (V t) v y) =
      (\<lambda>t. y * (L1 t - ln (exp (L0 t) + exp (L1 t))) +
                  (1 - y) * (L0 t - ln (exp (L0 t) + exp (L1 t))))"
    by (simp add: s_logLik_def s_logNorm_def lse_two L0_def L1_def)
  have tmp: "s_tmp (V t0) v y =
      y * (exp (L0 t0) / (exp (L0 t0) + exp (L1 t0))) -
      (1 - y) * (exp (L1 t0) / (exp (L0 t0) + exp (L1 t0)))"
    using pos by (simp add: s_tmp_def s_logNorm_def lse_two L0_def L1_def exp_diff)
  have "(\<Sum>c<C. s_post1Tmp (V t0) v y c * a1 c - s_post0Tmp (V t0) v y c * a0 c)
      = s_tmp (V t0) v y * (l1 - l0)"
    by (simp add: s_post1Tmp_def s_post0Tmp_def l0_def l1_def L0_def L1_def
        sum_subtractf sum_distrib_left right_diff_distrib mult_ac)
  also have "\<dots> = y * (l1 - (exp (L0 t0) * l0 + exp (L1 t0) * l1) / (exp (L0 t0) + exp (L1 t0))) +
       (1 - y) * (l0 - (exp (L0 t0) * l0 + exp (L1 t0) * l1) / (exp (L0 t0) + exp (L1 t0)))"
    unfolding tmp by (rule lik_algebra [symmetric]) simp_all
  finally show ?thesis
    using Dl by (simp add: f)
qed

lemma dims_set_coeff [simp]:
  "rows (set_coeff M j t) = rows M" "cols (set_coeff M j t) = cols M"
  by (simp_all add: set_coeff_def)

lemma has_shape_set_coeff: "has_shape M r c \<Longrightarrow> has_shape (set_coeff M j t) r c"
  by (simp add: has_shape_def set_coeff_def)

lemma index_eq_iff: "a < r \<Longrightarrow> a + b * r = j \<longleftrightarrow> a = j mod r \<and> b = j div r"
  for a b r j :: nat
  by (auto simp: div_mult_mod_eq)

lemma coeff_set_coeff:
  assumes "has_shape M r c" and "a < r" and "b < c" and "j < r * c"
  shows "coeff (set_coeff M j t) a b =
           (if a = j mod r \<and> b = j div r then t else coeff M a b)"
proof -
  have l: "j < length (data M)" "rows M = r"
    using assms(1,4) by (simp_all add: has_shape_def)
  show ?thesis
    using index_eq_iff [OF assms(2), of b j] l
    by (auto simp: coeff_def set_coeff_def)
qed

lemma DERIV_coeff_set_coeff:
  assumes "has_shape M r c" and "a < r" and "b < c" and "j < r * c"
  shows "((\<lambda>t. coeff (set_coeff M j t) a b) has_real_derivative
            (if a = j mod r \<and> b = j div r then 1 else 0)) (at t0)"
proof (cases "a = j mod r \<and> b = j div r")
  case True
  show ?thesis
    unfolding coeff_set_coeff [OF assms] using True by simp
next
  case False
  show ?thesis
    unfolding coeff_set_coeff [OF assms] by (simp only: False if_False DERIV_const)
qed

lemma div_less_cols: "j < r * c \<Longrightarrow> j div r < c" for j r c :: nat
  by (simp add: less_mult_imp_div_less mult.commute)

lemma mod_less_rows: "j < r * c \<Longrightarrow> j mod r < r" for j r c :: nat
  by (cases r) simp_all

text \<open>
  Sums along a row and along a column of a matrix in which one coefficient varies.
\<close>

lemma DERIV_row_sum:
  assumes "has_shape M r c" and "j < r * c" and "a < r"
  shows "((\<lambda>t. \<Sum>b<c. coeff (set_coeff M j t) a b * w b) has_real_derivative
            (if a = j mod r then w (j div r) else 0)) (at t0)"
proof -
  have "((\<lambda>t. \<Sum>b<c. coeff (set_coeff M j t) a b * w b) has_real_derivative
          (\<Sum>b<c. (if a = j mod r \<and> b = j div r then 1 else 0) * w b)) (at t0)"
    by (rule DERIV_sum, rule DERIV_cmult_right, rule DERIV_coeff_set_coeff [OF assms(1,3) _ assms(2)])
       simp
  moreover have "(\<Sum>b<c. (if a = j mod r \<and> b = j div r then 1 else 0) * w b)
      = (if a = j mod r then w (j div r) else 0)"
    using div_less_cols [OF assms(2)]
    by (cases "a = j mod r") (simp_all add: if_distrib [where f = "\<lambda>x. x * _"] sum.delta cong: if_cong)
  ultimately show ?thesis by simp
qed

lemma DERIV_col_sum:
  assumes "has_shape M r c" and "j < r * c" and "b < c"
  shows "((\<lambda>t. \<Sum>a<r. coeff (set_coeff M j t) a b * w a) has_real_derivative
            (if b = j div r then w (j mod r) else 0)) (at t0)"
proof -
  have "((\<lambda>t. \<Sum>a<r. coeff (set_coeff M j t) a b * w a) has_real_derivative
          (\<Sum>a<r. (if a = j mod r \<and> b = j div r then 1 else 0) * w a)) (at t0)"
    by (rule DERIV_sum, rule DERIV_cmult_right, rule DERIV_coeff_set_coeff [OF assms(1) _ assms(3,2)])
       simp
  moreover have "(\<Sum>a<r. (if a = j mod r \<and> b = j div r then 1 else 0) * w a)
      = (if b = j div r then w (j mod r) else 0)"
    using mod_less_rows [OF assms(2)]
    by (cases "b = j div r") (simp_all add: if_distrib [where f = "\<lambda>x. x * _"] sum.delta cong: if_cong)
  ultimately show ?thesis by simp
qed

lemma s_featureOutput_sum:
  "s_featureOutput V v f = (\<Sum>d<rows (features V). coeff (features V) d f * v d)"
  by (simp add: s_featureOutput_def sum_list_upt_sum)

lemma s_logPost0_sum:
  "s_logPost0 V v c =
     (\<Sum>f<cols (weights V).
        coeff (weights V) c f * (s_featureOutput V v f * s_featureOutput V v f)) +
     (\<Sum>d<rows (inputBias V). coeff (inputBias V) d c * v d) +
     coeff (priors V) c 0"
  by (simp add: s_logPost0_def sum_list_upt_sum)

lemma s_logPost1_sum:
  "s_logPost1 V v c =
     s_logPost0 V v c +
     (\<Sum>d<cols (predictors V). coeff (predictors V) c d * v d) +
     coeff (outputBias V) c 0"
  by (simp add: s_logPost1_def sum_list_upt_sum)

lemma DERIV_plus_const:
  fixes f :: "real \<Rightarrow> real"
  assumes "(f has_real_derivative D) (at t0)"
  shows "((\<lambda>t. K + f t) has_real_derivative D) (at t0)"
    and "((\<lambda>t. f t + K) has_real_derivative D) (at t0)"
    and "((\<lambda>t. K + f t + K') has_real_derivative D) (at t0)"
    and "((\<lambda>t. f t + K + K') has_real_derivative D) (at t0)"
    and "((\<lambda>t. K + K' + f t) has_real_derivative D) (at t0)"
  using assms by (auto intro!: derivative_eq_intros)

lemma s_featureOutput_cong:
  "features V' = features V \<Longrightarrow> s_featureOutput V' v f = s_featureOutput V v f"
  by (simp add: s_featureOutput_def)

text \<open>How the scores of the components vary with one coefficient of one group.\<close>

lemma DERIV_scores_priors:
  assumes wv: "wf_views V D C F" and j: "j < C" and c: "c < C"
  defines "U \<equiv> \<lambda>t. V\<lparr>priors := set_coeff (priors V) j t\<rparr>"
  shows "((\<lambda>t. s_logPost0 (U t) v c) has_real_derivative (if c = j then 1 else 0)) (at t0)"
    and "((\<lambda>t. s_logPost1 (U t) v c) has_real_derivative (if c = j then 1 else 0)) (at t0)"
proof -
  have sh: "has_shape (priors V) C 1" using wv by (simp add: wf_views_def)
  have p: "((\<lambda>t. coeff (set_coeff (priors V) j t) c 0) has_real_derivative
       (if c = j then 1 else 0)) (at t0)"
    using DERIV_coeff_set_coeff [OF sh c, of 0 j t0] j by simp
  have fo: "s_featureOutput (U t) v f = s_featureOutput V v f" for t f
    by (rule s_featureOutput_cong) (simp add: U_def)
  have e0: "(\<lambda>t. s_logPost0 (U t) v c) =
      (\<lambda>t. (\<Sum>f<cols (weights V).
               coeff (weights V) c f * (s_featureOutput V v f * s_featureOutput V v f)) +
            (\<Sum>d<rows (inputBias V). coeff (inputBias V) d c * v d) +
            coeff (set_coeff (priors V) j t) c 0)"
    by (simp add: s_logPost0_sum fo) (simp add: U_def)
  show d0: "((\<lambda>t. s_logPost0 (U t) v c) has_real_derivative (if c = j then 1 else 0)) (at t0)"
    unfolding e0 by (rule DERIV_plus_const(5) [OF p])
  have e1: "(\<lambda>t. s_logPost1 (U t) v c) =
      (\<lambda>t. s_logPost0 (U t) v c +
            (\<Sum>d<cols (predictors V). coeff (predictors V) c d * v d) +
            coeff (outputBias V) c 0)"
    by (simp add: s_logPost1_sum) (simp add: U_def)
  show "((\<lambda>t. s_logPost1 (U t) v c) has_real_derivative (if c = j then 1 else 0)) (at t0)"
    unfolding e1 by (rule DERIV_plus_const(4) [OF d0])
qed

lemma DERIV_scores_outputBias:
  assumes wv: "wf_views V D C F" and j: "j < C" and c: "c < C"
  defines "U \<equiv> \<lambda>t. V\<lparr>outputBias := set_coeff (outputBias V) j t\<rparr>"
  shows "((\<lambda>t. s_logPost0 (U t) v c) has_real_derivative 0) (at t0)"
    and "((\<lambda>t. s_logPost1 (U t) v c) has_real_derivative (if c = j then 1 else 0)) (at t0)"
proof -
  have sh: "has_shape (outputBias V) C 1" using wv by (simp add: wf_views_def)
  have p: "((\<lambda>t. coeff (set_coeff (outputBias V) j t) c 0) has_real_derivative
       (if c = j then 1 else 0)) (at t0)"
    using DERIV_coeff_set_coeff [OF sh c, of 0 j t0] j by simp
  have e0: "(\<lambda>t. s_logPost0 (U t) v c) = (\<lambda>t. s_logPost0 V v c)"
    by (simp add: s_logPost0_def s_featureOutput_def U_def)
  show "((\<lambda>t. s_logPost0 (U t) v c) has_real_derivative 0) (at t0)"
    unfolding e0 by simp
  have e1: "(\<lambda>t. s_logPost1 (U t) v c) =
      (\<lambda>t. s_logPost0 V v c +
            (\<Sum>d<cols (predictors V). coeff (predictors V) c d * v d) +
            coeff (set_coeff (outputBias V) j t) c 0)"
    using e0 by (simp add: s_logPost1_sum fun_eq_iff) (simp add: U_def)
  show "((\<lambda>t. s_logPost1 (U t) v c) has_real_derivative (if c = j then 1 else 0)) (at t0)"
    unfolding e1 by (rule DERIV_plus_const(5) [OF p])
qed

lemma DERIV_scores_weights:
  fixes v :: "nat \<Rightarrow> real"
  assumes wv: "wf_views V D C F" and j: "j < C * F" and c: "c < C"
  defines "U \<equiv> \<lambda>t. V\<lparr>weights := set_coeff (weights V) j t\<rparr>"
  defines "a \<equiv> if c = j mod C
                then s_featureOutput V v (j div C) * s_featureOutput V v (j div C) else 0"
  shows "((\<lambda>t. s_logPost0 (U t) v c) has_real_derivative a) (at t0)"
    and "((\<lambda>t. s_logPost1 (U t) v c) has_real_derivative a) (at t0)"
proof -
  have sh: "has_shape (weights V) C F" using wv by (simp add: wf_views_def)
  have dm: "cols (weights V) = F" using sh by (simp add: has_shape_def)
  have p: "((\<lambda>t. \<Sum>f<F. coeff (set_coeff (weights V) j t) c f *
                    (s_featureOutput V v f * s_featureOutput V v f)) has_real_derivative a)
           (at t0)"
    unfolding a_def by (rule DERIV_row_sum [OF sh j c])
  have fo: "s_featureOutput (U t) v f = s_featureOutput V v f" for t f
    by (rule s_featureOutput_cong) (simp add: U_def)
  have e0: "(\<lambda>t. s_logPost0 (U t) v c) =
      (\<lambda>t. (\<Sum>f<F. coeff (set_coeff (weights V) j t) c f *
                    (s_featureOutput V v f * s_featureOutput V v f)) +
            (\<Sum>d<rows (inputBias V). coeff (inputBias V) d c * v d) +
            coeff (priors V) c 0)"
    by (simp add: s_logPost0_sum fo) (simp add: U_def dm)
  show d0: "((\<lambda>t. s_logPost0 (U t) v c) has_real_derivative a) (at t0)"
    unfolding e0 by (rule DERIV_plus_const(4) [OF p])
  have e1: "(\<lambda>t. s_logPost1 (U t) v c) =
      (\<lambda>t. s_logPost0 (U t) v c +
            (\<Sum>d<cols (predictors V). coeff (predictors V) c d * v d) +
            coeff (outputBias V) c 0)"
    by (simp add: s_logPost1_sum) (simp add: U_def)
  show "((\<lambda>t. s_logPost1 (U t) v c) has_real_derivative a) (at t0)"
    unfolding e1 by (rule DERIV_plus_const(4) [OF d0])
qed

lemma DERIV_scores_predictors:
  assumes wv: "wf_views V D C F" and j: "j < C * D" and c: "c < C"
  defines "U \<equiv> \<lambda>t. V\<lparr>predictors := set_coeff (predictors V) j t\<rparr>"
  shows "((\<lambda>t. s_logPost0 (U t) v c) has_real_derivative 0) (at t0)"
    and "((\<lambda>t. s_logPost1 (U t) v c) has_real_derivative
            (if c = j mod C then v (j div C) else 0)) (at t0)"
proof -
  have sh: "has_shape (predictors V) C D" using wv by (simp add: wf_views_def)
  have dm: "cols (predictors V) = D" using sh by (simp add: has_shape_def)
  have p: "((\<lambda>t. \<Sum>d<D. coeff (set_coeff (predictors V) j t) c d * v d) has_real_derivative
           (if c = j mod C then v (j div C) else 0)) (at t0)"
    by (rule DERIV_row_sum [OF sh j c])
  have e0: "(\<lambda>t. s_logPost0 (U t) v c) = (\<lambda>t. s_logPost0 V v c)"
    by (simp add: s_logPost0_def s_featureOutput_def U_def)
  show "((\<lambda>t. s_logPost0 (U t) v c) has_real_derivative 0) (at t0)"
    unfolding e0 by simp
  have e1: "(\<lambda>t. s_logPost1 (U t) v c) =
      (\<lambda>t. s_logPost0 V v c +
            (\<Sum>d<D. coeff (set_coeff (predictors V) j t) c d * v d) +
            coeff (outputBias V) c 0)"
    using e0 by (simp add: s_logPost1_sum fun_eq_iff) (simp add: U_def dm)
  show "((\<lambda>t. s_logPost1 (U t) v c) has_real_derivative
            (if c = j mod C then v (j div C) else 0)) (at t0)"
    unfolding e1 by (rule DERIV_plus_const(3) [OF p])
qed

lemma DERIV_scores_inputBias:
  fixes v :: "nat \<Rightarrow> real"
  assumes wv: "wf_views V D C F" and j: "j < D * C" and c: "c < C"
  defines "U \<equiv> \<lambda>t. V\<lparr>inputBias := set_coeff (inputBias V) j t\<rparr>"
  defines "a \<equiv> if c = j div D then v (j mod D) else 0"
  shows "((\<lambda>t. s_logPost0 (U t) v c) has_real_derivative a) (at t0)"
    and "((\<lambda>t. s_logPost1 (U t) v c) has_real_derivative a) (at t0)"
proof -
  have sh: "has_shape (inputBias V) D C" using wv by (simp add: wf_views_def)
  have dm: "rows (inputBias V) = D" using sh by (simp add: has_shape_def)
  have p: "((\<lambda>t. \<Sum>d<D. coeff (set_coeff (inputBias V) j t) d c * v d) has_real_derivative a)
           (at t0)"
    unfolding a_def by (rule DERIV_col_sum [OF sh j c])
  have fo: "s_featureOutput (U t) v f = s_featureOutput V v f" for t f
    by (rule s_featureOutput_cong) (simp add: U_def)
  have e0: "(\<lambda>t. s_logPost0 (U t) v c) =
      (\<lambda>t. (\<Sum>f<cols (weights V).
               coeff (weights V) c f * (s_featureOutput V v f * s_featureOutput V v f)) +
            (\<Sum>d<D. coeff (set_coeff (inputBias V) j t) d c * v d) +
            coeff (priors V) c 0)"
    by (simp add: s_logPost0_sum fo) (simp add: U_def dm)
  show d0: "((\<lambda>t. s_logPost0 (U t) v c) has_real_derivative a) (at t0)"
    unfolding e0 by (rule DERIV_plus_const(3) [OF p])
  have e1: "(\<lambda>t. s_logPost1 (U t) v c) =
      (\<lambda>t. s_logPost0 (U t) v c +
            (\<Sum>d<cols (predictors V). coeff (predictors V) c d * v d) +
            coeff (outputBias V) c 0)"
    by (simp add: s_logPost1_sum) (simp add: U_def)
  show "((\<lambda>t. s_logPost1 (U t) v c) has_real_derivative a) (at t0)"
    unfolding e1 by (rule DERIV_plus_const(4) [OF d0])
qed

lemma DERIV_scores_features:
  fixes v :: "nat \<Rightarrow> real" and t0 :: real
  assumes wv: "wf_views V D C F" and j: "j < D * F" and c: "c < C"
  defines "U \<equiv> \<lambda>t. V\<lparr>features := set_coeff (features V) j t\<rparr>"
  defines "a \<equiv> coeff (weights V) c (j div D) *
                 (2 * s_featureOutput (U t0) v (j div D) * v (j mod D))"
  shows "((\<lambda>t. s_logPost0 (U t) v c) has_real_derivative a) (at t0)"
    and "((\<lambda>t. s_logPost1 (U t) v c) has_real_derivative a) (at t0)"
proof -
  have sh: "has_shape (features V) D F" using wv by (simp add: wf_views_def)
  have dm: "rows (features V) = D" "cols (weights V) = F"
    using wv by (simp_all add: wf_views_def has_shape_def)
  have f0: "j div D < F" by (rule div_less_cols [OF j])
  have fo: "((\<lambda>t. s_featureOutput (U t) v f) has_real_derivative
              (if f = j div D then v (j mod D) else 0)) (at t0)" if "f < F" for f
  proof -
    have e: "(\<lambda>t. s_featureOutput (U t) v f) =
        (\<lambda>t. \<Sum>d<D. coeff (set_coeff (features V) j t) d f * v d)"
      by (simp add: s_featureOutput_sum U_def dm)
    show ?thesis unfolding e by (rule DERIV_col_sum [OF sh j that])
  qed
  have sq: "((\<lambda>t. coeff (weights V) c f *
                   (s_featureOutput (U t) v f * s_featureOutput (U t) v f)) has_real_derivative
              (if f = j div D then a else 0)) (at t0)" if "f < F" for f
    using fo [OF that]
    by (auto intro!: derivative_eq_intros simp: a_def)
  have ws: "((\<lambda>t. \<Sum>f<F. coeff (weights V) c f *
                   (s_featureOutput (U t) v f * s_featureOutput (U t) v f)) has_real_derivative
              (\<Sum>f<F. if f = j div D then a else 0)) (at t0)"
    by (rule DERIV_sum) (simp add: sq)
  have "(\<Sum>f<F. if f = j div D then a else 0) = a"
    using f0 by (simp add: sum.delta)
  with ws have p: "((\<lambda>t. \<Sum>f<F. coeff (weights V) c f *
                   (s_featureOutput (U t) v f * s_featureOutput (U t) v f)) has_real_derivative a)
                   (at t0)"
    by simp
  have e0: "(\<lambda>t. s_logPost0 (U t) v c) =
      (\<lambda>t. (\<Sum>f<F. coeff (weights V) c f *
                    (s_featureOutput (U t) v f * s_featureOutput (U t) v f)) +
            (\<Sum>d<rows (inputBias V). coeff (inputBias V) d c * v d) +
            coeff (priors V) c 0)"
    by (simp add: s_logPost0_sum) (simp add: U_def dm)
  show d0: "((\<lambda>t. s_logPost0 (U t) v c) has_real_derivative a) (at t0)"
    unfolding e0 by (rule DERIV_plus_const(4) [OF p])
  have e1: "(\<lambda>t. s_logPost1 (U t) v c) =
      (\<lambda>t. s_logPost0 (U t) v c +
            (\<Sum>d<cols (predictors V). coeff (predictors V) c d * v d) +
            coeff (outputBias V) c 0)"
    by (simp add: s_logPost1_sum) (simp add: U_def)
  show "((\<lambda>t. s_logPost1 (U t) v c) has_real_derivative a) (at t0)"
    unfolding e1 by (rule DERIV_plus_const(4) [OF d0])
qed

lemma set_coeff_same: "set_coeff M j (data M ! j) = M"
  by (simp add: set_coeff_def)

lemma sum_pick:
  fixes P :: "nat \<Rightarrow> real"
  assumes "j < C"
  shows "(\<Sum>c<C. P c * (if c = j then a else 0)) = P j * a"
    and "(\<Sum>c<C. P c * (if c = j then a else 0) - Q c * (if c = j then b else 0))
           = P j * a - Q j * b"
proof -
  have "(\<Sum>c<C. P c * (if c = j then a else 0)) = (\<Sum>c<C. if c = j then P c * a else 0)"
    by (rule sum.cong) auto
  then show "(\<Sum>c<C. P c * (if c = j then a else 0)) = P j * a"
    using assms by (simp add: sum.delta)
  have "(\<Sum>c<C. P c * (if c = j then a else 0) - Q c * (if c = j then b else 0))
      = (\<Sum>c<C. if c = j then P c * a - Q c * b else 0)"
    by (rule sum.cong) auto
  then show "(\<Sum>c<C. P c * (if c = j then a else 0) - Q c * (if c = j then b else 0))
           = P j * a - Q j * b"
    using assms by (simp add: sum.delta)
qed

text \<open>
  The derivative of the log-likelihood of one column with respect to one coefficient of
  one group, at the current value of that coefficient.
\<close>

lemma DERIV_logLik_priors:
  assumes wv: "wf_views V D C F" and C: "1 \<le> C" and j: "j < C"
    and t0: "t0 = data (priors V) ! j"
  shows "((\<lambda>t. s_logLik (V\<lparr>priors := set_coeff (priors V) j t\<rparr>) v y)
            has_real_derivative s_postDiffTmp V v y j) (at t0)"
proof -
  let ?U = "\<lambda>t. V\<lparr>priors := set_coeff (priors V) j t\<rparr>"
  have r: "rows (weights (?U t)) = C" for t
    using wv by (simp add: wf_views_def has_shape_def)
  have U0: "?U t0 = V"
    by (simp add: t0 set_coeff_same)
  note d = DERIV_scores_priors [OF wv j, of _ v t0]
  from DERIV_s_logLik [of C ?U, OF C r d(1) d(2), of y]
  show ?thesis
    unfolding U0 sum_pick(2) [OF j]
    by (simp add: s_postDiffTmp_def)
qed

lemma DERIV_logLik_outputBias:
  assumes wv: "wf_views V D C F" and C: "1 \<le> C" and j: "j < C"
    and t0: "t0 = data (outputBias V) ! j"
  shows "((\<lambda>t. s_logLik (V\<lparr>outputBias := set_coeff (outputBias V) j t\<rparr>) v y)
            has_real_derivative s_post1Tmp V v y j) (at t0)"
proof -
  let ?U = "\<lambda>t. V\<lparr>outputBias := set_coeff (outputBias V) j t\<rparr>"
  have r: "rows (weights (?U t)) = C" for t
    using wv by (simp add: wf_views_def has_shape_def)
  have U0: "?U t0 = V"
    by (simp add: t0 set_coeff_same)
  note d = DERIV_scores_outputBias [OF wv j, of _ v t0]
  from DERIV_s_logLik [of C ?U, OF C r d(1) d(2), of y]
  show ?thesis
    unfolding U0
    by (simp add: sum_pick(1) [OF j])
qed

lemma DERIV_logLik_weights:
  assumes wv: "wf_views V D C F" and C: "1 \<le> C" and j: "j < C * F"
    and t0: "t0 = data (weights V) ! j"
  shows "((\<lambda>t. s_logLik (V\<lparr>weights := set_coeff (weights V) j t\<rparr>) v y)
            has_real_derivative
            s_postDiffTmp V v y (j mod C) *
              (s_featureOutput V v (j div C) * s_featureOutput V v (j div C))) (at t0)"
proof -
  let ?U = "\<lambda>t. V\<lparr>weights := set_coeff (weights V) j t\<rparr>"
  have r: "rows (weights (?U t)) = C" for t
    using wv by (simp add: wf_views_def has_shape_def)
  have U0: "?U t0 = V"
    by (simp add: t0 set_coeff_same)
  have jm: "j mod C < C" by (rule mod_less_rows [OF j])
  note d = DERIV_scores_weights [OF wv j, of _ v t0]
  from DERIV_s_logLik [of C ?U, OF C r d(1) d(2), of y]
  show ?thesis
    unfolding U0 sum_pick(2) [OF jm]
    by (simp add: s_postDiffTmp_def algebra_simps)
qed

lemma DERIV_logLik_predictors:
  assumes wv: "wf_views V D C F" and C: "1 \<le> C" and j: "j < C * D"
    and t0: "t0 = data (predictors V) ! j"
  shows "((\<lambda>t. s_logLik (V\<lparr>predictors := set_coeff (predictors V) j t\<rparr>) v y)
            has_real_derivative s_post1Tmp V v y (j mod C) * v (j div C)) (at t0)"
proof -
  let ?U = "\<lambda>t. V\<lparr>predictors := set_coeff (predictors V) j t\<rparr>"
  have r: "rows (weights (?U t)) = C" for t
    using wv by (simp add: wf_views_def has_shape_def)
  have U0: "?U t0 = V"
    by (simp add: t0 set_coeff_same)
  have jm: "j mod C < C" by (rule mod_less_rows [OF j])
  note d = DERIV_scores_predictors [OF wv j, of _ v t0]
  from DERIV_s_logLik [of C ?U, OF C r d(1) d(2), of y]
  show ?thesis
    unfolding U0
    by (simp add: sum_pick(1) [OF jm])
qed

lemma DERIV_logLik_inputBias:
  assumes wv: "wf_views V D C F" and C: "1 \<le> C" and j: "j < D * C"
    and t0: "t0 = data (inputBias V) ! j"
  shows "((\<lambda>t. s_logLik (V\<lparr>inputBias := set_coeff (inputBias V) j t\<rparr>) v y)
            has_real_derivative v (j mod D) * s_postDiffTmp V v y (j div D)) (at t0)"
proof -
  let ?U = "\<lambda>t. V\<lparr>inputBias := set_coeff (inputBias V) j t\<rparr>"
  have r: "rows (weights (?U t)) = C" for t
    using wv by (simp add: wf_views_def has_shape_def)
  have U0: "?U t0 = V"
    by (simp add: t0 set_coeff_same)
  have jd: "j div D < C" by (rule div_less_cols [OF j])
  note d = DERIV_scores_inputBias [OF wv j, of _ v t0]
  from DERIV_s_logLik [of C ?U, OF C r d(1) d(2), of y]
  show ?thesis
    unfolding U0 sum_pick(2) [OF jd]
    by (simp add: s_postDiffTmp_def algebra_simps)
qed

lemma DERIV_logLik_features:
  assumes wv: "wf_views V D C F" and C: "1 \<le> C" and j: "j < D * F"
    and t0: "t0 = data (features V) ! j"
  shows "((\<lambda>t. s_logLik (V\<lparr>features := set_coeff (features V) j t\<rparr>) v y)
            has_real_derivative
            v (j mod D) *
              (s_featureOutput V v (j div D) *
               ((\<Sum>c\<leftarrow>[0..<rows (weights V)].
                   coeff (weights V) c (j div D) * s_postDiffTmp V v y c) * 2))) (at t0)"
proof -
  let ?U = "\<lambda>t. V\<lparr>features := set_coeff (features V) j t\<rparr>"
  have r: "rows (weights (?U t)) = C" for t
    using wv by (simp add: wf_views_def has_shape_def)
  have rw: "rows (weights V) = C"
    using wv by (simp add: wf_views_def has_shape_def)
  have U0: "?U t0 = V"
    by (simp add: t0 set_coeff_same)
  note d = DERIV_scores_features [OF wv j, of _ v t0, unfolded U0]
  define K where "K = 2 * s_featureOutput V v (j div D) * v (j mod D)"
  have "(\<Sum>c<C. s_post1Tmp V v y c * (coeff (weights V) c (j div D) * K) -
               s_post0Tmp V v y c * (coeff (weights V) c (j div D) * K))
      = (\<Sum>c<C. coeff (weights V) c (j div D) * s_postDiffTmp V v y c) * K"
    unfolding sum_distrib_right
    by (rule sum.cong) (simp_all add: s_postDiffTmp_def algebra_simps)
  also have "\<dots> = v (j mod D) *
              (s_featureOutput V v (j div D) *
               ((\<Sum>c\<leftarrow>[0..<rows (weights V)].
                   coeff (weights V) c (j div D) * s_postDiffTmp V v y c) * 2))"
    by (simp add: K_def rw sum_list_upt_sum)
  finally have e: "(\<Sum>c<C. s_post1Tmp V v y c * (coeff (weights V) c (j div D) * K) -
               s_post0Tmp V v y c * (coeff (weights V) c (j div D) * K))
      = v (j mod D) *
              (s_featureOutput V v (j div D) *
               ((\<Sum>c\<leftarrow>[0..<rows (weights V)].
                   coeff (weights V) c (j div D) * s_postDiffTmp V v y c) * 2))" .
  from DERIV_s_logLik [of C ?U, OF C r d(1) d(2), of y]
  show ?thesis
    unfolding U0 K_def [symmetric] e .
qed

section \<open>The gradient as a derivative\<close>

lemma Map_m_update:
  "Map_m (x[i := t]) off r c =
     (if off \<le> i \<and> i < off + r * c then set_coeff (Map_m x off r c) (i - off) t
      else Map_m x off r c)"
proof (cases "off \<le> i")
  case False
  then show ?thesis by (simp add: Map_m_def drop_update_cancel)
next
  case True
  show ?thesis
  proof (cases "i < off + r * c")
    case lt: True
    with True show ?thesis
      by (simp add: Map_m_def set_coeff_def drop_update_swap take_update_swap)
  next
    case ge: False
    with True have "r * c \<le> i - off" by simp
    with True ge show ?thesis
      by (simp add: Map_m_def drop_update_swap take_update_cancel)
  qed
qed

text \<open>
  The views of the parameter buffer after one of its entries has changed: the group whose
  span holds the entry has that coefficient changed, all other groups are as before.
\<close>

lemma interpret_memory_update:
  "priors (interpret_memory m (x[i := t]) params) =
     (if trainPriors params \<and> i < mNumComponents m
      then set_coeff (priors (interpret_memory m x params)) i t
      else priors (interpret_memory m x params))"
  "weights (interpret_memory m (x[i := t]) params) =
     (if trainWeights params \<and> offWeights m params \<le> i \<and>
         i < offWeights m params + mNumComponents m * mNumFeatures m
      then set_coeff (weights (interpret_memory m x params)) (i - offWeights m params) t
      else weights (interpret_memory m x params))"
  "features (interpret_memory m (x[i := t]) params) =
     (if trainFeatures params \<and> offFeatures m params \<le> i \<and>
         i < offFeatures m params + mDimIn m * mNumFeatures m
      then set_coeff (features (interpret_memory m x params)) (i - offFeatures m params) t
      else features (interpret_memory m x params))"
  "predictors (interpret_memory m (x[i := t]) params) =
     (if trainPredictors params \<and> offPredictors m params \<le> i \<and>
         i < offPredictors m params + mNumComponents m * mDimIn m
      then set_coeff (predictors (interpret_memory m x params)) (i - offPredictors m params) t
      else predictors (interpret_memory m x params))"
  "inputBias (interpret_memory m (x[i := t]) params) =
     (if trainInputBias params \<and> offInputBias m params \<le> i \<and>
         i < offInputBias m params + mDimIn m * mNumComponents m
      then set_coeff (inputBias (interpret_memory m x params)) (i - offInputBias m params) t
      else inputBias (interpret_memory m x params))"
  "outputBias (interpret_memory m (x[i := t]) params) =
     (if trainOutputBias params \<and> offOutputBias m params \<le> i \<and>
         i < offOutputBias m params + mNumComponents m
      then set_coeff (outputBias (interpret_memory m x params)) (i - offOutputBias m params) t
      else outputBias (interpret_memory m x params))"
  by (simp_all add: interpret_memory_groups Map_m_update)

text \<open>The per-column log-likelihood reads the views through the six groups only.\<close>

lemma s_logLik_cong:
  assumes "priors A = priors B" and "weights A = weights B" and "features A = features B"
    and "predictors A = predictors B" and "inputBias A = inputBias B"
    and "outputBias A = outputBias B"
  shows "s_logLik A v y = s_logLik B v y"
proof -
  have fo: "s_featureOutput A v = s_featureOutput B v"
    by (rule ext) (simp add: s_featureOutput_def assms)
  have p0: "s_logPost0 A v = s_logPost0 B v"
    by (rule ext) (simp add: s_logPost0_def assms fo)
  have p1: "s_logPost1 A v = s_logPost1 B v"
    by (rule ext) (simp add: s_logPost1_def assms p0)
  show ?thesis
    by (simp add: s_logLik_def s_logNorm_def s_logProb0_def s_logProb1_def assms p0 p1)
qed

lemma nth_span:
  "length pre = off \<Longrightarrow> off \<le> i \<Longrightarrow> i < off + length d \<Longrightarrow>
   (pre @ d @ post) ! i = d ! (i - off)"
  by (auto simp: nth_append)

text \<open>The entries of the flat layout, group by group.\<close>

lemma flat_layout_nth:
  assumes wf: "wf_MCBM s"
  shows "trainPriors params \<Longrightarrow> i < mNumComponents s \<Longrightarrow>
           flat_layout s params ! i = data (mPriors s) ! i"
    and "trainWeights params \<Longrightarrow> offWeights s params \<le> i \<Longrightarrow>
         i < offWeights s params + mNumComponents s * mNumFeatures s \<Longrightarrow>
           flat_layout s params ! i = data (mWeights s) ! (i - offWeights s params)"
    and "trainFeatures params \<Longrightarrow> offFeatures s params \<le> i \<Longrightarrow>
         i < offFeatures s params + mDimIn s * mNumFeatures s \<Longrightarrow>
           flat_layout s params ! i = data (mFeatures s) ! (i - offFeatures s params)"
    and "trainPredictors params \<Longrightarrow> offPredictors s params \<le> i \<Longrightarrow>
         i < offPredictors s params + mNumComponents s * mDimIn s \<Longrightarrow>
           flat_layout s params ! i = data (mPredictors s) ! (i - offPredictors s params)"
    and "trainInputBias params \<Longrightarrow> offInputBias s params \<le> i \<Longrightarrow>
         i < offInputBias s params + mDimIn s * mNumComponents s \<Longrightarrow>
           flat_layout s params ! i = data (mInputBias s) ! (i - offInputBias s params)"
    and "trainOutputBias params \<Longrightarrow> offOutputBias s params \<le> i \<Longrightarrow>
         i < offOutputBias s params + mNumComponents s \<Longrightarrow>
           flat_layout s params ! i = data (mOutputBias s) ! (i - offOutputBias s params)"
proof -
  note sh = wf_MCBM_shapes [OF wf]
  define f1 where "f1 = flagged (trainPriors params) (mPriors s)"
  define f2 where "f2 = flagged (trainWeights params) (mWeights s)"
  define f3 where "f3 = flagged (trainFeatures params) (mFeatures s)"
  define f4 where "f4 = flagged (trainPredictors params) (mPredictors s)"
  define f5 where "f5 = flagged (trainInputBias params) (mInputBias s)"
  define f6 where "f6 = flagged (trainOutputBias params) (mOutputBias s)"
  note fs = f1_def f2_def f3_def f4_def f5_def f6_def
  have fl: "flat_layout s params = f1 @ f2 @ f3 @ f4 @ f5 @ f6"
    by (simp add: flat_layout_def fs)
  note ol = offsets_flat [OF wf, of params, folded fs]
  have ld: "length (data (mPriors s)) = mNumComponents s"
    "length (data (mWeights s)) = mNumComponents s * mNumFeatures s"
    "length (data (mFeatures s)) = mDimIn s * mNumFeatures s"
    "length (data (mPredictors s)) = mNumComponents s * mDimIn s"
    "length (data (mInputBias s)) = mDimIn s * mNumComponents s"
    "length (data (mOutputBias s)) = mNumComponents s"
    using sh by (simp_all add: has_shape_def)
  show "trainPriors params \<Longrightarrow> i < mNumComponents s \<Longrightarrow>
           flat_layout s params ! i = data (mPriors s) ! i"
    by (simp add: fl nth_append f1_def flagged_def ld)
  show "trainWeights params \<Longrightarrow> offWeights s params \<le> i \<Longrightarrow>
         i < offWeights s params + mNumComponents s * mNumFeatures s \<Longrightarrow>
           flat_layout s params ! i = data (mWeights s) ! (i - offWeights s params)"
    using nth_span [of "f1" "offWeights s params" i "data (mWeights s)" "f3 @ f4 @ f5 @ f6"]
    by (simp add: fl ol f2_def flagged_def ld)
  show "trainFeatures params \<Longrightarrow> offFeatures s params \<le> i \<Longrightarrow>
         i < offFeatures s params + mDimIn s * mNumFeatures s \<Longrightarrow>
           flat_layout s params ! i = data (mFeatures s) ! (i - offFeatures s params)"
    using nth_span [of "f1 @ f2" "offFeatures s params" i "data (mFeatures s)" "f4 @ f5 @ f6"]
    by (simp add: fl ol f3_def flagged_def ld)
  show "trainPredictors params \<Longrightarrow> offPredictors s params \<le> i \<Longrightarrow>
         i < offPredictors s params + mNumComponents s * mDimIn s \<Longrightarrow>
           flat_layout s params ! i = data (mPredictors s) ! (i - offPredictors s params)"
    using nth_span [of "f1 @ f2 @ f3" "offPredictors s params" i "data (mPredictors s)" "f5 @ f6"]
    by (simp add: fl ol f4_def flagged_def ld)
  show "trainInputBias params \<Longrightarrow> offInputBias s params \<le> i \<Longrightarrow>
         i < offInputBias s params + mDimIn s * mNumComponents s \<Longrightarrow>
           flat_layout s params ! i = data (mInputBias s) ! (i - offInputBias s params)"
    using nth_span [of "f1 @ f2 @ f3 @ f4" "offInputBias s params" i "data (mInputBias s)" "f6"]
    by (simp add: fl ol f5_def flagged_def ld)
  show "trainOutputBias params \<Longrightarrow> offOutputBias s params \<le> i \<Longrightarrow>
         i < offOutputBias s params + mNumComponents s \<Longrightarrow>
           flat_layout s params ! i = data (mOutputBias s) ! (i - offOutputBias s params)"
    using nth_span [of "f1 @ f2 @ f3 @ f4 @ f5" "offOutputBias s params" i "data (mOutputBias s)" "[]"]
    by (simp add: fl ol f6_def flagged_def ld)
qed

lemma data_mk_matrix_nth:
  "j < r * c \<Longrightarrow> data (mk_matrix r c f) ! j = f (j mod r) (j div r)"
  by (simp add: mk_matrix_def)

lemma Map_m_nth:
  "j < r * c \<Longrightarrow> off + r * c \<le> length x \<Longrightarrow> data (Map_m x off r c) ! j = x ! (off + j)"
  by (simp add: Map_m_def)

lemma offsets_mono:
  "offWeights m p \<le> offFeatures m p" "offFeatures m p \<le> offPredictors m p"
  "offPredictors m p \<le> offInputBias m p" "offInputBias m p \<le> offOutputBias m p"
  "offOutputBias m p \<le> offEnd m p"
  by (simp_all add: off_defs)

lemma region_below:
  "trainPriors p \<Longrightarrow> i < mNumComponents m \<Longrightarrow> i < offWeights m p"
  "trainWeights p \<Longrightarrow> i < offWeights m p + mNumComponents m * mNumFeatures m \<Longrightarrow>
     i < offFeatures m p"
  "trainFeatures p \<Longrightarrow> i < offFeatures m p + mDimIn m * mNumFeatures m \<Longrightarrow>
     i < offPredictors m p"
  "trainPredictors p \<Longrightarrow> i < offPredictors m p + mNumComponents m * mDimIn m \<Longrightarrow>
     i < offInputBias m p"
  "trainInputBias p \<Longrightarrow> i < offInputBias m p + mDimIn m * mNumComponents m \<Longrightarrow>
     i < offOutputBias m p"
  by (simp_all add: off_defs)

text \<open>
  The derivative of the sum of the log-likelihoods with respect to entry \<open>i\<close> of the
  parameter buffer is entry \<open>i\<close> of the flat layout of the six sums; one lemma for each
  group in whose span the entry can lie.
\<close>

lemma DERIV_logLik_sum_priors:
  assumes wf: "wf_MCBM m" and lx: "offEnd m params \<le> length x"
    and fl: "trainPriors params" and hi: "i < mNumComponents m"
  shows "((\<lambda>t. logLik_sum (interpret_memory m (x[i := t]) params) X Y N) has_real_derivative
            flat_layout (gradient_sums m (interpret_memory m x params) X Y N) params ! i)
           (at (x ! i))"
proof -
  define V where "V = interpret_memory m x params"
  define j where "j = i"
  let ?C = "mNumComponents m" and ?F = "mNumFeatures m" and ?D = "mDimIn m"
  have wv: "wf_views V ?D ?C ?F"
    unfolding V_def by (rule wf_interpret_memory [OF wf lx])
  have C: "1 \<le> ?C" using wf by (simp add: wf_MCBM_def)
  have j: "j < ?C" using hi by (simp add: j_def)
  have le: "0 + ?C * 1 \<le> length x"
    using offs_le_offEnd(1) [OF fl, of m] lx by simp
  have t0: "x ! i = data (priors V) ! j"
    using Map_m_nth [of j ?C 1 0 x] hi le fl
    by (simp add: V_def interpret_memory_groups j_def)
  have own: "(trainPriors params \<and> i < ?C)"
    using fl hi by simp
  have others: "\<not> (trainWeights params \<and> offWeights m params \<le> i \<and>
        i < offWeights m params + ?C * ?F)"
    "\<not> (trainFeatures params \<and> offFeatures m params \<le> i \<and>
        i < offFeatures m params + ?D * ?F)"
    "\<not> (trainPredictors params \<and> offPredictors m params \<le> i \<and>
        i < offPredictors m params + ?C * ?D)"
    "\<not> (trainInputBias params \<and> offInputBias m params \<le> i \<and>
        i < offInputBias m params + ?D * ?C)"
    "\<not> (trainOutputBias params \<and> offOutputBias m params \<le> i \<and>
        i < offOutputBias m params + ?C)"
    using region_below(1) [OF fl hi]
      offsets_mono [of m params]
    by auto
  have eq: "s_logLik (interpret_memory m (x[i := t]) params) v y =
      s_logLik (V\<lparr>priors := set_coeff (priors V) j t\<rparr>) v y" for t v y
    by (rule s_logLik_cong)
       (simp_all add: interpret_memory_update V_def [symmetric] j_def own others)
  have col: "((\<lambda>t. s_logLik (interpret_memory m (x[i := t]) params) v y) has_real_derivative
       s_postDiffTmp V v y j) (at (x ! i))" for v y
    unfolding eq by (rule DERIV_logLik_priors [OF wv C j t0])
  have "((\<lambda>t. \<Sum>n<N. s_logLik (interpret_memory m (x[i := t]) params) (col X n) (coeff Y 0 n))
          has_real_derivative
          (\<Sum>n<N. s_postDiffTmp V (col X n) (coeff Y 0 n) j))
        (at (x ! i))"
    by (rule DERIV_sum) (rule col)
  moreover have "flat_layout (gradient_sums m V X Y N) params ! i =
      (\<Sum>n<N. s_postDiffTmp V (col X n) (coeff Y 0 n) j)"
  proof -
    have "flat_layout (gradient_sums m V X Y N) params ! i =
        data (mPriors (gradient_sums m V X Y N)) ! j"
      using flat_layout_nth(1) [OF wf_gradient_sums [OF wf, of V X Y N], of params i] fl hi
      by (simp add: j_def)
    also have "\<dots> = (\<Sum>n<N. s_postDiffTmp V (col X n) (coeff Y 0 n) j)"
      using j by (simp add: gradient_sums_def data_mk_matrix_nth sum_list_upt_sum)
    finally show ?thesis .
  qed
  ultimately show ?thesis
    by (simp add: logLik_sum_def sum_list_upt_sum V_def)
qed

lemma DERIV_logLik_sum_weights:
  assumes wf: "wf_MCBM m" and lx: "offEnd m params \<le> length x"
    and fl: "trainWeights params" and lo: "offWeights m params \<le> i"
    and hi: "i < offWeights m params + mNumComponents m * mNumFeatures m"
  shows "((\<lambda>t. logLik_sum (interpret_memory m (x[i := t]) params) X Y N) has_real_derivative
            flat_layout (gradient_sums m (interpret_memory m x params) X Y N) params ! i)
           (at (x ! i))"
proof -
  define V where "V = interpret_memory m x params"
  define j where "j = i - offWeights m params"
  let ?C = "mNumComponents m" and ?F = "mNumFeatures m" and ?D = "mDimIn m"
  have wv: "wf_views V ?D ?C ?F"
    unfolding V_def by (rule wf_interpret_memory [OF wf lx])
  have C: "1 \<le> ?C" using wf by (simp add: wf_MCBM_def)
  have j: "j < ?C * ?F" using lo hi by (simp add: j_def)
  have le: "offWeights m params + ?C * ?F \<le> length x"
    using offs_le_offEnd(2) [OF fl, of m] lx by simp
  have t0: "x ! i = data (weights V) ! j"
    using Map_m_nth [OF j le] lo fl by (simp add: V_def interpret_memory_groups j_def)
  have own: "(trainWeights params \<and> offWeights m params \<le> i \<and>
        i < offWeights m params + ?C * ?F)"
    using fl lo hi by simp
  have others: "\<not> (trainPriors params \<and> i < ?C)"
    "\<not> (trainFeatures params \<and> offFeatures m params \<le> i \<and>
        i < offFeatures m params + ?D * ?F)"
    "\<not> (trainPredictors params \<and> offPredictors m params \<le> i \<and>
        i < offPredictors m params + ?C * ?D)"
    "\<not> (trainInputBias params \<and> offInputBias m params \<le> i \<and>
        i < offInputBias m params + ?D * ?C)"
    "\<not> (trainOutputBias params \<and> offOutputBias m params \<le> i \<and>
        i < offOutputBias m params + ?C)"
    using lo
      region_below(2) [OF fl hi]
      region_below(1) [of params i m]
      offsets_mono [of m params]
    by auto
  have eq: "s_logLik (interpret_memory m (x[i := t]) params) v y =
      s_logLik (V\<lparr>weights := set_coeff (weights V) j t\<rparr>) v y" for t v y
    by (rule s_logLik_cong)
       (simp_all add: interpret_memory_update V_def [symmetric] j_def own others)
  have col: "((\<lambda>t. s_logLik (interpret_memory m (x[i := t]) params) v y) has_real_derivative
       s_postDiffTmp V v y (j mod ?C) *
             (s_featureOutput V v (j div ?C) * s_featureOutput V v (j div ?C))) (at (x ! i))" for v y
    unfolding eq by (rule DERIV_logLik_weights [OF wv C j t0])
  have "((\<lambda>t. \<Sum>n<N. s_logLik (interpret_memory m (x[i := t]) params) (col X n) (coeff Y 0 n))
          has_real_derivative
          (\<Sum>n<N. s_postDiffTmp V (col X n) (coeff Y 0 n) (j mod ?C) *
             (s_featureOutput V (col X n) (j div ?C) * s_featureOutput V (col X n) (j div ?C))))
        (at (x ! i))"
    by (rule DERIV_sum) (rule col)
  moreover have "flat_layout (gradient_sums m V X Y N) params ! i =
      (\<Sum>n<N. s_postDiffTmp V (col X n) (coeff Y 0 n) (j mod ?C) *
             (s_featureOutput V (col X n) (j div ?C) * s_featureOutput V (col X n) (j div ?C)))"
  proof -
    have "flat_layout (gradient_sums m V X Y N) params ! i =
        data (mWeights (gradient_sums m V X Y N)) ! j"
      using flat_layout_nth(2) [OF wf_gradient_sums [OF wf, of V X Y N], of params i] fl lo hi
      by (simp add: j_def)
    also have "\<dots> = (\<Sum>n<N. s_postDiffTmp V (col X n) (coeff Y 0 n) (j mod ?C) *
             (s_featureOutput V (col X n) (j div ?C) * s_featureOutput V (col X n) (j div ?C)))"
      using j by (simp add: gradient_sums_def data_mk_matrix_nth sum_list_upt_sum)
    finally show ?thesis .
  qed
  ultimately show ?thesis
    by (simp add: logLik_sum_def sum_list_upt_sum V_def)
qed

lemma DERIV_logLik_sum_features:
  assumes wf: "wf_MCBM m" and lx: "offEnd m params \<le> length x"
    and fl: "trainFeatures params" and lo: "offFeatures m params \<le> i"
    and hi: "i < offFeatures m params + mDimIn m * mNumFeatures m"
  shows "((\<lambda>t. logLik_sum (interpret_memory m (x[i := t]) params) X Y N) has_real_derivative
            flat_layout (gradient_sums m (interpret_memory m x params) X Y N) params ! i)
           (at (x ! i))"
proof -
  define V where "V = interpret_memory m x params"
  define j where "j = i - offFeatures m params"
  let ?C = "mNumComponents m" and ?F = "mNumFeatures m" and ?D = "mDimIn m"
  have wv: "wf_views V ?D ?C ?F"
    unfolding V_def by (rule wf_interpret_memory [OF wf lx])
  have C: "1 \<le> ?C" using wf by (simp add: wf_MCBM_def)
  have j: "j < ?D * ?F" using lo hi by (simp add: j_def)
  have le: "offFeatures m params + ?D * ?F \<le> length x"
    using offs_le_offEnd(3) [OF fl, of m] lx by simp
  have t0: "x ! i = data (features V) ! j"
    using Map_m_nth [OF j le] lo fl by (simp add: V_def interpret_memory_groups j_def)
  have own: "(trainFeatures params \<and> offFeatures m params \<le> i \<and>
        i < offFeatures m params + ?D * ?F)"
    using fl lo hi by simp
  have others: "\<not> (trainPriors params \<and> i < ?C)"
    "\<not> (trainWeights params \<and> offWeights m params \<le> i \<and>
        i < offWeights m params + ?C * ?F)"
    "\<not> (trainPredictors params \<and> offPredictors m params \<le> i \<and>
        i < offPredictors m params + ?C * ?D)"
    "\<not> (trainInputBias params \<and> offInputBias m params \<le> i \<and>
        i < offInputBias m params + ?D * ?C)"
    "\<not> (trainOutputBias params \<and> offOutputBias m params \<le> i \<and>
        i < offOutputBias m params + ?C)"
    using lo
      region_below(3) [OF fl hi]
      region_below(1) [of params i m]
      region_below(2) [of params i m]
      offsets_mono [of m params]
    by auto
  have eq: "s_logLik (interpret_memory m (x[i := t]) params) v y =
      s_logLik (V\<lparr>features := set_coeff (features V) j t\<rparr>) v y" for t v y
    by (rule s_logLik_cong)
       (simp_all add: interpret_memory_update V_def [symmetric] j_def own others)
  have col: "((\<lambda>t. s_logLik (interpret_memory m (x[i := t]) params) v y) has_real_derivative
       v (j mod ?D) *
             (s_featureOutput V v (j div ?D) *
              ((\<Sum>c\<leftarrow>[0..<rows (weights V)].
                  coeff (weights V) c (j div ?D) * s_postDiffTmp V v y c) * 2))) (at (x ! i))" for v y
    unfolding eq by (rule DERIV_logLik_features [OF wv C j t0])
  have "((\<lambda>t. \<Sum>n<N. s_logLik (interpret_memory m (x[i := t]) params) (col X n) (coeff Y 0 n))
          has_real_derivative
          (\<Sum>n<N. col X n (j mod ?D) *
             (s_featureOutput V (col X n) (j div ?D) *
              ((\<Sum>c\<leftarrow>[0..<rows (weights V)].
                  coeff (weights V) c (j div ?D) * s_postDiffTmp V (col X n) (coeff Y 0 n) c) * 2))))
        (at (x ! i))"
    by (rule DERIV_sum) (rule col)
  moreover have "flat_layout (gradient_sums m V X Y N) params ! i =
      (\<Sum>n<N. col X n (j mod ?D) *
             (s_featureOutput V (col X n) (j div ?D) *
              ((\<Sum>c\<leftarrow>[0..<rows (weights V)].
                  coeff (weights V) c (j div ?D) * s_postDiffTmp V (col X n) (coeff Y 0 n) c) * 2)))"
  proof -
    have "flat_layout (gradient_sums m V X Y N) params ! i =
        data (mFeatures (gradient_sums m V X Y N)) ! j"
      using flat_layout_nth(3) [OF wf_gradient_sums [OF wf, of V X Y N], of params i] fl lo hi
      by (simp add: j_def)
    also have "\<dots> = (\<Sum>n<N. col X n (j mod ?D) *
             (s_featureOutput V (col X n) (j div ?D) *
              ((\<Sum>c\<leftarrow>[0..<rows (weights V)].
                  coeff (weights V) c (j div ?D) * s_postDiffTmp V (col X n) (coeff Y 0 n) c) * 2)))"
      using j by (simp add: gradient_sums_def data_mk_matrix_nth sum_list_upt_sum)
    finally show ?thesis .
  qed
  ultimately show ?thesis
    by (simp add: logLik_sum_def sum_list_upt_sum V_def)
qed

lemma DERIV_logLik_sum_predictors:
  assumes wf: "wf_MCBM m" and lx: "offEnd m params \<le> length x"
    and fl: "trainPredictors params" and lo: "offPredictors m params \<le> i"
    and hi: "i < offPredictors m params + mNumComponents m * mDimIn m"
  shows "((\<lambda>t. logLik_sum (interpret_memory m (x[i := t]) params) X Y N) has_real_derivative
            flat_layout (gradient_sums m (interpret_memory m x params) X Y N) params ! i)
           (at (x ! i))"
proof -
  define V where "V = interpret_memory m x params"
  define j where "j = i - offPredictors m params"
  let ?C = "mNumComponents m" and ?F = "mNumFeatures m" and ?D = "mDimIn m"
  have wv: "wf_views V ?D ?C ?F"
    unfolding V_def by (rule wf_interpret_memory [OF wf lx])
  have C: "1 \<le> ?C" using wf by (simp add: wf_MCBM_def)
  have j: "j < ?C * ?D" using lo hi by (simp add: j_def)
  have le: "offPredictors m params + ?C * ?D \<le> length x"
    using offs_le_offEnd(4) [OF fl, of m] lx by simp
  have t0: "x ! i = data (predictors V) ! j"
    using Map_m_nth [OF j le] lo fl by (simp add: V_def interpret_memory_groups j_def)
  have own: "(trainPredictors params \<and> offPredictors m params \<le> i \<and>
        i < offPredictors m params + ?C * ?D)"
    using fl lo hi by simp
  have others: "\<not> (trainPriors params \<and> i < ?C)"
    "\<not> (trainWeights params \<and> offWeights m params \<le> i \<and>
        i < offWeights m params + ?C * ?F)"
    "\<not> (trainFeatures params \<and> offFeatures m params \<le> i \<and>
        i < offFeatures m params + ?D * ?F)"
    "\<not> (trainInputBias params \<and> offInputBias m params \<le> i \<and>
        i < offInputBias m params + ?D * ?C)"
    "\<not> (trainOutputBias params \<and> offOutputBias m params \<le> i \<and>
        i < offOutputBias m params + ?C)"
    using lo
      region_below(4) [OF fl hi]
      region_below(1) [of params i m]
      region_below(2) [of params i m]
      region_below(3) [of params i m]
      offsets_mono [of m params]
    by auto
  have eq: "s_logLik (interpret_memory m (x[i := t]) params) v y =
      s_logLik (V\<lparr>predictors := set_coeff (predictors V) j t\<rparr>) v y" for t v y
    by (rule s_logLik_cong)
       (simp_all add: interpret_memory_update V_def [symmetric] j_def own others)
  have col: "((\<lambda>t. s_logLik (interpret_memory m (x[i := t]) params) v y) has_real_derivative
       s_post1Tmp V v y (j mod ?C) * v (j div ?C)) (at (x ! i))" for v y
    unfolding eq by (rule DERIV_logLik_predictors [OF wv C j t0])
  have "((\<lambda>t. \<Sum>n<N. s_logLik (interpret_memory m (x[i := t]) params) (col X n) (coeff Y 0 n))
          has_real_derivative
          (\<Sum>n<N. s_post1Tmp V (col X n) (coeff Y 0 n) (j mod ?C) * col X n (j div ?C)))
        (at (x ! i))"
    by (rule DERIV_sum) (rule col)
  moreover have "flat_layout (gradient_sums m V X Y N) params ! i =
      (\<Sum>n<N. s_post1Tmp V (col X n) (coeff Y 0 n) (j mod ?C) * col X n (j div ?C))"
  proof -
    have "flat_layout (gradient_sums m V X Y N) params ! i =
        data (mPredictors (gradient_sums m V X Y N)) ! j"
      using flat_layout_nth(4) [OF wf_gradient_sums [OF wf, of V X Y N], of params i] fl lo hi
      by (simp add: j_def)
    also have "\<dots> = (\<Sum>n<N. s_post1Tmp V (col X n) (coeff Y 0 n) (j mod ?C) * col X n (j div ?C))"
      using j by (simp add: gradient_sums_def data_mk_matrix_nth sum_list_upt_sum)
    finally show ?thesis .
  qed
  ultimately show ?thesis
    by (simp add: logLik_sum_def sum_list_upt_sum V_def)
qed

lemma DERIV_logLik_sum_inputBias:
  assumes wf: "wf_MCBM m" and lx: "offEnd m params \<le> length x"
    and fl: "trainInputBias params" and lo: "offInputBias m params \<le> i"
    and hi: "i < offInputBias m params + mDimIn m * mNumComponents m"
  shows "((\<lambda>t. logLik_sum (interpret_memory m (x[i := t]) params) X Y N) has_real_derivative
            flat_layout (gradient_sums m (interpret_memory m x params) X Y N) params ! i)
           (at (x ! i))"
proof -
  define V where "V = interpret_memory m x params"
  define j where "j = i - offInputBias m params"
  let ?C = "mNumComponents m" and ?F = "mNumFeatures m" and ?D = "mDimIn m"
  have wv: "wf_views V ?D ?C ?F"
    unfolding V_def by (rule wf_interpret_memory [OF wf lx])
  have C: "1 \<le> ?C" using wf by (simp add: wf_MCBM_def)
  have j: "j < ?D * ?C" using lo hi by (simp add: j_def)
  have le: "offInputBias m params + ?D * ?C \<le> length x"
    using offs_le_offEnd(5) [OF fl, of m] lx by simp
  have t0: "x ! i = data (inputBias V) ! j"
    using Map_m_nth [OF j le] lo fl by (simp add: V_def interpret_memory_groups j_def)
  have own: "(trainInputBias params \<and> offInputBias m params \<le> i \<and>
        i < offInputBias m params + ?D * ?C)"
    using fl lo hi by simp
  have others: "\<not> (trainPriors params \<and> i < ?C)"
    "\<not> (trainWeights params \<and> offWeights m params \<le> i \<and>
        i < offWeights m params + ?C * ?F)"
    "\<not> (trainFeatures params \<and> offFeatures m params \<le> i \<and>
        i < offFeatures m params + ?D * ?F)"
    "\<not> (trainPredictors params \<and> offPredictors m params \<le> i \<and>
        i < offPredictors m params + ?C * ?D)"
    "\<not> (trainOutputBias params \<and> offOutputBias m params \<le> i \<and>
        i < offOutputBias m params + ?C)"
    using lo
      region_below(5) [OF fl hi]
      region_below(1) [of params i m]
      region_below(2) [of params i m]
      region_below(3) [of params i m]
      region_below(4) [of params i m]
      offsets_mono [of m params]
    by auto
  have eq: "s_logLik (interpret_memory m (x[i := t]) params) v y =
      s_logLik (V\<lparr>inputBias := set_coeff (inputBias V) j t\<rparr>) v y" for t v y
    by (rule s_logLik_cong)
       (simp_all add: interpret_memory_update V_def [symmetric] j_def own others)
  have col: "((\<lambda>t. s_logLik (interpret_memory m (x[i := t]) params) v y) has_real_derivative
       v (j mod ?D) * s_postDiffTmp V v y (j div ?D)) (at (x ! i))" for v y
    unfolding eq by (rule DERIV_logLik_inputBias [OF wv C j t0])
  have "((\<lambda>t. \<Sum>n<N. s_logLik (interpret_memory m (x[i := t]) params) (col X n) (coeff Y 0 n))
          has_real_derivative
          (\<Sum>n<N. col X n (j mod ?D) * s_postDiffTmp V (col X n) (coeff Y 0 n) (j div ?D)))
        (at (x ! i))"
    by (rule DERIV_sum) (rule col)
  moreover have "flat_layout (gradient_sums m V X Y N) params ! i =
      (\<Sum>n<N. col X n (j mod ?D) * s_postDiffTmp V (col X n) (coeff Y 0 n) (j div ?D))"
  proof -
    have "flat_layout (gradient_sums m V X Y N) params ! i =
        data (mInputBias (gradient_sums m V X Y N)) ! j"
      using flat_layout_nth(5) [OF wf_gradient_sums [OF wf, of V X Y N], of params i] fl lo hi
      by (simp add: j_def)
    also have "\<dots> = (\<Sum>n<N. col X n (j mod ?D) * s_postDiffTmp V (col X n) (coeff Y 0 n) (j div ?D))"
      using j by (simp add: gradient_sums_def data_mk_matrix_nth sum_list_upt_sum)
    finally show ?thesis .
  qed
  ultimately show ?thesis
    by (simp add: logLik_sum_def sum_list_upt_sum V_def)
qed

lemma DERIV_logLik_sum_outputBias:
  assumes wf: "wf_MCBM m" and lx: "offEnd m params \<le> length x"
    and fl: "trainOutputBias params" and lo: "offOutputBias m params \<le> i"
    and hi: "i < offOutputBias m params + mNumComponents m"
  shows "((\<lambda>t. logLik_sum (interpret_memory m (x[i := t]) params) X Y N) has_real_derivative
            flat_layout (gradient_sums m (interpret_memory m x params) X Y N) params ! i)
           (at (x ! i))"
proof -
  define V where "V = interpret_memory m x params"
  define j where "j = i - offOutputBias m params"
  let ?C = "mNumComponents m" and ?F = "mNumFeatures m" and ?D = "mDimIn m"
  have wv: "wf_views V ?D ?C ?F"
    unfolding V_def by (rule wf_interpret_memory [OF wf lx])
  have C: "1 \<le> ?C" using wf by (simp add: wf_MCBM_def)
  have j: "j < ?C" using lo hi by (simp add: j_def)
  have le: "offOutputBias m params + ?C * 1 \<le> length x"
    using offs_le_offEnd(6) [OF fl, of m] lx by simp
  have t0: "x ! i = data (outputBias V) ! j"
    using Map_m_nth [of j ?C 1 "offOutputBias m params" x] lo hi le fl
    by (simp add: V_def interpret_memory_groups j_def)
  have own: "(trainOutputBias params \<and> offOutputBias m params \<le> i \<and>
        i < offOutputBias m params + ?C)"
    using fl lo hi by simp
  have others: "\<not> (trainPriors params \<and> i < ?C)"
    "\<not> (trainWeights params \<and> offWeights m params \<le> i \<and>
        i < offWeights m params + ?C * ?F)"
    "\<not> (trainFeatures params \<and> offFeatures m params \<le> i \<and>
        i < offFeatures m params + ?D * ?F)"
    "\<not> (trainPredictors params \<and> offPredictors m params \<le> i \<and>
        i < offPredictors m params + ?C * ?D)"
    "\<not> (trainInputBias params \<and> offInputBias m params \<le> i \<and>
        i < offInputBias m params + ?D * ?C)"
    using lo
      region_below(1) [of params i m]
      region_below(2) [of params i m]
      region_below(3) [of params i m]
      region_below(4) [of params i m]
      region_below(5) [of params i m]
      offsets_mono [of m params]
    by auto
  have eq: "s_logLik (interpret_memory m (x[i := t]) params) v y =
      s_logLik (V\<lparr>outputBias := set_coeff (outputBias V) j t\<rparr>) v y" for t v y
    by (rule s_logLik_cong)
       (simp_all add: interpret_memory_update V_def [symmetric] j_def own others)
  have col: "((\<lambda>t. s_logLik (interpret_memory m (x[i := t]) params) v y) has_real_derivative
       s_post1Tmp V v y j) (at (x ! i))" for v y
    unfolding eq by (rule DERIV_logLik_outputBias [OF wv C j t0])
  have "((\<lambda>t. \<Sum>n<N. s_logLik (interpret_memory m (x[i := t]) params) (col X n) (coeff Y 0 n))
          has_real_derivative
          (\<Sum>n<N. s_post1Tmp V (col X n) (coeff Y 0 n) j))
        (at (x ! i))"
    by (rule DERIV_sum) (rule col)
  moreover have "flat_layout (gradient_sums m V X Y N) params ! i =
      (\<Sum>n<N. s_post1Tmp V (col X n) (coeff Y 0 n) j)"
  proof -
    have "flat_layout (gradient_sums m V X Y N) params ! i =
        data (mOutputBias (gradient_sums m V X Y N)) ! j"
      using flat_layout_nth(6) [OF wf_gradient_sums [OF wf, of V X Y N], of params i] fl lo hi
      by (simp add: j_def)
    also have "\<dots> = (\<Sum>n<N. s_post1Tmp V (col X n) (coeff Y 0 n) j)"
      using j by (simp add: gradient_sums_def data_mk_matrix_nth sum_list_upt_sum)
    finally show ?thesis .
  qed
  ultimately show ?thesis
    by (simp add: logLik_sum_def sum_list_upt_sum V_def)
qed

lemma flag_size_span:
  "off \<le> i \<Longrightarrow> i < off + flag_size b n \<Longrightarrow> b \<and> i < off + n"
  by (cases b) simp_all

lemma index_region:
  assumes "i < offEnd m params"
  shows "(trainPriors params \<and> i < mNumComponents m) \<or>
         (trainWeights params \<and> offWeights m params \<le> i \<and>
            i < offWeights m params + mNumComponents m * mNumFeatures m) \<or>
         (trainFeatures params \<and> offFeatures m params \<le> i \<and>
            i < offFeatures m params + mDimIn m * mNumFeatures m) \<or>
         (trainPredictors params \<and> offPredictors m params \<le> i \<and>
            i < offPredictors m params + mNumComponents m * mDimIn m) \<or>
         (trainInputBias params \<and> offInputBias m params \<le> i \<and>
            i < offInputBias m params + mDimIn m * mNumComponents m) \<or>
         (trainOutputBias params \<and> offOutputBias m params \<le> i \<and>
            i < offOutputBias m params + mNumComponents m)"
proof -
  consider "i < offWeights m params"
    | "offWeights m params \<le> i" "i < offFeatures m params"
    | "offFeatures m params \<le> i" "i < offPredictors m params"
    | "offPredictors m params \<le> i" "i < offInputBias m params"
    | "offInputBias m params \<le> i" "i < offOutputBias m params"
    | "offOutputBias m params \<le> i" "i < offEnd m params"
    using assms by linarith
  then show ?thesis
  proof cases
    case 1
    then show ?thesis
      using flag_size_span [of 0 i "trainPriors params" "mNumComponents m"]
      by (simp add: offWeights_def)
  next
    case 2
    then show ?thesis
      using flag_size_span [of "offWeights m params" i "trainWeights params" "mNumComponents m * mNumFeatures m"]
      by (auto simp add: offFeatures_def)
  next
    case 3
    then show ?thesis
      using flag_size_span [of "offFeatures m params" i "trainFeatures params" "mDimIn m * mNumFeatures m"]
      by (auto simp add: offPredictors_def)
  next
    case 4
    then show ?thesis
      using flag_size_span [of "offPredictors m params" i "trainPredictors params" "mNumComponents m * mDimIn m"]
      by (auto simp add: offInputBias_def)
  next
    case 5
    then show ?thesis
      using flag_size_span [of "offInputBias m params" i "trainInputBias params" "mDimIn m * mNumComponents m"]
      by (auto simp add: offOutputBias_def)
  next
    case 6
    then show ?thesis
      using flag_size_span [of "offOutputBias m params" i "trainOutputBias params" "mNumComponents m"]
      by (auto simp add: offEnd_def)
  qed
qed

lemma DERIV_logLik_sum:
  assumes wf: "wf_MCBM m" and lx: "offEnd m params \<le> length x" and i: "i < offEnd m params"
  shows "((\<lambda>t. logLik_sum (interpret_memory m (x[i := t]) params) X Y N) has_real_derivative
            flat_layout (gradient_sums m (interpret_memory m x params) X Y N) params ! i)
           (at (x ! i))"
  using index_region [OF i]
    DERIV_logLik_sum_priors [OF wf lx, of i X Y N]
    DERIV_logLik_sum_weights [OF wf lx, of i X Y N]
    DERIV_logLik_sum_features [OF wf lx, of i X Y N]
    DERIV_logLik_sum_predictors [OF wf lx, of i X Y N]
    DERIV_logLik_sum_inputBias [OF wf lx, of i X Y N]
    DERIV_logLik_sum_outputBias [OF wf lx, of i X Y N]
  by blast

text \<open>
  The derivative of the value \<^verbatim>\<open>computeGradient\<close> returns with respect to entry \<open>i\<close> of the
  parameter buffer.
\<close>

lemma DERIV_objective:
  assumes wf: "wf_MCBM m" and lx: "numParameters m params \<le> length x"
    and rx: "rows X = mDimIn m" and ry: "rows Y = 1"
    and bs: "1 \<le> batchSize params" and N: "1 \<le> cols X"
    and i: "i < numParameters m params"
  shows "((\<lambda>t. objective m X Y params (x[i := t])) has_real_derivative
            flat_layout (gradient_sums m (interpret_memory m x params) X Y (cols X)) params ! i
              / normConst X) (at (x ! i))"
proof -
  note np = numParameters_eq [OF wf, of params]
  have o: "objective m X Y params (x[i := t]) =
      logLik_sum (interpret_memory m (x[i := t]) params) X Y (cols X) / normConst X" for t
    by (rule objective_closed(2) [OF wf _ rx ry bs N]) (use lx in simp)
  have "((\<lambda>t. logLik_sum (interpret_memory m (x[i := t]) params) X Y (cols X) / normConst X)
         has_real_derivative
         flat_layout (gradient_sums m (interpret_memory m x params) X Y (cols X)) params ! i
           / normConst X) (at (x ! i))"
    by (rule DERIV_cdivide) (rule DERIV_logLik_sum [OF wf], use lx i np in simp_all)
  then show ?thesis
    by (simp add: o)
qed

section \<open>The gradient written by computeGradient\<close>

text \<open>
  C1, as amended.  For a batch of \<open>N \<ge> 1\<close> columns with as many outputs, every set of flags,
  a parameter buffer and a gradient buffer, \<^verbatim>\<open>computeGradient\<close> returns the sum of the
  conditional log-likelihoods of the columns divided by \<open>N / ln 2\<close>, and writes into the
  gradient buffer the six sums of the flagged groups, in the order priors, weights,
  features, predictors, input bias, output bias, contiguously and with the unflagged groups
  omitted, each divided by \<open>N / ln 2\<close>.  Entry \<open>i\<close> of what is written is the derivative of
  the returned value with respect to entry \<open>i\<close> of the parameter buffer: the gradient is
  that of the returned value itself, not of its negative.
\<close>

theorem computeGradient_gradient:
  assumes "wf_MCBM m"
    and "has_shape X (mDimIn m) N" and "has_shape Y 1 N" and "1 \<le> N"
    and "1 \<le> batchSize params"
    and "numParameters m params \<le> length x"
    and "numParameters m params \<le> length g0"
  shows "\<exists>G. computeGradient m X Y x (Some g0) params =
               Some (Fin (objective m X Y params x),
                     Some (map Fin (G @ drop (numParameters m params) g0))) \<and>
             objective m X Y params x =
               (\<Sum>n\<leftarrow>[0..<N]. s_logLik (interpret_memory m x params) (col X n) (coeff Y 0 n))
                 / (real N / ln 2) \<and>
             G = map (\<lambda>v. v / (real N / ln 2))
                   (flat_layout (gradient_sums m (interpret_memory m x params) X Y N) params) \<and>
             length G = numParameters m params \<and>
             (\<forall>i<numParameters m params.
                ((\<lambda>t. objective m X Y params (x[i := t])) has_real_derivative G ! i)
                  (at (x ! i)))"
proof -
  define F where "F = flat_layout (gradient_sums m (interpret_memory m x params) X Y N) params"
  define G where "G = map (\<lambda>v. v / (real N / ln 2)) F"
  have d: "rows X = mDimIn m" "rows Y = 1" "cols X = N"
    using assms(2,3) by (simp_all add: has_shape_def)
  have N: "1 \<le> cols X" using assms(4) d by simp
  have nc: "normConst X = real N / ln 2"
    by (simp add: normConst_def d)
  note np = numParameters_eq [OF assms(1), of params]
  have lF: "length F = numParameters m params"
    unfolding F_def
    using length_flat_layout [OF wf_gradient_sums [OF assms(1)],
        of "interpret_memory m x params" X Y N params]
    by (simp add: np)
  have lG: "length G = numParameters m params"
    by (simp add: G_def lF)
  have val: "objective m X Y params x =
      (\<Sum>n\<leftarrow>[0..<N]. s_logLik (interpret_memory m x params) (col X n) (coeff Y 0 n))
        / (real N / ln 2)"
    using objective_closed(2) [OF assms(1,6) d(1,2) assms(5) N]
    by (simp add: nc d logLik_sum_def)
  have cg: "computeGradient m X Y x (Some g0) params =
      Some (Fin (objective m X Y params x),
            Some (map Fin (G @ drop (numParameters m params) g0)))"
    using computeGradient_closed [OF assms(1,6) d(1,2) assms(5) N, of "Some g0"] assms(7)
      objective_closed(2) [OF assms(1,6) d(1,2) assms(5) N]
    by (simp add: G_def F_def nc d)
  have der: "((\<lambda>t. objective m X Y params (x[i := t])) has_real_derivative G ! i) (at (x ! i))"
    if "i < numParameters m params" for i
    using DERIV_objective [OF assms(1,6) d(1,2) assms(5) N that] that
    by (simp add: G_def F_def [symmetric] lF nc d)
  show ?thesis
    using cg val lG der unfolding G_def F_def by blast
qed

lemma dims_example:
  "(1::nat) \<le> 3" "1 \<le> batchSize example_params"
  by (simp_all add: example_params_def Parameters_default_def)

theorem computeGradient_gradient_witness:
  "wf_MCBM example_model \<and>
   has_shape example_input (mDimIn example_model) 3 \<and> has_shape example_output 1 3 \<and>
   (1::nat) \<le> 3 \<and> 1 \<le> batchSize example_params \<and>
   numParameters example_model example_params \<le> length example_x \<and>
   (\<exists>G. computeGradient example_model example_input example_output example_x
           (Some example_x) example_params =
           Some (Fin (objective example_model example_input example_output example_params
                        example_x),
                 Some (map Fin (G @ drop (numParameters example_model example_params)
                                      example_x))) \<and>
        objective example_model example_input example_output example_params example_x =
          (\<Sum>n\<leftarrow>[0..<3].
             s_logLik (interpret_memory example_model example_x example_params)
               (col example_input n) (coeff example_output 0 n)) / (real 3 / ln 2) \<and>
        G = map (\<lambda>v. v / (real 3 / ln 2))
              (flat_layout
                 (gradient_sums example_model
                    (interpret_memory example_model example_x example_params)
                    example_input example_output 3) example_params) \<and>
        length G = numParameters example_model example_params \<and>
        (\<forall>i<numParameters example_model example_params.
           ((\<lambda>t. objective example_model example_input example_output example_params
                   (example_x[i := t])) has_real_derivative G ! i) (at (example_x ! i))))"
  using computeGradient_gradient [OF wf_example_model example_shapes dims_example
      example_lengths(1) example_lengths(1)]
    wf_example_model example_shapes dims_example example_lengths(1)
  by (intro conjI)

lemma wf_tiny_model: "wf_MCBM tiny_model"
  by (simp add: wf_MCBM_def has_shape_def tiny_model_def)

lemma tiny_facts:
  "numParameters tiny_model tiny_params = 1"
  "rows tiny_input = mDimIn tiny_model" "rows tiny_output = 1" "cols tiny_input = 1"
  "1 \<le> batchSize tiny_params"
  "normConst tiny_input = 1 / ln 2"
  "mNumComponents tiny_model = 1"
  by (simp_all add: numParameters_def tiny_model_def tiny_params_def Parameters_default_def
      size_m_def tiny_input_def tiny_output_def normConst_def)

lemma tiny_views:
  fixes t :: real
  defines "V \<equiv> interpret_memory tiny_model [t] tiny_params"
  shows "rows (weights V) = 1"
    and "s_logPost0 V (col tiny_input 0) 0 = 0"
    and "s_logPost1 V (col tiny_input 0) 0 = t"
    and "coeff tiny_output 0 0 = 1"
  unfolding V_def
  by (simp_all add: interpret_memory_groups s_logPost0_def s_logPost1_def s_featureOutput_def
      tiny_model_def tiny_params_def Parameters_default_def Map_m_def coeff_def col_def
      tiny_input_def tiny_output_def off_defs flag_size_def)

lemma tiny_column:
  fixes t :: real
  defines "V \<equiv> interpret_memory tiny_model [t] tiny_params"
  shows "s_logLik V (col tiny_input 0) 1 = t - ln (1 + exp t)"
    and "s_post1Tmp V (col tiny_input 0) 1 0 = 1 / (1 + exp t)"
proof -
  have p: "s_logProb0 V (col tiny_input 0) = 0" "s_logProb1 V (col tiny_input 0) = t"
    unfolding V_def by (simp_all add: s_logProb0_def s_logProb1_def tiny_views lse_eq)
  have n: "s_logNorm V (col tiny_input 0) = ln (1 + exp t)"
    by (simp add: s_logNorm_def p lse_two)
  have pos: "0 < 1 + exp t"
    by (simp add: add_pos_pos)
  show "s_logLik V (col tiny_input 0) 1 = t - ln (1 + exp t)"
    by (simp add: s_logLik_def p n)
  have "s_tmp V (col tiny_input 0) 1 = 1 / (1 + exp t)"
    using pos by (simp add: s_tmp_def p n exp_minus inverse_eq_divide)
  then show "s_post1Tmp V (col tiny_input 0) 1 0 = 1 / (1 + exp t)"
    unfolding V_def by (simp add: s_post1Tmp_def p [unfolded V_def] tiny_views)
qed

lemma tiny_sums:
  "logLik_sum (interpret_memory tiny_model [t] tiny_params) tiny_input tiny_output 1 =
     t - ln (1 + exp t)"
  "flat_layout (gradient_sums tiny_model (interpret_memory tiny_model [0] tiny_params)
      tiny_input tiny_output 1) tiny_params = [1 / 2]"
proof -
  show "logLik_sum (interpret_memory tiny_model [t] tiny_params) tiny_input tiny_output 1 =
     t - ln (1 + exp t)"
    by (simp add: logLik_sum_def tiny_views tiny_column)
  have "data (mOutputBias (gradient_sums tiny_model (interpret_memory tiny_model [0] tiny_params)
      tiny_input tiny_output 1)) = [1 / 2]"
    by (simp add: gradient_sums_def mk_matrix_def tiny_views tiny_column tiny_facts)
  then show "flat_layout (gradient_sums tiny_model (interpret_memory tiny_model [0] tiny_params)
      tiny_input tiny_output 1) tiny_params = [1 / 2]"
    by (simp add: flat_layout_def flagged_def tiny_params_def Parameters_default_def)
qed

lemma tiny_objective_eq:
  "tiny_objective = (\<lambda>t. objective tiny_model tiny_input tiny_output tiny_params ([0][0 := t]))"
  by (simp add: fun_eq_iff tiny_objective_def)

theorem computeGradient_gradient_sign_counterexample:
  "computeGradient tiny_model tiny_input tiny_output [0] (Some [0]) tiny_params =
     Some (Fin (tiny_objective 0), Some [Fin (ln 2 / 2)]) \<and>
   (tiny_objective has_real_derivative ln 2 / 2) (at 0) \<and>
   \<not> (tiny_objective has_real_derivative - (ln 2 / 2)) (at 0)"
proof -
  have one: "(1::nat) \<le> 1" "(0::nat) < 1" by simp_all
  have lx: "numParameters tiny_model tiny_params \<le> length [0::real]"
    by (simp add: tiny_facts)
  have N: "1 \<le> cols tiny_input"
    by (simp add: tiny_facts)
  have i: "0 < numParameters tiny_model tiny_params"
    by (simp add: tiny_facts)
  have v: "tiny_objective 0 = - ln 2 / (1 / ln 2)"
    using objective_closed(2) [OF wf_tiny_model lx tiny_facts(2,3,5) N]
    by (simp add: tiny_objective_def tiny_facts tiny_sums [unfolded One_nat_def])
  have cg: "computeGradient tiny_model tiny_input tiny_output [0] (Some [0]) tiny_params =
     Some (Fin (tiny_objective 0), Some [Fin (ln 2 / 2)])"
    using computeGradient_closed [OF wf_tiny_model lx tiny_facts(2,3,5) N, of "Some [0]"]
    by (simp add: tiny_facts tiny_sums [unfolded One_nat_def] v)
  have d: "(tiny_objective has_real_derivative ln 2 / 2) (at 0)"
    using DERIV_objective [OF wf_tiny_model lx tiny_facts(2,3,5) N i]
    unfolding tiny_objective_eq
    by (simp add: tiny_facts tiny_sums [unfolded One_nat_def])
  have "\<not> (tiny_objective has_real_derivative - (ln 2 / 2)) (at 0)"
  proof
    assume "(tiny_objective has_real_derivative - (ln 2 / 2)) (at 0)"
    from DERIV_unique [OF d this] have "ln (2::real) = 0" by simp
    then show False by simp
  qed
  with cg d show ?thesis by simp
qed

end
